theory Spec2Isabelle
  imports Complex_Main "HOL-Library.AList"
begin

section \<open>Data model (types.ts)\<close>

text \<open>
  JavaScript numbers are modelled as \<^typ>\<open>real\<close>: the simulation's comparisons, clamps
  and sums are the ones of the source, rounding of IEEE doubles is not modelled. Objects
  used as dictionaries (\<open>Inventory\<close>, \<open>happinessModifiers\<close>) are association lists
  with \<open>AList.update\<close>, which like a JavaScript object replaces the value of an existing
  key in place and appends a new key at the end. Strings are byte lists; the keys and
  messages of the source that contain non-ASCII letters are written in UTF-8.
\<close>

type_synonym Inventory = "(string \<times> real) list"

record PlayerSkills =
  gerente :: nat
  sortudo :: nat
  tratador :: nat
  treinador :: nat

record Player =
  pl_name :: string
  profilePictureUrl :: "string option"
  energy :: real
  maxEnergy :: real
  money :: real
  inventory :: Inventory
  level :: real
  experience :: real
  experienceToNextLevel :: real
  skills :: PlayerSkills
  skillPoints :: real
  team :: "string list"

text \<open>\<open>this.inventory[item] || 0\<close>: a missing key reads as 0.\<close>

definition inv_get :: "Inventory \<Rightarrow> string \<Rightarrow> real" where
  "inv_get iv item = (case map_of iv item of None \<Rightarrow> 0 | Some v \<Rightarrow> v)"

definition addItem :: "Player \<Rightarrow> string \<Rightarrow> real \<Rightarrow> Player" where
  "addItem player item count =
     player\<lparr>inventory := AList.update item (inv_get (inventory player) item + count) (inventory player)\<rparr>"

definition removeItem :: "Player \<Rightarrow> string \<Rightarrow> real \<Rightarrow> Player \<times> bool" where
  "removeItem player item count =
     (if inv_get (inventory player) item \<ge> count then
        (let inv1 = AList.update item (inv_get (inventory player) item - count) (inventory player);
             inv2 = (if inv_get inv1 item \<le> 0 then AList.delete item inv1 else inv1)
         in (player\<lparr>inventory := inv2\<rparr>, True))
      else (player, False))"

datatype PlotState = Empty | Growing | Mature

record CropPlot =
  cp_id :: string
  cp_x :: real
  cp_y :: real
  cp_state :: PlotState
  cp_type :: "string option"
  growthDays :: real
  matureTimeInDays :: real
  fertilized :: bool
  isWatered :: bool
  cp_rotation :: real

definition plant :: "CropPlot \<Rightarrow> string \<Rightarrow> CropPlot" where
  "plant plot seedType =
     plot\<lparr>cp_state := Growing, cp_type := Some seedType, growthDays := 0,
          matureTimeInDays := 1 / 2, fertilized := False, isWatered := False\<rparr>"

text \<open>\<open>String.prototype.replace\<close> with a string pattern replaces the first occurrence.\<close>

fun replace_first :: "string \<Rightarrow> string \<Rightarrow> string \<Rightarrow> string" where
  "replace_first pat rep [] = (if pat = [] then rep else [])"
| "replace_first pat rep (c # cs) =
     (if take (length pat) (c # cs) = pat then rep @ drop (length pat) (c # cs)
      else c # replace_first pat rep cs)"

text \<open>\<open>toLowerCase\<close> on the ASCII letters (seed names are ASCII identifiers).\<close>

definition lower_char :: "char \<Rightarrow> char" where
  "lower_char c =
     (if (65::nat) \<le> of_char c \<and> of_char c \<le> (90::nat) then char_of (of_char c + (32::nat)) else c)"

definition toLowerCase :: "string \<Rightarrow> string" where
  "toLowerCase s = map lower_char s"

text \<open>Truthiness of a \<open>string | null\<close>: the empty string is falsy like \<open>null\<close>.\<close>

definition truthy_str :: "string option \<Rightarrow> bool" where
  "truthy_str s = (case s of None \<Rightarrow> False | Some t \<Rightarrow> t \<noteq> [])"

definition reset :: "CropPlot \<Rightarrow> CropPlot" where
  "reset plot =
     plot\<lparr>cp_state := Empty, cp_type := None, growthDays := 0, fertilized := False, isWatered := False\<rparr>"

text \<open>
  \<open>CropPlot.harvest(player)\<close>. The argument \<open>r\<close> is the value \<open>Math.random()\<close> returns
  in the call (the source draws it only in the mature branch). The guard is
  \<open>this.state === 'mature' && this.type\<close>, false for a \<open>null\<close> or empty type. The result
  is the plot, the player and the returned \<open>{type, count}\<close> (or \<open>null\<close>).
\<close>

definition harvest :: "real \<Rightarrow> CropPlot \<Rightarrow> Player \<Rightarrow> CropPlot \<times> Player \<times> (string \<times> real) option" where
  "harvest r plot player =
     (case cp_type plot of
        None \<Rightarrow> (plot, player, None)
      | Some t \<Rightarrow>
          if cp_state plot = Mature \<and> t \<noteq> [] then
            (let doubleChance = (if fertilized plot then 15 / 100 else 5 / 100 :: real);
                 yieldCount = (if r < doubleChance then 2 else 1 :: real);
                 cropType = toLowerCase (replace_first ''seed'' [] t)
             in (reset plot, addItem player cropType yieldCount, Some (cropType, yieldCount)))
          else (plot, player, None))"

text \<open>\<open>water(bonusPercentage)\<close>: the source never reads its argument, which is left out.\<close>

definition water :: "CropPlot \<Rightarrow> CropPlot" where
  "water plot = (if cp_state plot = Growing \<and> \<not> isWatered plot then plot\<lparr>isWatered := True\<rparr> else plot)"

section \<open>World, buildings, resources\<close>

type_synonym point = "real \<times> real"

record Storage =
  pokemonKind :: "string option"
  revivingFossil :: "string option"
  revivalProgress :: "real option"

record Building =
  b_id :: string
  b_type :: string
  b_x :: real
  b_y :: real
  b_w :: real
  b_h :: real
  storage :: Storage
  b_rotation :: real

datatype ResourceState = Bush | Flower

record Resource =
  r_id :: string
  r_type :: string
  r_x :: real
  r_y :: real
  r_size :: real
  r_shapeVariant :: real
  r_sizeVariant :: real
  spawnDay :: "real option"
  r_state :: "ResourceState option"

text \<open>\<open>FertileZone\<close>: a circle (x, y, r) or a polygon (points, center, radius).\<close>

datatype FertileZone = Circle real real real | Poly "point list" point real

record Special =
  sp_type :: string
  sp_points :: "point list"

record Cosmetic =
  c_type :: string
  c_x :: real
  c_y :: real
  c_size :: real
  c_shapeVariant :: real
  c_sizeVariant :: real

record FarmWorld =
  world_w :: real
  world_h :: real
  structs :: "Building list"
  resources :: "Resource list"
  specials :: "Special list"
  fertileZones :: "FertileZone list"
  cosmeticElements :: "Cosmetic list"

section \<open>Geometry and placement (services/game.ts)\<close>

definition clamp :: "real \<Rightarrow> real \<Rightarrow> real \<Rightarrow> real" where
  "clamp v a b = max a (min b v)"

text \<open>
  \<open>isPointInPolygon\<close>: the loop \<open>for (i = 0, j = n - 1; i < n; j = i++)\<close> visits every
  vertex \<open>i\<close> with its predecessor \<open>j\<close>, the last vertex preceding the first. The
  division is only evaluated when the two ordinates lie on different sides of the point,
  hence differ.
\<close>

definition intersect :: "point \<Rightarrow> point \<Rightarrow> point \<Rightarrow> bool" where
  "intersect pt vi vj =
     (((snd vi > snd pt) \<noteq> (snd vj > snd pt))
      \<and> fst pt < (fst vj - fst vi) * (snd pt - snd vi) / (snd vj - snd vi) + fst vi)"

fun pip_loop :: "point \<Rightarrow> point \<Rightarrow> point list \<Rightarrow> bool \<Rightarrow> bool" where
  "pip_loop pt vj [] isInside = isInside"
| "pip_loop pt vj (vi # rest) isInside =
     pip_loop pt vi rest (if intersect pt vi vj then \<not> isInside else isInside)"

definition isPointInPolygon :: "point \<Rightarrow> point list \<Rightarrow> bool" where
  "isPointInPolygon pt polygon =
     (case polygon of [] \<Rightarrow> False | _ # _ \<Rightarrow> pip_loop pt (last polygon) polygon False)"

text \<open>
  \<open>Math.random()\<close> is a stream \<open>rnd :: nat \<Rightarrow> real\<close> of the values the shared generator
  returns, read at a position that every draw advances. \<open>rint(min, max)\<close> makes one draw.
\<close>

definition rint_at :: "(nat \<Rightarrow> real) \<Rightarrow> nat \<Rightarrow> real \<Rightarrow> real \<Rightarrow> real" where
  "rint_at rnd n lo hi = of_int \<lfloor>rnd n * (hi - lo + 1)\<rfloor> + lo"

text \<open>The bounding box (minX, minY, maxX, maxY) of a polygon with at least one vertex.\<close>

definition bbox :: "point \<Rightarrow> point list \<Rightarrow> real \<times> real \<times> real \<times> real" where
  "bbox p ps = (fold min (map fst ps) (fst p), fold min (map snd ps) (snd p),
                fold max (map fst ps) (fst p), fold max (map snd ps) (snd p))"

fun river_attempts :: "(nat \<Rightarrow> real) \<Rightarrow> point list \<Rightarrow> real \<times> real \<times> real \<times> real \<Rightarrow> nat \<Rightarrow> nat
    \<Rightarrow> point option \<times> nat" where
  "river_attempts rnd poly bb 0 n = (None, n)"
| "river_attempts rnd poly (minX, minY, maxX, maxY) (Suc k) n =
     (let pt = (rint_at rnd n minX maxX, rint_at rnd (n + 1) minY maxY)
      in if isPointInPolygon pt poly then (Some pt, n + 2)
         else river_attempts rnd poly (minX, minY, maxX, maxY) k (n + 2))"

text \<open>
  \<open>getRandomPointInRiver\<close>: at most 100 attempts in the bounding box of the river. Takes
  and returns the position in the random stream. With no vertex the box of the source is
  (Infinity, -Infinity), no candidate is inside, and the 100 attempts (200 draws) fail.
\<close>

definition getRandomPointInRiver :: "(nat \<Rightarrow> real) \<Rightarrow> FarmWorld \<Rightarrow> nat \<Rightarrow> point option \<times> nat" where
  "getRandomPointInRiver rnd wd n =
     (case find (\<lambda>s. sp_type s = ''river'') (specials wd) of
        None \<Rightarrow> (None, n)
      | Some river \<Rightarrow>
          (case sp_points river of
             [] \<Rightarrow> (None, n + 200)
           | p # ps \<Rightarrow> river_attempts rnd (sp_points river) (bbox p ps) 100 n))"

definition isPositionInvalid :: "real \<Rightarrow> real \<Rightarrow> FarmWorld \<Rightarrow> bool \<Rightarrow> bool" where
  "isPositionInvalid x y world isFlying =
     (if isFlying then False
      else if (\<exists>s \<in> set (structs world). b_type s \<noteq> ''river_area'' \<and> x > b_x s - 20
                 \<and> x < b_x s + b_w s + 20 \<and> y > b_y s - 20 \<and> y < b_y s + b_h s + 20) then True
      else (\<exists>sp \<in> set (specials world). isPointInPolygon (x, y) (sp_points sp)))"

definition a_tilde :: string where "a_tilde = [CHR 0xC3, CHR 0xA3]"
definition a_acute :: string where "a_acute = [CHR 0xC3, CHR 0xA1]"
definition e_acute :: string where "e_acute = [CHR 0xC3, CHR 0xA9]"
definition e_circ :: string where "e_circ = [CHR 0xC3, CHR 0xAA]"
definition o_acute :: string where "o_acute = [CHR 0xC3, CHR 0xB3]"
definition o_circ :: string where "o_circ = [CHR 0xC3, CHR 0xB4]"
definition c_cedil :: string where "c_cedil = [CHR 0xC3, CHR 0xA7]"

definition msg_no_quarry :: string where
  "msg_no_quarry = ''Erro: Pedreira n'' @ a_tilde @ ''o encontrada no mapa.''"
definition msg_mine_quarry :: string where
  "msg_mine_quarry = ''A Mina deve ser constru'' @ [CHR 0xC3, CHR 0xAD] @ ''da sobre a '' @ a_acute @ ''rea da pedreira.''"
definition msg_boundary :: string where
  "msg_boundary = ''Voc'' @ e_circ @ '' n'' @ a_tilde @ ''o pode construir fora da '' @ a_acute @ ''rea da fazenda.''"
definition msg_quarry :: string where
  "msg_quarry = ''Voc'' @ e_circ @ '' n'' @ a_tilde @ ''o pode construir na '' @ a_acute @ ''rea da pedreira.''"
definition msg_water :: string where
  "msg_water = ''Voc'' @ e_circ @ '' n'' @ a_tilde @ ''o pode construir sobre a '' @ a_acute @ ''gua.''"
definition msg_fertile :: string where
  "msg_fertile = ''Voc'' @ e_circ @ '' n'' @ a_tilde @ ''o pode construir sobre solo f'' @ e_acute @ ''rtil.''"
definition msg_occupied :: string where
  "msg_occupied = ''Voc'' @ e_circ @ '' n'' @ a_tilde @ ''o pode construir aqui, o espa'' @ c_cedil @ ''o est'' @ a_acute @ '' ocupado.''"

text \<open>The inner loop over \<open>world.specials\<close> for one check point; \<open>Some\<close> is the early return.\<close>

fun check_specials :: "string option \<Rightarrow> point \<Rightarrow> Special list \<Rightarrow> string option" where
  "check_specials ty pt [] = None"
| "check_specials ty pt (sp # sps) =
     (if sp_type sp = ''quarry'' then
        (if ty \<noteq> Some ''mine'' \<and> isPointInPolygon pt (sp_points sp) then Some msg_quarry
         else check_specials ty pt sps)
      else
        (if isPointInPolygon pt (sp_points sp) then Some msg_water
         else check_specials ty pt sps))"

fun check_fertile :: "point \<Rightarrow> FertileZone list \<Rightarrow> string option" where
  "check_fertile pt [] = None"
| "check_fertile pt (Circle cx cy r # fzs) = check_fertile pt fzs"
| "check_fertile pt (Poly pts center radius # fzs) =
     (if isPointInPolygon pt pts then Some msg_fertile else check_fertile pt fzs)"

fun check_points :: "string option \<Rightarrow> FarmWorld \<Rightarrow> point list \<Rightarrow> string option" where
  "check_points ty world [] = None"
| "check_points ty world (pt # pts) =
     (case check_specials ty pt (specials world) of
        Some m \<Rightarrow> Some m
      | None \<Rightarrow>
          (case check_fertile pt (fertileZones world) of
             Some m \<Rightarrow> Some m
           | None \<Rightarrow> check_points ty world pts))"

fun check_structs :: "real \<Rightarrow> real \<Rightarrow> real \<Rightarrow> real \<Rightarrow> Building list \<Rightarrow> string option" where
  "check_structs x1 y1 x2 y2 [] = None"
| "check_structs x1 y1 x2 y2 (s # ss) =
     (if b_type s \<noteq> ''river_area'' \<and> x1 < b_x s + b_w s \<and> x2 > b_x s
         \<and> y1 < b_y s + b_h s \<and> y2 > b_y s
      then Some msg_occupied else check_structs x1 y1 x2 y2 ss)"

definition checkPoints :: "real \<Rightarrow> real \<Rightarrow> real \<Rightarrow> real \<Rightarrow> point list" where
  "checkPoints x y w h = [(x, y), (x + w, y), (x, y + h), (x + w, y + h), (x + w / 2, y + h / 2)]"

text \<open>
  \<open>isPlacementAreaClear(x, y, w, h, world, type)\<close>, returning \<open>(clear, message)\<close>. The world
  is an argument and no world is returned: the source reads it only.
\<close>

definition mine_check :: "real \<Rightarrow> real \<Rightarrow> real \<Rightarrow> real \<Rightarrow> FarmWorld \<Rightarrow> string option \<Rightarrow> string option" where
  "mine_check x y w h world ty =
     (if ty = Some ''mine'' then
        (case find (\<lambda>s. sp_type s = ''quarry'') (specials world) of
           None \<Rightarrow> Some msg_no_quarry
         | Some quarry \<Rightarrow>
             if \<not> isPointInPolygon (x + w / 2, y + h / 2) (sp_points quarry)
             then Some msg_mine_quarry else None)
      else None)"

definition isPlacementAreaClear ::
  "real \<Rightarrow> real \<Rightarrow> real \<Rightarrow> real \<Rightarrow> FarmWorld \<Rightarrow> string option \<Rightarrow> bool \<times> string" where
  "isPlacementAreaClear x y w h world ty =
     (let x1 = x; y1 = y; x2 = x + w; y2 = y + h; boundaryPadding = 20
      in case mine_check x y w h world ty of
           Some m \<Rightarrow> (False, m)
         | None \<Rightarrow>
             if x1 < boundaryPadding \<or> x2 > world_w world - boundaryPadding
                \<or> y1 < boundaryPadding \<or> y2 > world_h world - boundaryPadding
             then (False, msg_boundary)
             else (case check_points ty world (checkPoints x y w h) of
                     Some m \<Rightarrow> (False, m)
                   | None \<Rightarrow>
                       (case check_structs x1 y1 x2 y2 (structs world) of
                          Some m \<Rightarrow> (False, m)
                        | None \<Rightarrow> (True, []))))"

section \<open>Creatures and game state (types.ts)\<close>

datatype Gender = Male | Female

datatype AiState = Idle | Moving | Working

datatype TeleportState = TpHome | TpAway

text \<open>\<open>HappinessModifier = number | {value, daysLeft}\<close>.\<close>

datatype HappinessModifier = Flat real | Decaying real real

record Target =
  t_x :: real
  t_y :: real
  t_id :: "string option"

record Pokemon =
  pk_id :: string
  pk_name :: string
  kind :: string
  pk_x :: real
  pk_y :: real
  isShiny :: bool
  gender :: Gender
  age :: real
  maxAge :: real
  homeBuildingId :: "string option"
  cooldown :: real
  target :: "Target option"
  aiState :: AiState
  moveSpeed :: real
  isSleeping :: bool
  Poder :: "real option"
  teleportState :: "TeleportState option"
  teleportTimer :: "real option"
  actionTimer :: "real option"
  isImmortal :: bool
  scheduledDeathHour :: "real option"
  torchicsCured :: "real option"
  applesHarvested :: "real option"
  happiness :: real
  happinessModifiers :: "(string \<times> HappinessModifier) list"
  isNew :: bool

datatype WeatherType = Clear | Rain | Storm | HarshSunlight

record Ticket =
  tk_type :: string
  timer :: real

record GameEvent =
  e_id :: string
  e_type :: string
  message :: string

text \<open>
  \<open>GameState\<close>, with the fields the simulation core reads or writes. The fields that only
  the user interface uses (camera, sprite cache, tasks, alarms, timer, world clocks, rain
  display data, starter choice) are left out. \<open>drawn\<close> is not a field of the source: it is
  the state of the shared random generator, the number of \<open>Math.random()\<close> calls made so
  far.
\<close>

record GameState =
  player :: Player
  world :: FarmWorld
  pokemons :: "Pokemon list"
  cropPlots :: "CropPlot list"
  gameTime :: real
  day :: real
  lastProductionDate :: string
  lastUpdateTimestamp :: real
  dailyIncome :: "(string \<times> real) list"
  dailySpawns :: "(string \<times> real) list"
  dailyResourceSpawns :: "(string \<times> bool) list"
  respawnQueue :: "Ticket list"
  dailyPidgeyBonusCount :: real
  weatherToday :: WeatherType
  hasEncounteredEkans :: "bool option"
  hasEncounteredSpearow :: "bool option"
  dayChangeHour :: real
  eventQueue :: "GameEvent list"
  drawn :: nat

section \<open>Constants and environment\<close>

text \<open>
  The module \<open>constants\<close> is not among the sources. Its tables are parameters of the model,
  collected in the record \<open>Constants\<close>; no theorem depends on their values. An entry of
  \<open>POKEMON_ABILITIES\<close> is a record of the properties the simulation reads; a property that
  the source tests before use is optional.
\<close>

record Ability =
  a_type :: "string option"
  rate :: "real option"
  passive_income_rate :: "real option"
  bonus :: real
  item :: string
  a_cooldown :: real
  amount :: real
  chance :: "real option"
  a_from :: string
  a_to :: string
  items :: "string list"
  huntChance :: "real option"
  biteChance :: "real option"

record Constants =
  regenPerSec :: real
  maxTrees :: real
  maxRocks :: real
  maxWildPlants :: real
  respawn_apple_tree :: "real option"
  respawn_wild_plant :: "real option"
  POKEMON_ABILITIES :: "string \<Rightarrow> Ability option"
  capacity_coop :: real
  capacity_stable :: real
  capacity_farm_area :: "real option"
  capacity_laboratory :: "real option"
  POKEMON_LIFESPANS :: "string \<Rightarrow> real option"
  POKEMON_EVOLUTIONS :: "string \<Rightarrow> string option"
  NIGHT_COUNTERPARTS :: "(string \<times> string \<times> real) list"
  DAY_COUNTERPARTS :: "string list"
  ITEM_DISPLAY_NAMES :: "string \<Rightarrow> string option"

text \<open>
  The environment of one call: the stream of values of \<open>Math.random()\<close>, the wall clock
  (\<open>Date.now()\<close>, and the hours, minutes and seconds of \<open>new Date()\<close>), the date string
  \<open>year-month-day\<close> of the wall clock moved back by a number of hours (the calendar
  arithmetic of \<open>Date\<close> is not modelled), and the conversion of a number to a string in a
  template literal.
\<close>

record Env =
  random :: "nat \<Rightarrow> real"
  nowMs :: real
  clockHours :: real
  clockMinutes :: real
  clockSeconds :: real
  dateStringBack :: "real \<Rightarrow> string"
  numString :: "real \<Rightarrow> string"

text \<open>
  \<open>Math.random()\<close> returns a value in [0, 1). A stream value outside this range is read
  as 0, so that every stream stands for a run of the generator.
\<close>

definition draw :: "Env \<Rightarrow> nat \<Rightarrow> real" where
  "draw env n = (if 0 \<le> random env n \<and> random env n < 1 then random env n else 0)"

definition rint :: "Env \<Rightarrow> nat \<Rightarrow> real \<Rightarrow> real \<Rightarrow> real" where
  "rint env n lo hi = rint_at (draw env) n lo hi"

text \<open>\<open>a || d\<close> for an optional number: \<open>undefined\<close> and 0 are falsy.\<close>

definition truthy_num :: "real option \<Rightarrow> bool" where
  "truthy_num a = (case a of None \<Rightarrow> False | Some v \<Rightarrow> v \<noteq> 0)"

definition or_default :: "real option \<Rightarrow> real \<Rightarrow> real" where
  "or_default a d = (case a of None \<Rightarrow> d | Some v \<Rightarrow> if v = 0 then d else v)"

text \<open>\<open>xs[i]\<close> for a number \<open>i\<close>: \<open>undefined\<close> unless \<open>i\<close> is an index of the array.\<close>

definition js_nth :: "'a list \<Rightarrow> real \<Rightarrow> 'a option" where
  "js_nth xs i =
     (if 0 \<le> i \<and> i < real (length xs) \<and> of_int \<lfloor>i\<rfloor> = i then Some (xs ! nat \<lfloor>i\<rfloor>) else None)"

definition endsWith :: "string \<Rightarrow> string \<Rightarrow> bool" where
  "endsWith s suffix = (length suffix \<le> length s \<and> drop (length s - length suffix) s = suffix)"

definition hypot :: "real \<Rightarrow> real \<Rightarrow> real" where
  "hypot a b = sqrt (a * a + b * b)"

text \<open>
  The constructor \<open>new Pokemon(kind, x, y, isShiny)\<close>, from stream position \<open>n\<close>: one draw
  for the id, one for the gender unless the species pins it.
\<close>

definition new_Pokemon :: "Constants \<Rightarrow> Env \<Rightarrow> nat \<Rightarrow> string \<Rightarrow> real \<Rightarrow> real \<Rightarrow> bool \<Rightarrow> Pokemon \<times> nat" where
  "new_Pokemon C env n k x y shiny =
     (let pid = ''poke_'' @ numString env (nowMs env) @ ''_'' @ numString env (draw env n);
          g = (if k = ''Miltank'' then Female else if k = ''Tauros'' then Male
               else if draw env (n + 1) < 1 / 2 then Male else Female);
          n' = (if k = ''Miltank'' \<or> k = ''Tauros'' then n + 1 else n + 2)
      in (\<lparr>pk_id = pid, pk_name = k, kind = k, pk_x = x, pk_y = y, isShiny = shiny, gender = g,
           age = 0, maxAge = or_default (POKEMON_LIFESPANS C k) 100, homeBuildingId = None,
           cooldown = 0, target = None, aiState = Idle, moveSpeed = 30, isSleeping = False,
           Poder = None, teleportState = None, teleportTimer = None, actionTimer = None,
           isImmortal = False, scheduledDeathHour = None,
           torchicsCured = (if k \<in> set [''Happiny'', ''Chansey'', ''Blissey''] then Some 0 else None),
           applesHarvested =
             (if k \<in> set [''Mankey'', ''Primeape'', ''Aipom'', ''Ambipom''] then Some 0 else None),
           happiness = 50, happinessModifiers = [], isNew = True\<rparr>, n'))"

text \<open>\<open>new Resource(type, x, y, day)\<close>: four draws (id, size, shape and size variants).\<close>

definition new_Resource :: "Env \<Rightarrow> nat \<Rightarrow> string \<Rightarrow> real \<Rightarrow> real \<Rightarrow> real option \<Rightarrow> Resource \<times> nat" where
  "new_Resource env n ty x y d =
     (\<lparr>r_id = ''res_'' @ numString env (nowMs env) @ ''_'' @ numString env (draw env n),
       r_type = ty, r_x = x, r_y = y, r_size = draw env (n + 1) * (2 / 10) + 9 / 10,
       r_shapeVariant = rint env (n + 2) 0 2, r_sizeVariant = rint env (n + 3) 0 2,
       spawnDay = (if ty = ''wild_plant'' then d else None),
       r_state = (if ty = ''wild_plant'' then Some Bush else None)\<rparr>, n + 4)"

definition new_Building :: "Env \<Rightarrow> nat \<Rightarrow> string \<Rightarrow> real \<Rightarrow> real \<Rightarrow> real \<Rightarrow> real \<Rightarrow> Building \<times> nat" where
  "new_Building env n ty x y w h =
     (\<lparr>b_id = ''bld_'' @ numString env (nowMs env) @ ''_'' @ numString env (draw env n),
       b_type = ty, b_x = x, b_y = y, b_w = w, b_h = h,
       storage = \<lparr>pokemonKind = None, revivingFossil = None, revivalProgress = None\<rparr>,
       b_rotation = 0\<rparr>, n + 1)"

definition new_CropPlot :: "Env \<Rightarrow> nat \<Rightarrow> real \<Rightarrow> real \<Rightarrow> CropPlot \<times> nat" where
  "new_CropPlot env n x y =
     (\<lparr>cp_id = ''plot_'' @ numString env (nowMs env) @ ''_'' @ numString env (draw env n),
       cp_x = x, cp_y = y, cp_state = Empty, cp_type = None, growthDays = 0,
       matureTimeInDays = 1 / 2, fertilized = False, isWatered = False, cp_rotation = 0\<rparr>, n + 1)"

definition calculateShinyChance :: "Player \<Rightarrow> real" where
  "calculateShinyChance pl =
     3 / 1000 + (case js_nth [0, 5 / 10000, 1 / 1000] (real (sortudo (skills pl))) of
                   None \<Rightarrow> 0 | Some b \<Rightarrow> b)"

section \<open>Continuous systems\<close>

definition updatePlayer :: "Constants \<Rightarrow> Player \<Rightarrow> real \<Rightarrow> Player" where
  "updatePlayer C pl dt = pl\<lparr>energy := clamp (energy pl + regenPerSec C * dt) 0 (maxEnergy pl)\<rparr>"

text \<open>
  \<open>updatePassiveIncome\<close>: one creature's contribution. The rate is
  \<open>ability.rate || ability.passive_income_rate\<close>.
\<close>

definition income_rate :: "Ability \<Rightarrow> real option" where
  "income_rate a = (if truthy_num (rate a) then rate a else passive_income_rate a)"

definition passive_income_one :: "Constants \<Rightarrow> real \<Rightarrow> real \<Rightarrow> Pokemon \<Rightarrow> GameState \<Rightarrow> GameState" where
  "passive_income_one C dt managerBonus p gs =
     (if isSleeping p then gs
      else case POKEMON_ABILITIES C (kind p) of
        None \<Rightarrow> gs
      | Some a \<Rightarrow>
          if a_type a = Some ''passive_income'' \<or> truthy_num (passive_income_rate a)
          then (case income_rate a of
                  None \<Rightarrow> gs
                | Some rt \<Rightarrow>
                    if rt = 0 then gs
                    else (let income = (rt * dt) * managerBonus;
                              gs1 = gs\<lparr>player := (player gs)\<lparr>money := money (player gs) + income\<rparr>\<rparr>
                          in if income > 0
                             then gs1\<lparr>dailyIncome :=
                                    AList.update (kind p) (inv_get (dailyIncome gs1) (kind p) + income)
                                      (dailyIncome gs1)\<rparr>
                             else gs1))
          else gs)"

definition updatePassiveIncome :: "Constants \<Rightarrow> GameState \<Rightarrow> real \<Rightarrow> GameState" where
  "updatePassiveIncome C gs dt =
     (let managerBonus = or_default (js_nth [1, 105 / 100, 110 / 100, 115 / 100, 120 / 100, 125 / 100]
                                      (real (gerente (skills (player gs))))) 1
      in fold (passive_income_one C dt managerBonus) (pokemons gs) gs)"


section \<open>Resource respawn (updateWorld)\<close>

text \<open>The first loop: every ticket's timer is decremented; the expired ones are split off.\<close>

definition tick_queue :: "real \<Rightarrow> Ticket list \<Rightarrow> Ticket list \<times> Ticket list" where
  "tick_queue dt q =
     (let q' = map (\<lambda>t. t\<lparr>timer := timer t - dt\<rparr>) q
      in (filter (\<lambda>t. timer t > 0) q', filter (\<lambda>t. \<not> timer t > 0) q'))"

text \<open>Up to 50 candidates in the bounding box of a fertile polygon, two draws each.\<close>

fun zone_attempts :: "Env \<Rightarrow> FarmWorld \<Rightarrow> point list \<Rightarrow> real \<times> real \<times> real \<times> real \<Rightarrow> nat \<Rightarrow> nat
    \<Rightarrow> point option \<times> nat" where
  "zone_attempts env wd pts bb 0 n = (None, n)"
| "zone_attempts env wd pts (minX, minY, maxX, maxY) (Suc k) n =
     (let candidateX = rint env n minX maxX; candidateY = rint env (n + 1) minY maxY
      in if isPointInPolygon (candidateX, candidateY) pts
            \<and> \<not> isPositionInvalid candidateX candidateY wd False
         then (Some (candidateX, candidateY), n + 2)
         else zone_attempts env wd pts (minX, minY, maxX, maxY) k (n + 2))"

text \<open>
  \<open>isTree && Math.random() < 0.5 && fertileZones.length > 0\<close>: the draw is made for every
  tree. The zone index \<open>rint(0, length - 1)\<close> is an index of the array because the draw
  lies in [0, 1). A polygon without vertices has an infinite box in the source: its 50
  candidates (100 draws) all fail.
\<close>

definition fertile_spawn :: "Env \<Rightarrow> GameState \<Rightarrow> bool \<Rightarrow> point option \<times> GameState" where
  "fertile_spawn env gs isTree =
     (if \<not> isTree then (None, gs)
      else (let r = draw env (drawn gs); gs1 = gs\<lparr>drawn := drawn gs + 1\<rparr>
            in if r < 1 / 2 \<and> fertileZones (world gs) \<noteq> [] then
                 (let idx = rint env (drawn gs1) 0 (real (length (fertileZones (world gs))) - 1);
                      gs2 = gs1\<lparr>drawn := drawn gs1 + 1\<rparr>
                  in case js_nth (fertileZones (world gs)) idx of
                       Some (Poly pts c rad) \<Rightarrow>
                         (case pts of
                            [] \<Rightarrow> (None, gs2\<lparr>drawn := drawn gs2 + 100\<rparr>)
                          | p # ps \<Rightarrow>
                              (let res = zone_attempts env (world gs) pts (bbox p ps) 50 (drawn gs2)
                               in (fst res, gs2\<lparr>drawn := snd res\<rparr>)))
                     | _ \<Rightarrow> (None, gs2))
               else (None, gs1)))"

text \<open>
  The fallback \<open>do { ... attempts++ } while (invalid && attempts < 100)\<close>. The first
  argument counts the attempts still allowed, so \<open>attempts = 100 - k\<close> after the body and
  \<open>attempts < 100\<close> is \<open>k > 0\<close>. The Boolean returned is the final test \<open>attempts < 100\<close>.
\<close>

fun fallback_loop :: "Env \<Rightarrow> FarmWorld \<Rightarrow> nat \<Rightarrow> nat \<Rightarrow> (real \<times> real \<times> bool) \<times> nat" where
  "fallback_loop env wd 0 n = ((0, 0, False), n)"
| "fallback_loop env wd (Suc k) n =
     (let x = rint env n 50 (world_w wd - 50); y = rint env (n + 1) 50 (world_h wd - 50)
      in if isPositionInvalid x y wd False \<and> k > 0 then fallback_loop env wd k (n + 2)
         else ((x, y, k > 0), n + 2))"

text \<open>The Combee roll after a tree has been spawned.\<close>

definition combee_spawn :: "Constants \<Rightarrow> Env \<Rightarrow> Resource \<Rightarrow> GameState \<Rightarrow> GameState" where
  "combee_spawn C env newRes gs =
     (let combeeFamilyCount = length (filter (\<lambda>p. kind p \<in> set [''Combee'', ''Vespiquen'']) (pokemons gs))
      in if combeeFamilyCount < 3 \<and> inv_get (dailySpawns gs) ''Combee'' < 1 then
           (let nearbyFlowers = filter (\<lambda>r. r_type r = ''wild_plant'' \<and> r_state r = Some Flower
                                   \<and> hypot (r_x newRes - r_x r) (r_y newRes - r_y r) < 80)
                                  (resources (world gs))
            in if length nearbyFlowers \<ge> 2 then
                 (if draw env (drawn gs) < 25 / 100 then
                    (let shiny = draw env (drawn gs + 1) < calculateShinyChance (player gs);
                         x = r_x newRes + rint env (drawn gs + 2) (- 20) 20;
                         y = r_y newRes + rint env (drawn gs + 3) (- 20) 20;
                         pn = new_Pokemon C env (drawn gs + 4) ''Combee'' x y shiny
                     in gs\<lparr>pokemons := pokemons gs @ [fst pn],
                           dailySpawns := AList.update ''Combee'' (inv_get (dailySpawns gs) ''Combee'' + 1)
                                            (dailySpawns gs),
                           drawn := snd pn\<rparr>)
                  else gs\<lparr>drawn := drawn gs + 1\<rparr>)
               else gs)
         else gs)"

text \<open>A spawn point has been found: the 10% apple-tree upgrade, the new resource, the Combee roll.\<close>

definition place_resource :: "Constants \<Rightarrow> Env \<Rightarrow> Ticket \<Rightarrow> real \<Rightarrow> real \<Rightarrow> GameState \<Rightarrow> GameState" where
  "place_resource C env ticket x y gs =
     (let oakOrPine = (tk_type ticket = ''oak_tree'' \<or> tk_type ticket = ''pine_tree'');
          typeToSpawn = (if oakOrPine \<and> draw env (drawn gs) < 1 / 10 then ''apple_tree''
                         else tk_type ticket);
          gs1 = (if oakOrPine then gs\<lparr>drawn := drawn gs + 1\<rparr> else gs)
      in if typeToSpawn = [] then gs1
         else (let rn = new_Resource env (drawn gs1) typeToSpawn x y (Some (day gs1));
                   gs2 = gs1\<lparr>world := (world gs1)\<lparr>resources := resources (world gs1) @ [fst rn]\<rparr>,
                              drawn := snd rn\<rparr>
               in if endsWith typeToSpawn ''_tree'' then combee_spawn C env (fst rn) gs2 else gs2))"

text \<open>The branch \<open>canSpawn\<close>: search a spawn point, then place. A failed search drops the ticket.\<close>

definition spawn_item :: "Constants \<Rightarrow> Env \<Rightarrow> Ticket \<Rightarrow> bool \<Rightarrow> GameState \<Rightarrow> GameState" where
  "spawn_item C env ticket isTree gs =
     (case fertile_spawn env gs isTree of
        (Some (x, y), gs1) \<Rightarrow> place_resource C env ticket x y gs1
      | (None, gs1) \<Rightarrow>
          (case fallback_loop env (world gs1) 100 (drawn gs1) of
             ((x, y, found), n') \<Rightarrow>
               if found then place_resource C env ticket x y (gs1\<lparr>drawn := n'\<rparr>)
               else gs1\<lparr>drawn := n'\<rparr>))"

text \<open>
  One expired ticket, with the running counts (trees, rocks, wild plants) of the pass. A
  ticket that may not spawn is re-armed: \<open>item.timer = 10; gs.respawnQueue.push(item)\<close>.
\<close>

definition respawn_item :: "Constants \<Rightarrow> Env \<Rightarrow> Ticket \<Rightarrow> GameState \<times> real \<times> real \<times> real
    \<Rightarrow> GameState \<times> real \<times> real \<times> real" where
  "respawn_item C env ticket st =
     (case st of (gs, treeCount, rockCount, plantCount) \<Rightarrow>
        (let isTree = endsWith (tk_type ticket) ''_tree'';
             isRock = (tk_type ticket = ''rock'');
             isPlant = (tk_type ticket = ''wild_plant'')
         in if isTree \<and> treeCount < maxTrees C
              then (spawn_item C env ticket isTree gs, treeCount + 1, rockCount, plantCount)
            else if isRock \<and> rockCount < maxRocks C
              then (spawn_item C env ticket isTree gs, treeCount, rockCount + 1, plantCount)
            else if isPlant \<and> plantCount < maxWildPlants C
              then (spawn_item C env ticket isTree gs, treeCount, rockCount, plantCount + 1)
            else (gs\<lparr>respawnQueue := respawnQueue gs @ [ticket\<lparr>timer := 10\<rparr>]\<rparr>,
                  treeCount, rockCount, plantCount)))"

text \<open>\<open>item.type.endsWith('_tree')\<close> for a ticket.\<close>

definition isTreeTicket :: "Ticket \<Rightarrow> bool" where
  "isTreeTicket t = endsWith (tk_type t) ''_tree''"

definition treeCountOf :: "GameState \<Rightarrow> nat" where
  "treeCountOf gs = length (filter (\<lambda>r. endsWith (r_type r) ''_tree'') (resources (world gs)))"

definition updateWorld :: "Constants \<Rightarrow> Env \<Rightarrow> GameState \<Rightarrow> real \<Rightarrow> GameState" where
  "updateWorld C env gs dt =
     (case tick_queue dt (respawnQueue gs) of
        (remainingQueue, itemsToRespawn) \<Rightarrow>
          (let gs1 = gs\<lparr>respawnQueue := remainingQueue\<rparr>
           in if itemsToRespawn \<noteq> [] then
                (let treeCount = real (treeCountOf gs1);
                     rockCount = real (length (filter (\<lambda>r. r_type r = ''rock'') (resources (world gs1))));
                     plantCount = real (length (filter (\<lambda>r. r_type r = ''wild_plant'') (resources (world gs1))))
                 in fst (fold (respawn_item C env) itemsToRespawn (gs1, treeCount, rockCount, plantCount)))
              else gs1))"


section \<open>Creature behaviour (updatePokemons)\<close>

text \<open>The remainder \<open>x % m\<close> of JavaScript numbers takes the sign of the dividend.\<close>

definition js_mod :: "real \<Rightarrow> real \<Rightarrow> real" where
  "js_mod x m = x - m * of_int (if x / m \<ge> 0 then \<lfloor>x / m\<rfloor> else \<lceil>x / m\<rceil>)"

definition hourOf :: "real \<Rightarrow> real" where
  "hourOf t = of_int \<lfloor>js_mod t 86400 / 3600\<rfloor>"

fun findIndex :: "('a \<Rightarrow> bool) \<Rightarrow> 'a list \<Rightarrow> nat option" where
  "findIndex P [] = None"
| "findIndex P (x # xs) = (if P x then Some 0 else map_option Suc (findIndex P xs))"

text \<open>\<open>xs.splice(i, 1)\<close>.\<close>

definition remove_at :: "nat \<Rightarrow> 'a list \<Rightarrow> 'a list" where
  "remove_at i xs = take i xs @ drop (Suc i) xs"

text \<open>
  \<open>findClosest(source, targets)\<close>: the first target at the least distance. The targets
  are given with their coordinates; \<open>minDist = None\<close> stands for \<open>Infinity\<close>.
\<close>

fun closest_loop :: "real \<Rightarrow> real \<Rightarrow> (real \<times> real \<times> 'a) list \<Rightarrow> real option \<Rightarrow> 'a option \<Rightarrow> 'a option" where
  "closest_loop sx sy [] minDist closest = closest"
| "closest_loop sx sy ((tx, ty, a) # ts) minDist closest =
     (let dist = hypot (sx - tx) (sy - ty)
      in if (case minDist of None \<Rightarrow> True | Some m \<Rightarrow> dist < m)
         then closest_loop sx sy ts (Some dist) (Some a)
         else closest_loop sx sy ts minDist closest)"

definition findClosest :: "Pokemon \<Rightarrow> (real \<times> real \<times> 'a) list \<Rightarrow> 'a option" where
  "findClosest source targets = closest_loop (pk_x source) (pk_y source) targets None None"

text \<open>The crop plots that satisfy a condition, with their positions and indices in \<open>gs.cropPlots\<close>.\<close>

definition plot_targets :: "(CropPlot \<Rightarrow> bool) \<Rightarrow> CropPlot list \<Rightarrow> (real \<times> real \<times> nat) list" where
  "plot_targets P plots =
     map (\<lambda>(i, pl). (cp_x pl, cp_y pl, i)) (filter (\<lambda>(i, pl). P pl) (enumerate 0 plots))"

definition flyingPokemonKinds :: "string list" where
  "flyingPokemonKinds = [''Zubat'', ''Golbat'', ''Crobat'', ''Pidgey'', ''Pidgeotto'', ''Pidgeot'', ''Aerodactyl'']"

definition housePatrolKinds :: "string list" where
  "housePatrolKinds = [''Growlithe'', ''Arcanine'', ''Meowth'', ''Persian'']"

definition abraFamily :: "string list" where
  "abraFamily = [''Abra'', ''Kadabra'', ''Alakazam'']"

definition riverPokemonKinds :: "string list" where
  "riverPokemonKinds = [''Magikarp'', ''Gyarados'', ''Psyduck'', ''Lapras'']"

definition key_luto_especie :: string where
  "key_luto_especie = ''Luto (Mesma Esp'' @ e_acute @ ''cie)''"

definition key_luto_companheiro :: string where
  "key_luto_companheiro = ''Luto (Companheiro)''"

text \<open>The death check: the condition, the grief of a housemate, the ghost.\<close>

definition death_due :: "Pokemon \<Rightarrow> real \<Rightarrow> bool" where
  "death_due p currentHour =
     (case scheduledDeathHour p of None \<Rightarrow> False | Some h \<Rightarrow> currentHour \<ge> h)"

definition grieve :: "Pokemon \<Rightarrow> Pokemon \<Rightarrow> Pokemon" where
  "grieve p_dead p_survivor =
     (if homeBuildingId p_survivor = homeBuildingId p_dead \<and> pk_id p_survivor \<noteq> pk_id p_dead then
        (if kind p_survivor = kind p_dead
         then p_survivor\<lparr>happinessModifiers :=
                AList.update key_luto_especie (Decaying (- 20) 3) (happinessModifiers p_survivor)\<rparr>
         else p_survivor\<lparr>happinessModifiers :=
                AList.update key_luto_companheiro (Decaying (- 10) 3) (happinessModifiers p_survivor)\<rparr>)
      else p_survivor)"

text \<open>
  The ghost of a dead creature, from stream position \<open>n\<close>: one draw for the ghost's kind,
  one against the ghost chance, and for a ghost one for its shininess, the constructor's
  draws and one against the immortality chance.
\<close>

definition ghost_of :: "Constants \<Rightarrow> Env \<Rightarrow> Player \<Rightarrow> Pokemon \<Rightarrow> nat \<Rightarrow> Pokemon option \<times> nat" where
  "ghost_of C env pl p_dead n =
     (let ghostKind0 = (if draw env n < 1 / 2 then ''Gastly'' else ''Litwick'');
          ghostChance = (if kind p_dead = ''Primeape'' then 5 / 100 else 15 / 100 :: real);
          ghostKind = (if kind p_dead = ''Primeape'' then ''Annihilape'' else ghostKind0)
      in if draw env (n + 1) < ghostChance then
           (let isNewGhostShiny = draw env (n + 2) < calculateShinyChance pl;
                gn = new_Pokemon C env (n + 3) ghostKind (pk_x p_dead) (pk_y p_dead) isNewGhostShiny;
                immortalityChance = (if isShiny p_dead \<or> isShiny (fst gn) then 1 / 2 else 1 / 1000 :: real);
                newGhost = (if draw env (snd gn) < immortalityChance then (fst gn)\<lparr>isImmortal := True\<rparr>
                            else fst gn)
            in (Some newGhost, snd gn + 1))
         else (None, n + 2))"

text \<open>The action timer of the animation.\<close>

definition action_timer_step :: "real \<Rightarrow> Pokemon \<Rightarrow> Pokemon" where
  "action_timer_step dt p =
     (case actionTimer p of
        None \<Rightarrow> p
      | Some a \<Rightarrow>
          if a > 0 then
            (if a - dt \<le> 0
             then p\<lparr>actionTimer := Some 0, aiState := (if aiState p = Working then Idle else aiState p)\<rparr>
             else p\<lparr>actionTimer := Some (a - dt)\<rparr>)
          else p)"

text \<open>
  \<open>gs.world.structs.find(s => s.id === p.homeBuildingId)\<close>: the weak reference is
  resolved by a search; with \<open>null\<close> or an id of no building the result is \<open>undefined\<close>.
\<close>

definition find_building :: "FarmWorld \<Rightarrow> string option \<Rightarrow> Building option" where
  "find_building wd hid = find (\<lambda>s. Some (b_id s) = hid) (structs wd)"

text \<open>
  Teleportation of the Abra family. The search for a place away from home is the same
  \<open>do ... while\<close> loop as the respawn fallback.
\<close>

definition teleport_away :: "Env \<Rightarrow> Pokemon \<Rightarrow> GameState \<Rightarrow> Pokemon \<times> GameState" where
  "teleport_away env p gs =
     (let p1 = p\<lparr>teleportState := Some TpAway, teleportTimer := Some (rint env (drawn gs) 60 120)\<rparr>
      in case fallback_loop env (world gs) 100 (drawn gs + 1) of
           ((targetX, targetY, found), n') \<Rightarrow>
             (if found then p1\<lparr>pk_x := targetX, pk_y := targetY, target := None, aiState := Idle\<rparr>
              else p1\<lparr>teleportState := Some TpHome, teleportTimer := Some 30\<rparr>,
              gs\<lparr>drawn := n'\<rparr>))"

definition teleport_home :: "Env \<Rightarrow> Pokemon \<Rightarrow> GameState \<Rightarrow> Pokemon \<times> GameState" where
  "teleport_home env p gs =
     (let p1 = p\<lparr>teleportState := Some TpHome, teleportTimer := Some (rint env (drawn gs) 180 300)\<rparr>;
          gs1 = gs\<lparr>drawn := drawn gs + 1\<rparr>
      in case find_building (world gs) (homeBuildingId p) of
           None \<Rightarrow> (p1\<lparr>teleportTimer := Some 60\<rparr>, gs1)
         | Some homeBuilding \<Rightarrow>
             if b_type homeBuilding = ''lake'' then
               (let radius = min (b_w homeBuilding) (b_h homeBuilding) / 2 * (9 / 10);
                    angle = draw env (drawn gs1) * pi * 2;
                    r = draw env (drawn gs1 + 1) * radius
                in (p1\<lparr>pk_x := (b_x homeBuilding + b_w homeBuilding / 2) + cos angle * r,
                       pk_y := (b_y homeBuilding + b_h homeBuilding / 2) + sin angle * r,
                       target := None, aiState := Idle\<rparr>,
                    gs1\<lparr>drawn := drawn gs1 + 2\<rparr>))
             else (p1\<lparr>teleportTimer := Some 60\<rparr>, gs1))"

definition teleport_step :: "Env \<Rightarrow> real \<Rightarrow> Pokemon \<Rightarrow> GameState \<Rightarrow> Pokemon \<times> GameState" where
  "teleport_step env dt p gs =
     (if kind p \<in> set abraFamily then
        (let p1 = (if teleportState p = None
                   then p\<lparr>teleportState := Some TpHome, teleportTimer := Some (rint env (drawn gs) 30 60)\<rparr>
                   else p);
             gs1 = (if teleportState p = None then gs\<lparr>drawn := drawn gs + 1\<rparr> else gs);
             tt = max 0 ((case teleportTimer p1 of None \<Rightarrow> 0 | Some v \<Rightarrow> v) - dt);
             p2 = p1\<lparr>teleportTimer := Some tt\<rparr>
         in if tt \<le> 0 then
              (if teleportState p2 = Some TpHome then teleport_away env p2 gs1
               else teleport_home env p2 gs1)
            else (p2, gs1))
      else (p, gs))"

text \<open>Automatic abilities. A completed task resets the cooldown and starts the animation.\<close>

definition complete_task :: "Ability \<Rightarrow> Pokemon \<Rightarrow> Pokemon" where
  "complete_task a p = p\<lparr>cooldown := a_cooldown a, aiState := Working, actionTimer := Some 1\<rparr>"

definition set_resources :: "Resource list \<Rightarrow> GameState \<Rightarrow> GameState" where
  "set_resources rs gs = gs\<lparr>world := (world gs)\<lparr>resources := rs\<rparr>\<rparr>"

definition apple_eater_action :: "Ability \<Rightarrow> Pokemon \<Rightarrow> GameState \<Rightarrow> Pokemon \<times> GameState" where
  "apple_eater_action a p gs =
     (case findIndex (\<lambda>r. r_type r = ''apple_tree'') (resources (world gs)) of
        None \<Rightarrow> (p, gs)
      | Some i \<Rightarrow> (complete_task a p, set_resources (remove_at i (resources (world gs))) gs))"

definition water_crop_action :: "Ability \<Rightarrow> Pokemon \<Rightarrow> GameState \<Rightarrow> Pokemon \<times> GameState" where
  "water_crop_action a p gs =
     (case findClosest p (plot_targets (\<lambda>pl. cp_state pl = Growing \<and> \<not> isWatered pl) (cropPlots gs)) of
        None \<Rightarrow> (p, gs)
      | Some i \<Rightarrow> (complete_task a p, gs\<lparr>cropPlots := (cropPlots gs)[i := water (cropPlots gs ! i)]\<rparr>))"

definition fertilize_crop_action :: "Ability \<Rightarrow> Pokemon \<Rightarrow> GameState \<Rightarrow> Pokemon \<times> GameState" where
  "fertilize_crop_action a p gs =
     (case findClosest p (plot_targets (\<lambda>pl. cp_state pl = Growing \<and> \<not> fertilized pl) (cropPlots gs)) of
        None \<Rightarrow> (p, gs)
      | Some i \<Rightarrow> (complete_task a p,
                   gs\<lparr>cropPlots := (cropPlots gs)[i := (cropPlots gs ! i)\<lparr>fertilized := True\<rparr>]\<rparr>))"

definition harvest_apple_tree_action :: "Constants \<Rightarrow> Env \<Rightarrow> Ability \<Rightarrow> Pokemon \<Rightarrow> GameState
    \<Rightarrow> Pokemon \<times> GameState" where
  "harvest_apple_tree_action C env a p gs =
     (case findIndex (\<lambda>r. r_type r = ''apple_tree'') (resources (world gs)) of
        None \<Rightarrow> (p, gs)
      | Some i \<Rightarrow>
          (let applesCollected = rint env (drawn gs) 1 3;
               gs1 = set_resources (remove_at i (resources (world gs))) gs;
               gs2 = gs1\<lparr>respawnQueue := respawnQueue gs1
                           @ [\<lparr>tk_type = ''oak_tree'', timer = or_default (respawn_apple_tree C) 240\<rparr>],
                         player := addItem (player gs1) ''apple'' applesCollected,
                         drawn := drawn gs1 + 1\<rparr>
           in (complete_task a
                 (p\<lparr>applesHarvested := Some (or_default (applesHarvested p) 0 + applesCollected)\<rparr>),
               gs2)))"

definition harvest_plant_action :: "Constants \<Rightarrow> Ability \<Rightarrow> Pokemon \<Rightarrow> GameState \<Rightarrow> Pokemon \<times> GameState" where
  "harvest_plant_action C a p gs =
     (case findIndex (\<lambda>r. r_type r = ''wild_plant'') (resources (world gs)) of
        None \<Rightarrow> (p, gs)
      | Some i \<Rightarrow>
          (let plant = resources (world gs) ! i;
               it = (if r_state plant = Some Bush then ''fiber'' else ''flower'');
               gs1 = gs\<lparr>player := addItem (player gs) it 1\<rparr>;
               gs2 = set_resources (remove_at i (resources (world gs1))) gs1
           in (complete_task a p,
               gs2\<lparr>respawnQueue := respawnQueue gs2
                     @ [\<lparr>tk_type = ''wild_plant'', timer = or_default (respawn_wild_plant C) 150\<rparr>]\<rparr>)))"

definition cooldown_item_action :: "Ability \<Rightarrow> Pokemon \<Rightarrow> GameState \<Rightarrow> Pokemon \<times> GameState" where
  "cooldown_item_action a p gs =
     (if \<not> (kind p = ''Onix'' \<or> kind p = ''Steelix'')
      then (complete_task a p, gs\<lparr>player := addItem (player gs) (item a) 1\<rparr>)
      else if truthy_str (homeBuildingId p) then
        (case find_building (world gs) (homeBuildingId p) of
           None \<Rightarrow> (p, gs)
         | Some home \<Rightarrow>
             if pk_x p > b_x home \<and> pk_x p < b_x home + b_w home
                \<and> pk_y p > b_y home \<and> pk_y p < b_y home + b_h home
             then (complete_task a p, gs\<lparr>player := addItem (player gs) (item a) 1\<rparr>)
             else (p, gs))
      else (p, gs))"

text \<open>The \<open>switch (ability.type)\<close>.\<close>

definition ability_action :: "Constants \<Rightarrow> Env \<Rightarrow> Ability \<Rightarrow> Pokemon \<Rightarrow> GameState \<Rightarrow> Pokemon \<times> GameState" where
  "ability_action C env a p gs =
     (if a_type a = Some ''apple_eater'' then apple_eater_action a p gs
      else if a_type a = Some ''water_crop'' then water_crop_action a p gs
      else if a_type a = Some ''fertilize_crop'' then fertilize_crop_action a p gs
      else if a_type a = Some ''harvest_apple_tree'' then harvest_apple_tree_action C env a p gs
      else if a_type a = Some ''harvest_plant'' then harvest_plant_action C a p gs
      else if a_type a = Some ''cooldown_item'' then cooldown_item_action a p gs
      else (p, gs))"

definition ability_step :: "Constants \<Rightarrow> Env \<Rightarrow> Pokemon \<Rightarrow> GameState \<Rightarrow> Pokemon \<times> GameState" where
  "ability_step C env p gs =
     (case POKEMON_ABILITIES C (kind p) of
        None \<Rightarrow> (p, gs)
      | Some a \<Rightarrow>
          if cooldown p \<le> 0 \<and> aiState p \<noteq> Working then ability_action C env a p gs else (p, gs))"

text \<open>Movement towards the target.\<close>

definition movement_step :: "real \<Rightarrow> Pokemon \<Rightarrow> Pokemon" where
  "movement_step dt p =
     (case target p of
        None \<Rightarrow> p
      | Some t \<Rightarrow>
          (let dist = hypot (t_x t - pk_x p) (t_y t - pk_y p)
           in if dist > 10 then
                (let dx = t_x t - pk_x p; dy = t_y t - pk_y p
                 in p\<lparr>pk_x := pk_x p + (dx / dist) * moveSpeed p * dt,
                      pk_y := pk_y p + (dy / dist) * moveSpeed p * dt\<rparr>)
              else p\<lparr>target := None, aiState := Idle\<rparr>))"

text \<open>
  Position clamping. \<open>home\<close> is
  \<open>(p.homeBuildingId && !isAbraFamilyAway) ? structs.find(s => s.id === p.homeBuildingId) : null\<close>.
\<close>

definition home_of :: "Pokemon \<Rightarrow> GameState \<Rightarrow> Building option" where
  "home_of p gs =
     (if truthy_str (homeBuildingId p) \<and> \<not> (kind p \<in> set abraFamily \<and> teleportState p = Some TpAway)
      then find_building (world gs) (homeBuildingId p) else None)"

definition atan2 :: "real \<Rightarrow> real \<Rightarrow> real" where
  "atan2 y x =
     (if x > 0 then arctan (y / x)
      else if x < 0 then (if y \<ge> 0 then arctan (y / x) + pi else arctan (y / x) - pi)
      else if y > 0 then pi / 2 else if y < 0 then - (pi / 2) else 0)"

definition river_resnap :: "Env \<Rightarrow> Pokemon \<Rightarrow> GameState \<Rightarrow> Pokemon \<times> GameState" where
  "river_resnap env p gs =
     (case find (\<lambda>s. sp_type s = ''river'') (specials (world gs)) of
        None \<Rightarrow> (p, gs)
      | Some river \<Rightarrow>
          if \<not> isPointInPolygon (pk_x p, pk_y p) (sp_points river) then
            (case getRandomPointInRiver (draw env) (world gs) (drawn gs) of
               (None, n') \<Rightarrow> (p, gs\<lparr>drawn := n'\<rparr>)
             | (Some riverTarget, n') \<Rightarrow>
                 (p\<lparr>pk_x := fst riverTarget, pk_y := snd riverTarget, target := None, aiState := Idle\<rparr>,
                  gs\<lparr>drawn := n'\<rparr>))
          else (p, gs))"

definition radial_clamp :: "Building \<Rightarrow> Pokemon \<Rightarrow> Pokemon" where
  "radial_clamp home p =
     (let centerX = b_x home + b_w home / 2;
          centerY = b_y home + b_h home / 2;
          radius = min (b_w home) (b_h home) / 2 * (9 / 10);
          distFromCenter = hypot (pk_x p - centerX) (pk_y p - centerY)
      in if distFromCenter > radius then
           (let angle = atan2 (pk_y p - centerY) (pk_x p - centerX)
            in p\<lparr>pk_x := centerX + cos angle * radius, pk_y := centerY + sin angle * radius,
                 target := None, aiState := Idle\<rparr>)
         else p)"

text \<open>
  The branches taken without a home building (or by a flying creature): the river-bound
  species are re-snapped into the river, the others are clamped to the world's fence.
\<close>

definition homeless_clamp :: "Env \<Rightarrow> Pokemon \<Rightarrow> GameState \<Rightarrow> Pokemon \<times> GameState" where
  "homeless_clamp env p gs =
     (if kind p \<in> set riverPokemonKinds then river_resnap env p gs
      else (let fencePadding = 50;
                p1 = p\<lparr>pk_x := clamp (pk_x p) fencePadding (world_w (world gs) - fencePadding),
                       pk_y := clamp (pk_y p) fencePadding (world_h (world gs) - fencePadding)\<rparr>
            in if \<not> kind p \<in> set flyingPokemonKinds
                  \<and> isPositionInvalid (pk_x p1) (pk_y p1) (world gs) False
               then (p1\<lparr>target := None, aiState := Idle\<rparr>, gs)
               else (p1, gs)))"

definition clamp_step :: "Env \<Rightarrow> Pokemon \<Rightarrow> GameState \<Rightarrow> Pokemon \<times> GameState" where
  "clamp_step env p gs =
     (case home_of p gs of
        None \<Rightarrow> homeless_clamp env p gs
      | Some home \<Rightarrow>
          if \<not> kind p \<in> set flyingPokemonKinds then
            (if b_type home = ''river_area'' then river_resnap env p gs
             else if b_type home = ''lake'' \<or> b_type home = ''laboratory''
               then (radial_clamp home p, gs)
             else (let padding = 10
                   in (p\<lparr>pk_x := clamp (pk_x p) (b_x home + padding) (b_x home + b_w home - padding),
                         pk_y := clamp (pk_y p) (b_y home + padding) (b_y home + b_h home - padding)\<rparr>,
                       gs)))
          else homeless_clamp env p gs)"

text \<open>Idle wander: the candidate targets.\<close>

fun patrol_attempts :: "Env \<Rightarrow> FarmWorld \<Rightarrow> Building \<Rightarrow> nat \<Rightarrow> nat \<Rightarrow> point option \<times> nat" where
  "patrol_attempts env wd house 0 n = (None, n)"
| "patrol_attempts env wd house (Suc k) n =
     (let angle = draw env n * pi * 2;
          radius = 80 + draw env (n + 1) * 120;
          tempX = (b_x house + b_w house / 2) + cos angle * radius;
          tempY = (b_y house + b_h house / 2) + sin angle * radius
      in if \<not> isPositionInvalid tempX tempY wd False then (Some (tempX, tempY), n + 2)
         else patrol_attempts env wd house k (n + 2))"

fun roam_attempts :: "Env \<Rightarrow> FarmWorld \<Rightarrow> real \<Rightarrow> real \<Rightarrow> bool \<Rightarrow> nat \<Rightarrow> nat \<Rightarrow> point option \<times> nat" where
  "roam_attempts env wd px py isFlying 0 n = (None, n)"
| "roam_attempts env wd px py isFlying (Suc k) n =
     (let tempX = px + rint env n (- 120) 120;
          tempY = py + rint env (n + 1) (- 120) 120;
          clampedX = clamp tempX 50 (world_w wd - 50);
          clampedY = clamp tempY 50 (world_h wd - 50)
      in if \<not> isPositionInvalid clampedX clampedY wd isFlying then (Some (clampedX, clampedY), n + 2)
         else roam_attempts env wd px py isFlying k (n + 2))"

definition homeless_wander :: "Env \<Rightarrow> Pokemon \<Rightarrow> GameState \<Rightarrow> nat \<Rightarrow> point option \<times> nat" where
  "homeless_wander env p gs n =
     (if kind p \<in> set riverPokemonKinds then getRandomPointInRiver (draw env) (world gs) n
      else roam_attempts env (world gs) (pk_x p) (pk_y p) (kind p \<in> set flyingPokemonKinds) 10 n)"

definition wander_target :: "Env \<Rightarrow> Pokemon \<Rightarrow> GameState \<Rightarrow> nat \<Rightarrow> point option \<times> nat" where
  "wander_target env p gs n =
     (if kind p \<in> set housePatrolKinds then
        (case find (\<lambda>s. b_type s = ''house'') (structs (world gs)) of
           None \<Rightarrow> (None, n)
         | Some house \<Rightarrow> patrol_attempts env (world gs) house 10 n)
      else
        (case home_of p gs of
           None \<Rightarrow> homeless_wander env p gs n
         | Some home \<Rightarrow>
             if \<not> kind p \<in> set flyingPokemonKinds then
               (if b_type home = ''river_area'' then getRandomPointInRiver (draw env) (world gs) n
                else if b_type home = ''lake'' \<or> b_type home = ''laboratory'' then
                  (let radius = min (b_w home) (b_h home) / 2 * (9 / 10);
                       angle = draw env n * pi * 2;
                       r = draw env (n + 1) * radius
                   in (Some ((b_x home + b_w home / 2) + cos angle * r,
                             (b_y home + b_h home / 2) + sin angle * r), n + 2))
                else (Some (b_x home + rint env n 10 (b_w home - 10),
                            b_y home + rint env (n + 1) 10 (b_h home - 10)), n + 2))
             else homeless_wander env p gs n))"

definition wander_step :: "Env \<Rightarrow> Pokemon \<Rightarrow> GameState \<Rightarrow> Pokemon \<times> GameState" where
  "wander_step env p gs =
     (if aiState p = Idle then
        (if draw env (drawn gs) < 1 / 100 then
           (case wander_target env p gs (drawn gs + 1) of
              (None, n') \<Rightarrow> (p, gs\<lparr>drawn := n'\<rparr>)
            | (Some (targetX, targetY), n') \<Rightarrow>
                (p\<lparr>target := Some \<lparr>t_x = targetX, t_y = targetY, t_id = None\<rparr>, aiState := Moving\<rparr>,
                 gs\<lparr>drawn := n'\<rparr>))
         else (p, gs\<lparr>drawn := drawn gs + 1\<rparr>))
      else (p, gs))"

text \<open>
  The part of the \<open>forEach\<close> callback after the death and sleep checks, for the creature
  \<open>p\<close>: it changes \<open>p\<close> and the rest of the state, never another creature.
\<close>

definition behave :: "Constants \<Rightarrow> Env \<Rightarrow> real \<Rightarrow> Pokemon \<Rightarrow> GameState \<Rightarrow> Pokemon \<times> GameState" where
  "behave C env dt p gs =
     (let p1 = action_timer_step dt p;
          s2 = teleport_step env dt p1 gs;
          p3 = (fst s2)\<lparr>cooldown := max 0 (cooldown (fst s2) - dt)\<rparr>;
          s4 = ability_step C env p3 (snd s2);
          p5 = movement_step dt (fst s4);
          s6 = clamp_step env p5 (snd s4)
      in wander_step env (fst s6) (snd s6))"

text \<open>
  The callback for the creature at index \<open>i\<close> of \<open>gs.pokemons\<close>. The loop state is the game
  state (whose creature objects are mutated in place), \<open>pokemonsToKeep\<close> as the list of the
  indices kept (the array holds the same objects, so a later grief modifier reaches a
  creature already kept), and \<open>newGhosts\<close>.
\<close>

definition pokemon_tick :: "Constants \<Rightarrow> Env \<Rightarrow> real \<Rightarrow> real \<Rightarrow> nat
    \<Rightarrow> GameState \<times> nat list \<times> Pokemon list \<Rightarrow> GameState \<times> nat list \<times> Pokemon list" where
  "pokemon_tick C env dt currentHour i st =
     (case st of (gs, pokemonsToKeep, newGhosts) \<Rightarrow>
        (let p_dead = pokemons gs ! i
         in if death_due p_dead currentHour then
              (let gs1 = (if truthy_str (homeBuildingId p_dead)
                          then gs\<lparr>pokemons := map (grieve p_dead) (pokemons gs)\<rparr> else gs);
                   gh = ghost_of C env (player gs1) p_dead (drawn gs1)
               in (gs1\<lparr>drawn := snd gh\<rparr>, pokemonsToKeep,
                   (case fst gh of None \<Rightarrow> newGhosts | Some g \<Rightarrow> newGhosts @ [g])))
            else if isSleeping p_dead then (gs, pokemonsToKeep @ [i], newGhosts)
            else (case behave C env dt p_dead gs of
                    (p', gs') \<Rightarrow>
                      (gs'\<lparr>pokemons := (pokemons gs')[i := p']\<rparr>, pokemonsToKeep @ [i], newGhosts))))"

definition updatePokemons_loop :: "Constants \<Rightarrow> Env \<Rightarrow> GameState \<Rightarrow> real
    \<Rightarrow> GameState \<times> nat list \<times> Pokemon list" where
  "updatePokemons_loop C env gs dt =
     fold (pokemon_tick C env dt (hourOf (gameTime gs))) [0..<length (pokemons gs)] (gs, [], [])"

definition updatePokemons :: "Constants \<Rightarrow> Env \<Rightarrow> GameState \<Rightarrow> real \<Rightarrow> GameState" where
  "updatePokemons C env gs dt =
     (case updatePokemons_loop C env gs dt of
        (gs', pokemonsToKeep, newGhosts) \<Rightarrow>
          gs'\<lparr>pokemons := map (\<lambda>i. pokemons gs' ! i) pokemonsToKeep @ newGhosts\<rparr>)"

section \<open>Well-being (updatePokemonHappiness)\<close>

text \<open>
  A property read of \<open>undefined\<close> throws a \<open>TypeError\<close>. In the simulation core this can
  happen where an entry of a constants table is used without a test.
\<close>

datatype error = TypeError

definition FIRE_TYPES :: "string list" where
  "FIRE_TYPES = [''Charmander'', ''Charmeleon'', ''Charizard'', ''Growlithe'', ''Arcanine'', ''Torchic'',
     ''Combusken'', ''Blaziken'', ''Litwick'', ''Lampent'', ''Chandelure'']"

definition WATER_TYPES :: "string list" where
  "WATER_TYPES = [''Squirtle'', ''Wartortle'', ''Blastoise'', ''Lotad'', ''Lombre'', ''Ludicolo'', ''Goldeen'',
     ''Seaking'', ''Psyduck'', ''Magikarp'', ''Gyarados'', ''Lapras'', ''Omanyte'', ''Omastar'', ''Kabuto'',
     ''Kabutops'', ''Tirtouga'', ''Carracosta'']"

definition ELECTRIC_TYPES :: "string list" where
  "ELECTRIC_TYPES = [''Pichu'', ''Pikachu'', ''Raichu'', ''Mareep'', ''Flaaffy'', ''Ampharos'']"

definition PROTECTOR_TYPES :: "string list" where
  "PROTECTOR_TYPES = [''Growlithe'', ''Arcanine'', ''Meowth'', ''Persian'', ''Spearow'', ''Fearow'']"

definition PEST_TYPES :: "string list" where
  "PEST_TYPES = [''Rattata'', ''Raticate'', ''Ekans'', ''Arbok'']"

definition key_novo_especie :: string where
  "key_novo_especie = ''Novo Companheiro (Mesma Esp'' @ e_acute @ ''cie)''"
definition key_novo :: string where
  "key_novo = ''Novo Companheiro''"
definition key_protecao :: string where
  "key_protecao = ''B'' @ o_circ @ ''nus de Prote'' @ c_cedil @ a_tilde @ ''o''"
definition key_praga :: string where
  "key_praga = ''Estresse de Praga''"
definition key_companheirismo :: string where
  "key_companheirismo = ''B'' @ o_circ @ ''nus de Companheirismo''"
definition key_rivalidade :: string where
  "key_rivalidade = ''Rivalidade''"
definition key_tratador :: string where
  "key_tratador = ''B'' @ o_circ @ ''nus de Tratador''"
definition key_chuva :: string where
  "key_chuva = ''B'' @ o_circ @ ''nus de Chuva''"
definition key_malestar_chuva :: string where
  "key_malestar_chuva = ''Mal-estar de Chuva''"
definition key_sol :: string where
  "key_sol = ''B'' @ o_circ @ ''nus de Sol Forte''"
definition key_desconforto_sol :: string where
  "key_desconforto_sol = ''Desconforto do Sol''"
definition key_tempestade :: string where
  "key_tempestade = ''B'' @ o_circ @ ''nus de Tempestade''"
definition key_estresse_tempestade :: string where
  "key_estresse_tempestade = ''Estresse de Tempestade''"
definition key_picada :: string where
  "key_picada = ''Picada de Ekans''"

text \<open>Phase 1, for the new creature at index \<open>i\<close>: its housemates are greeted, its flag is cleared.\<close>

definition greet :: "Pokemon \<Rightarrow> Pokemon \<Rightarrow> Pokemon" where
  "greet newPokemon resident =
     (if homeBuildingId resident = homeBuildingId newPokemon \<and> pk_id resident \<noteq> pk_id newPokemon then
        (let m1 = (if kind resident = kind newPokemon
                   then AList.update key_novo_especie (Decaying 20 3) (happinessModifiers resident)
                   else happinessModifiers resident)
         in resident\<lparr>happinessModifiers := AList.update key_novo (Decaying 10 3) m1\<rparr>)
      else resident)"

definition new_pokemon_event :: "nat \<Rightarrow> Pokemon list \<Rightarrow> Pokemon list" where
  "new_pokemon_event i ps =
     (let newPokemon = ps ! i;
          ps1 = (if truthy_str (homeBuildingId newPokemon) then map (greet newPokemon) ps else ps)
      in ps1[i := (ps1 ! i)\<lparr>isNew := False\<rparr>])"

text \<open>
  Phases 2 and 3 for one creature. The loop over the old modifiers keeps a decaying entry
  with more than one day left (one day less) and the flat trainer bonus.
\<close>

definition decay_entry :: "string \<times> HappinessModifier \<Rightarrow> (string \<times> HappinessModifier) list
    \<Rightarrow> (string \<times> HappinessModifier) list" where
  "decay_entry e newModifiers =
     (case snd e of
        Decaying v daysLeft \<Rightarrow>
          if daysLeft > 1 then AList.update (fst e) (Decaying v (daysLeft - 1)) newModifiers
          else newModifiers
      | Flat v \<Rightarrow>
          if fst e = key_tratador then AList.update (fst e) (Flat v) newModifiers else newModifiers)"

definition decay_mods :: "(string \<times> HappinessModifier) list \<Rightarrow> (string \<times> HappinessModifier) list" where
  "decay_mods oldModifiers = fold decay_entry oldModifiers []"

record FarmConditions =
  hasProtector :: bool
  pestCount :: nat
  hasTauros :: bool
  hasBouffalant :: bool
  tratadorBonus :: "real option"

definition farm_conditions :: "GameState \<Rightarrow> FarmConditions" where
  "farm_conditions gs =
     \<lparr>hasProtector = (\<exists>p \<in> set (pokemons gs). kind p \<in> set PROTECTOR_TYPES),
      pestCount = length (filter (\<lambda>p. kind p \<in> set PEST_TYPES) (pokemons gs)),
      hasTauros = (\<exists>p \<in> set (pokemons gs). kind p = ''Tauros''),
      hasBouffalant = (\<exists>p \<in> set (pokemons gs). kind p = ''Bouffalant''),
      tratadorBonus = js_nth [0, 2, 4, 6, 8, 10] (real (tratador (skills (player gs))))\<rparr>"

definition upd_if :: "bool \<Rightarrow> string \<Rightarrow> HappinessModifier \<Rightarrow> (string \<times> HappinessModifier) list
    \<Rightarrow> (string \<times> HappinessModifier) list" where
  "upd_if c k v m = (if c then AList.update k v m else m)"

definition static_mods :: "FarmConditions \<Rightarrow> string \<Rightarrow> (string \<times> HappinessModifier) list
    \<Rightarrow> (string \<times> HappinessModifier) list" where
  "static_mods fc k m0 =
     (let m1 = upd_if (hasProtector fc \<and> k \<notin> set PROTECTOR_TYPES) key_protecao (Flat 10) m0;
          m2 = upd_if (pestCount fc > 0 \<and> k \<notin> set PEST_TYPES) key_praga
                 (Flat (- 5 * real (pestCount fc))) m1;
          m3 = upd_if (k = ''Miltank'' \<and> (hasTauros fc \<or> hasBouffalant fc)) key_companheirismo (Flat 10) m2;
          m4 = upd_if (k = ''Tauros'' \<and> hasBouffalant fc) key_rivalidade (Flat (- 10)) m3;
          m5 = upd_if (k = ''Bouffalant'' \<and> hasTauros fc) key_rivalidade (Flat (- 10)) m4
      in case tratadorBonus fc of
           None \<Rightarrow> m5
         | Some b \<Rightarrow> upd_if (b > 0) key_tratador (Flat b) m5)"

definition weather_mods :: "WeatherType \<Rightarrow> string \<Rightarrow> (string \<times> HappinessModifier) list
    \<Rightarrow> (string \<times> HappinessModifier) list" where
  "weather_mods wt k m =
     (case wt of
        Rain \<Rightarrow> upd_if (k \<in> set FIRE_TYPES) key_malestar_chuva (Flat (- 10))
                  (upd_if (k \<in> set WATER_TYPES) key_chuva (Flat 10) m)
      | HarshSunlight \<Rightarrow>
          (if k \<in> set FIRE_TYPES then AList.update key_sol (Flat 10) m
           else AList.update key_desconforto_sol (Flat (- 5)) m)
      | Storm \<Rightarrow>
          (if k \<in> set ELECTRIC_TYPES then AList.update key_tempestade (Flat 10) m
           else AList.update key_estresse_tempestade (Flat (- 5)) m)
      | Clear \<Rightarrow> m)"

definition mod_value :: "HappinessModifier \<Rightarrow> real" where
  "mod_value m = (case m of Flat v \<Rightarrow> v | Decaying v d \<Rightarrow> v)"

text \<open>Phase 4: \<open>50\<close> plus the values of all entries, clamped.\<close>

definition total_happiness :: "(string \<times> HappinessModifier) list \<Rightarrow> real" where
  "total_happiness mods = clamp (50 + sum_list (map (\<lambda>e. mod_value (snd e)) mods)) 0 100"

definition daily_happiness :: "FarmConditions \<Rightarrow> WeatherType \<Rightarrow> Pokemon \<Rightarrow> Pokemon" where
  "daily_happiness fc wt p =
     (let mods = weather_mods wt (kind p) (static_mods fc (kind p) (decay_mods (happinessModifiers p)))
      in p\<lparr>happinessModifiers := mods, happiness := total_happiness mods\<rparr>)"

text \<open>
  The Ekans bites, after the main loop. \<open>ekansFamily\<close> and \<open>torchicFamily\<close> are the indices
  of the creatures selected before the loop; the loop changes modifiers only, so the
  selection and the search for the target can read the current array.
\<close>

definition bite_one :: "Constants \<Rightarrow> Env \<Rightarrow> nat list \<Rightarrow> nat \<Rightarrow> error + GameState \<Rightarrow> error + GameState" where
  "bite_one C env torchicFamily i st =
     (case st of
        Inl e \<Rightarrow> Inl e
      | Inr gs \<Rightarrow>
          (let ekans = pokemons gs ! i
           in case POKEMON_ABILITIES C (kind ekans) of
                None \<Rightarrow> Inl TypeError
              | Some ability \<Rightarrow>
                  (let gs1 = gs\<lparr>drawn := drawn gs + 1\<rparr>
                   in if (case biteChance ability of None \<Rightarrow> False
                          | Some bc \<Rightarrow> draw env (drawn gs) < bc)
                      then (case find (\<lambda>t. homeBuildingId (pokemons gs ! t) = homeBuildingId ekans)
                                   torchicFamily of
                              None \<Rightarrow> Inr gs1
                            | Some t \<Rightarrow>
                                Inr (gs1\<lparr>pokemons := (pokemons gs1)[t := (pokemons gs1 ! t)
                                       \<lparr>happinessModifiers :=
                                          AList.update key_picada (Decaying (- 20) 1)
                                            (happinessModifiers (pokemons gs1 ! t))\<rparr>]\<rparr>))
                      else Inr gs1)))"

definition happiness_main :: "GameState \<Rightarrow> GameState" where
  "happiness_main gs =
     (let fc = farm_conditions gs;
          newPokemons = filter (\<lambda>i. isNew (pokemons gs ! i)) [0..<length (pokemons gs)];
          ps1 = fold new_pokemon_event newPokemons (pokemons gs)
      in gs\<lparr>pokemons := map (daily_happiness fc (weatherToday gs)) ps1\<rparr>)"

definition ekans_bites :: "Constants \<Rightarrow> Env \<Rightarrow> GameState \<Rightarrow> error + GameState" where
  "ekans_bites C env gs =
     (let idx = [0..<length (pokemons gs)];
          ekansFamily = filter (\<lambda>i. (kind (pokemons gs ! i) = ''Ekans'' \<or> kind (pokemons gs ! i) = ''Arbok'')
                                   \<and> \<not> isSleeping (pokemons gs ! i)) idx;
          torchicFamily = filter (\<lambda>i. kind (pokemons gs ! i) \<in> set [''Torchic'', ''Combusken'', ''Blaziken'']
                                     \<and> \<not> isSleeping (pokemons gs ! i)) idx
      in fold (bite_one C env torchicFamily) ekansFamily (Inr gs))"

definition updatePokemonHappiness :: "Constants \<Rightarrow> Env \<Rightarrow> GameState \<Rightarrow> error + GameState" where
  "updatePokemonHappiness C env gs = ekans_bites C env (happiness_main gs)"


section \<open>Daily production cycle (processDailyProduction)\<close>

definition reset_watering :: "WeatherType \<Rightarrow> CropPlot list \<Rightarrow> CropPlot list" where
  "reset_watering wt plots =
     (let plots1 = map (\<lambda>pl. pl\<lparr>isWatered := False\<rparr>) plots
      in if wt = Rain \<or> wt = Storm
         then map (\<lambda>pl. if cp_state pl = Growing then pl\<lparr>isWatered := True\<rparr> else pl) plots1
         else plots1)"

text \<open>
  Pest control: the loop over the protectors, with \<open>availablePests\<close>, the set
  \<open>removedPestIds\<close> (as a list) and the state (random stream, event queue).
\<close>

fun hunt_loop :: "Constants \<Rightarrow> Env \<Rightarrow> real \<Rightarrow> Pokemon list \<Rightarrow> Pokemon list \<Rightarrow> string list \<Rightarrow> GameState
    \<Rightarrow> string list \<times> GameState" where
  "hunt_loop C env treinadorBonus [] availablePests removedPestIds gs = (removedPestIds, gs)"
| "hunt_loop C env treinadorBonus (protector # rest) availablePests removedPestIds gs =
     (case availablePests of
        [] \<Rightarrow> (removedPestIds, gs)
      | pestToRemove # pests' \<Rightarrow>
          (case POKEMON_ABILITIES C (kind protector) of
             None \<Rightarrow> hunt_loop C env treinadorBonus rest availablePests removedPestIds gs
           | Some ability \<Rightarrow>
               (case huntChance ability of
                  None \<Rightarrow> hunt_loop C env treinadorBonus rest availablePests removedPestIds gs
                | Some hc \<Rightarrow>
                    if (a_type ability \<noteq> Some ''farm_protector'' \<and> a_type ability \<noteq> Some ''coop_protector'')
                       \<or> hc = 0
                    then hunt_loop C env treinadorBonus rest availablePests removedPestIds gs
                    else if draw env (drawn gs) < hc + treinadorBonus then
                      hunt_loop C env treinadorBonus rest pests'
                        (List.insert (pk_id pestToRemove) removedPestIds)
                        (gs\<lparr>drawn := drawn gs + 1,
                            eventQueue := eventQueue gs @
                              [\<lparr>e_id = ''evt_'' @ numString env (nowMs env) @ ''_'' @ pk_id protector,
                                e_type = ''ability_find'',
                                message = pk_name protector @ '' protegeu a fazenda e espantou um ''
                                          @ kind pestToRemove @ ''!''\<rparr>]\<rparr>)
                    else hunt_loop C env treinadorBonus rest availablePests removedPestIds
                           (gs\<lparr>drawn := drawn gs + 1\<rparr>))))"

definition pest_control :: "Constants \<Rightarrow> Env \<Rightarrow> GameState \<Rightarrow> GameState" where
  "pest_control C env gs =
     (let protectors = filter (\<lambda>p. kind p \<in> set PROTECTOR_TYPES \<and> \<not> isSleeping p) (pokemons gs);
          pests = filter (\<lambda>p. kind p \<in> set PEST_TYPES \<and> \<not> isSleeping p) (pokemons gs)
      in if protectors \<noteq> [] \<and> pests \<noteq> [] then
           (let treinadorBonus = or_default (js_nth [0, 10 / 100, 15 / 100, 20 / 100]
                                     (real (treinador (skills (player gs))))) 0
            in case hunt_loop C env treinadorBonus protectors pests [] gs of
                 (removedPestIds, gs1) \<Rightarrow>
                   if removedPestIds \<noteq> []
                   then gs1\<lparr>pokemons := filter (\<lambda>p. pk_id p \<notin> set removedPestIds) (pokemons gs1)\<rparr>
                   else gs1)
         else gs)"

text \<open>The daily ability of one creature. \<open>items[i]\<close> out of range is the key \<open>undefined\<close>.\<close>

definition daily_ability_one :: "Constants \<Rightarrow> Env \<Rightarrow> Pokemon \<Rightarrow> GameState \<Rightarrow> GameState" where
  "daily_ability_one C env p gs =
     (if isSleeping p then gs
      else case POKEMON_ABILITIES C (kind p) of
        None \<Rightarrow> gs
      | Some ability \<Rightarrow>
          if a_type ability = Some ''daily_production'' then
            (if truthy_num (chance ability) then
               (let amt = (if draw env (drawn gs) < or_default (chance ability) 0
                           then amount ability * 2 else amount ability)
                in gs\<lparr>player := addItem (player gs) (item ability) amt, drawn := drawn gs + 1\<rparr>)
             else gs\<lparr>player := addItem (player gs) (item ability) (amount ability)\<rparr>)
          else if a_type ability = Some ''daily_conversion'' then
            (case removeItem (player gs) (a_from ability) (amount ability) of
               (pl', ok) \<Rightarrow>
                 if ok then gs\<lparr>player := addItem pl' (a_to ability) (amount ability)\<rparr> else gs)
          else if a_type ability = Some ''daily_find'' then
            (if (case chance ability of None \<Rightarrow> False | Some c \<Rightarrow> draw env (drawn gs) < c) then
               (let idx = rint env (drawn gs + 1) 0 (real (length (items ability)) - 1);
                    it = (case js_nth (items ability) idx of None \<Rightarrow> ''undefined'' | Some s \<Rightarrow> s);
                    shown = (case ITEM_DISPLAY_NAMES C it of
                               None \<Rightarrow> it | Some d \<Rightarrow> if d = [] then it else d)
                in gs\<lparr>player := addItem (player gs) it 1, drawn := drawn gs + 2,
                      eventQueue := eventQueue gs @
                        [\<lparr>e_id = ''evt_'' @ numString env (nowMs env), e_type = ''ability_find'',
                          message = pk_name p @ '' encontrou um(a) '' @ shown @ ''!''\<rparr>]\<rparr>)
             else gs\<lparr>drawn := drawn gs + 1\<rparr>)
          else gs)"

definition fossilMap :: "(string \<times> string) list" where
  "fossilMap = [(''dome_fossil'', ''Kabuto''), (''helix_fossil'', ''Omanyte''), (''old_amber'', ''Aerodactyl''),
     (''jaw_fossil'', ''Tyrunt''), (''sail_fossil'', ''Amaura''), (''cover_fossil'', ''Tirtouga''),
     (''plume_fossil'', ''Archen''), (''skull_fossil'', ''Cranidos''), (''armor_fossil'', ''Shieldon''),
     (''root_fossil'', ''Lileep''), (''claw_fossil'', ''Anorith'')]"

definition porygonFamily :: "string list" where
  "porygonFamily = [''Porygon'', ''Porygon2'', ''Porygon-Z'']"

definition set_building :: "nat \<Rightarrow> Building \<Rightarrow> GameState \<Rightarrow> GameState" where
  "set_building i b gs = gs\<lparr>world := (world gs)\<lparr>structs := (structs (world gs))[i := b]\<rparr>\<rparr>"

definition msg_fossil :: "string \<Rightarrow> string" where
  "msg_fossil revivedKind = ''O f'' @ o_acute @ ''ssil foi ressuscitado! Um '' @ revivedKind
                            @ '' selvagem apareceu!''"

text \<open>Fossil revival for the building at index \<open>i\<close> of \<open>gs.world.structs\<close>.\<close>

definition revive_one :: "Constants \<Rightarrow> Env \<Rightarrow> nat \<Rightarrow> GameState \<Rightarrow> GameState" where
  "revive_one C env i gs =
     (let building = structs (world gs) ! i
      in case revivingFossil (storage building) of
           None \<Rightarrow> gs
         | Some fossil \<Rightarrow>
             if b_type building = ''laboratory'' \<and> fossil \<noteq> [] then
               (let totalBonus = sum_list (map (\<lambda>p. case POKEMON_ABILITIES C (kind p) of
                                                  None \<Rightarrow> 0
                                                | Some ability \<Rightarrow>
                                                    if a_type ability = Some ''fossil_revival_accelerator''
                                                    then bonus ability else 0)
                                   (filter (\<lambda>p. homeBuildingId p = Some (b_id building)
                                                \<and> kind p \<in> set porygonFamily) (pokemons gs)));
                    baseProgress = 1 / 7;
                    dailyProgress = baseProgress * (1 + totalBonus);
                    progress = or_default (revivalProgress (storage building)) 0 + dailyProgress
                in if progress \<ge> 1 then
                     (let gs1 = (case map_of fossilMap fossil of
                                   None \<Rightarrow> gs
                                 | Some revivedKind \<Rightarrow>
                                     (let shiny = draw env (drawn gs) < calculateShinyChance (player gs);
                                          pn = new_Pokemon C env (drawn gs + 1) revivedKind
                                                 (b_x building + b_w building / 2)
                                                 (b_y building + b_h building / 2) shiny
                                      in gs\<lparr>pokemons := pokemons gs @ [(fst pn)\<lparr>isImmortal := True\<rparr>],
                                            drawn := snd pn,
                                            eventQueue := eventQueue gs @
                                              [\<lparr>e_id = ''evt_'' @ numString env (nowMs env),
                                                e_type = ''fossil_revived'',
                                                message = msg_fossil revivedKind\<rparr>]\<rparr>))
                      in set_building i
                           (building\<lparr>storage := (storage building)\<lparr>revivingFossil := None,
                                                                     revivalProgress := None\<rparr>\<rparr>) gs1)
                   else set_building i
                          (building\<lparr>storage := (storage building)\<lparr>revivalProgress := Some progress\<rparr>\<rparr>) gs)
             else gs)"

definition grow_wild_plant :: "real \<Rightarrow> Resource \<Rightarrow> Resource" where
  "grow_wild_plant d res =
     (case spawnDay res of
        None \<Rightarrow> res
      | Some sd \<Rightarrow> if r_type res = ''wild_plant'' \<and> d - sd \<ge> 1 then res\<lparr>r_state := Some Flower\<rparr> else res)"

text \<open>Ageing of one creature; a new death hour \<open>rint(7, 19)\<close> is one draw.\<close>

definition age_one :: "Env \<Rightarrow> Pokemon \<Rightarrow> Pokemon list \<times> nat \<Rightarrow> Pokemon list \<times> nat" where
  "age_one env p st =
     (case st of (pokemonsToKeep, n) \<Rightarrow>
        if isImmortal p then (pokemonsToKeep @ [p], n)
        else (let p1 = p\<lparr>age := age p + 1\<rparr>
              in if age p1 > maxAge p1 \<and> scheduledDeathHour p1 = None
                 then (pokemonsToKeep @ [p1\<lparr>scheduledDeathHour := Some (rint env n 7 19)\<rparr>], n + 1)
                 else (pokemonsToKeep @ [p1], n)))"

definition age_all :: "Env \<Rightarrow> GameState \<Rightarrow> GameState" where
  "age_all env gs =
     (case fold (age_one env) (pokemons gs) ([], drawn gs) of
        (pokemonsToKeep, n) \<Rightarrow> gs\<lparr>pokemons := pokemonsToKeep, drawn := n\<rparr>)"

text \<open>The part of \<open>processDailyProduction\<close> after the call of \<open>updatePokemonHappiness\<close>.\<close>

definition daily_after_happiness :: "Constants \<Rightarrow> Env \<Rightarrow> GameState \<Rightarrow> GameState" where
  "daily_after_happiness C env gs =
     (let gs1 = fold (daily_ability_one C env) (pokemons gs) gs;
          gs2 = fold (revive_one C env) [0..<length (structs (world gs1))] gs1;
          gs3 = set_resources (map (grow_wild_plant (day gs2)) (resources (world gs2))) gs2;
          gs4 = age_all env gs3
      in gs4\<lparr>dailyPidgeyBonusCount := 0\<rparr>)"

definition processDailyProduction :: "Constants \<Rightarrow> Env \<Rightarrow> GameState \<Rightarrow> error + GameState" where
  "processDailyProduction C env gs =
     (let gs1 = gs\<lparr>dailyIncome := [], dailySpawns := [], dailyResourceSpawns := [],
                   cropPlots := reset_watering (weatherToday gs) (cropPlots gs)\<rparr>;
          gs2 = pest_control C env gs1
      in case updatePokemonHappiness C env gs2 of
           Inl e \<Rightarrow> Inl e
         | Inr gs3 \<Rightarrow> Inr (daily_after_happiness C env gs3))"

section \<open>Daily spawn rolls (processDailySpawns, processSpecialSpawns)\<close>

definition getSpeciesForCurrentTime :: "Constants \<Rightarrow> string \<Rightarrow> real \<Rightarrow> string" where
  "getSpeciesForCurrentTime C baseDayKind t =
     (case map_of (NIGHT_COUNTERPARTS C) baseDayKind of
        None \<Rightarrow> baseDayKind
      | Some (night, sleepHour) \<Rightarrow>
          if hourOf t \<ge> sleepHour \<or> hourOf t < 6 then night else baseDayKind)"

text \<open>
  The code every spawn block repeats: the shininess draw, the constructor at the centre of
  the building, the home reference, the push.
\<close>

definition spawn_resident :: "Constants \<Rightarrow> Env \<Rightarrow> string \<Rightarrow> Building \<Rightarrow> GameState \<Rightarrow> GameState" where
  "spawn_resident C env k b gs =
     (let shiny = draw env (drawn gs) < calculateShinyChance (player gs);
          pn = new_Pokemon C env (drawn gs + 1) k (b_x b + b_w b / 2) (b_y b + b_h b / 2) shiny
      in gs\<lparr>pokemons := pokemons gs @ [(fst pn)\<lparr>homeBuildingId := Some (b_id b)\<rparr>], drawn := snd pn\<rparr>)"

text \<open>
  The coop and stable blocks: with buildings \<open>bs\<close> of the category, a count below the
  capacity and a roll below 0.15, a creature of kind \<open>k\<close> spawns in the building
  \<open>bs[rint(0, length - 1)]\<close> (an index of \<open>bs\<close>, the draw being in [0, 1)).
\<close>

definition category_spawn :: "Constants \<Rightarrow> Env \<Rightarrow> Building list \<Rightarrow> real \<Rightarrow> nat \<Rightarrow> string \<Rightarrow> GameState
    \<Rightarrow> GameState" where
  "category_spawn C env bs capacity cnt k gs =
     (if bs \<noteq> [] then
        (if real cnt < capacity then
           (if draw env (drawn gs) < 15 / 100 then
              (let idx = rint env (drawn gs + 1) 0 (real (length bs) - 1);
                   gs2 = gs\<lparr>drawn := drawn gs + 2\<rparr>
               in case js_nth bs idx of None \<Rightarrow> gs2 | Some b \<Rightarrow> spawn_resident C env k b gs2)
            else gs\<lparr>drawn := drawn gs + 1\<rparr>)
         else gs)
      else gs)"

definition farm_area_spawn :: "Constants \<Rightarrow> Env \<Rightarrow> Building \<Rightarrow> GameState \<Rightarrow> GameState" where
  "farm_area_spawn C env area gs =
     (let farmPokemonKinds = [''Diglett'', ''Pidgey'', ''Bulbasaur''] @ DAY_COUNTERPARTS C
                             @ map fst (NIGHT_COUNTERPARTS C);
          pokemonInArea = length (filter (\<lambda>p. homeBuildingId p = Some (b_id area)
                                              \<and> kind p \<in> set farmPokemonKinds) (pokemons gs));
          capacity = or_default (capacity_farm_area C) 3
      in if real pokemonInArea < capacity then
           (if draw env (drawn gs) < 15 / 100 then
              (let k = (if draw env (drawn gs + 1) < 1 / 2 then ''Pidgey'' else ''Diglett'');
                   timedKind = getSpeciesForCurrentTime C k (gameTime gs)
               in spawn_resident C env timedKind area (gs\<lparr>drawn := drawn gs + 2\<rparr>))
            else gs\<lparr>drawn := drawn gs + 1\<rparr>)
         else gs)"

definition squirtleFamily :: "string list" where
  "squirtleFamily = [''Squirtle'', ''Wartortle'', ''Blastoise'', ''Lotad'', ''Lombre'', ''Ludicolo'']"

definition lake_spawn :: "Constants \<Rightarrow> Env \<Rightarrow> GameState \<Rightarrow> GameState" where
  "lake_spawn C env gs =
     (let lakes = filter (\<lambda>s. b_type s = ''lake'') (structs (world gs))
      in if lakes \<noteq> [] then
           (let squirtleCount = length (filter (\<lambda>p. kind p \<in> set squirtleFamily) (pokemons gs))
            in if squirtleCount < length lakes then
                 (if draw env (drawn gs) < 15 / 100 then
                    (let lakesWithSquirtles = map homeBuildingId
                                                (filter (\<lambda>p. kind p \<in> set squirtleFamily) (pokemons gs));
                         availableLakes = filter (\<lambda>lake. Some (b_id lake) \<notin> set lakesWithSquirtles) lakes;
                         gs1 = gs\<lparr>drawn := drawn gs + 1\<rparr>
                     in case availableLakes of
                          [] \<Rightarrow> gs1
                        | lake # _ \<Rightarrow>
                            spawn_resident C env (getSpeciesForCurrentTime C ''Squirtle'' (gameTime gs))
                              lake gs1)
                  else gs\<lparr>drawn := drawn gs + 1\<rparr>)
               else gs)
         else gs)"

definition msg_porygon :: string where
  "msg_porygon = ''Um novo Porygon apareceu no laborat'' @ o_acute @ ''rio!''"

definition laboratory_spawn :: "Constants \<Rightarrow> Env \<Rightarrow> Building \<Rightarrow> GameState \<Rightarrow> GameState" where
  "laboratory_spawn C env lab gs =
     (let porygonCount = length (filter (\<lambda>p. homeBuildingId p = Some (b_id lab)
                                             \<and> kind p \<in> set porygonFamily) (pokemons gs));
          capacity = or_default (capacity_laboratory C) 4
      in if real porygonCount < capacity then
           (if draw env (drawn gs) < 15 / 100 then
              (let gs1 = spawn_resident C env ''Porygon'' lab (gs\<lparr>drawn := drawn gs + 1\<rparr>)
               in gs1\<lparr>eventQueue := eventQueue gs1 @
                       [\<lparr>e_id = ''evt_'' @ numString env (nowMs env), e_type = ''new_pokemon'',
                         message = msg_porygon\<rparr>]\<rparr>)
            else gs\<lparr>drawn := drawn gs + 1\<rparr>)
         else gs)"

definition processDailySpawns :: "Constants \<Rightarrow> Env \<Rightarrow> GameState \<Rightarrow> GameState" where
  "processDailySpawns C env gs =
     (let ss = structs (world gs);
          coops = filter (\<lambda>s. b_type s = ''coop'') ss;
          gs1 = category_spawn C env coops (real (length coops) * capacity_coop C)
                  (length (filter (\<lambda>p. kind p \<in> set [''Torchic'', ''Combusken'', ''Blaziken'']) (pokemons gs)))
                  ''Torchic'' gs;
          miltankStables = filter (\<lambda>s. b_type s = ''stable'' \<and> pokemonKind (storage s) = Some ''Miltank'') ss;
          gs2 = category_spawn C env miltankStables (real (length miltankStables) * capacity_stable C)
                  (length (filter (\<lambda>p. kind p = ''Miltank'') (pokemons gs1))) ''Miltank'' gs1;
          mareepStables = filter (\<lambda>s. b_type s = ''stable'' \<and> pokemonKind (storage s) = Some ''Mareep'') ss;
          gs3 = category_spawn C env mareepStables (real (length mareepStables) * 3)
                  (length (filter (\<lambda>p. kind p \<in> set [''Mareep'', ''Flaaffy'', ''Ampharos'']) (pokemons gs2)))
                  ''Mareep'' gs2;
          gs4 = fold (farm_area_spawn C env) (filter (\<lambda>s. b_type s = ''farm_area'') ss) gs3;
          gs5 = lake_spawn C env gs4
      in fold (laboratory_spawn C env) (filter (\<lambda>s. b_type s = ''laboratory'') ss) gs5)"

definition push_event :: "Env \<Rightarrow> string \<Rightarrow> string \<Rightarrow> GameState \<Rightarrow> GameState" where
  "push_event env ty msg gs =
     gs\<lparr>eventQueue := eventQueue gs @
          [\<lparr>e_id = ''evt_'' @ numString env (nowMs env), e_type = ty, message = msg\<rparr>]\<rparr>"

definition rattata_spawn :: "Constants \<Rightarrow> Env \<Rightarrow> GameState \<Rightarrow> GameState" where
  "rattata_spawn C env gs =
     (if length (filter (\<lambda>p. kind p = ''Rattata'' \<or> kind p = ''Raticate'') (pokemons gs)) < 3 then
        (if draw env (drawn gs) < 20 / 100 then
           (let shiny = draw env (drawn gs + 1) < calculateShinyChance (player gs);
                gs1 = gs\<lparr>drawn := drawn gs + 2\<rparr>
            in case find (\<lambda>s. b_type s = ''farm_area'') (structs (world gs)) of
                 None \<Rightarrow> gs1
               | Some farmArea \<Rightarrow>
                   (let x = b_x farmArea + rint env (drawn gs1) 0 (b_w farmArea);
                        y = b_y farmArea + rint env (drawn gs1 + 1) 0 (b_h farmArea);
                        pn = new_Pokemon C env (drawn gs1 + 2) ''Rattata'' x y shiny
                    in push_event env ''pest_attack'' ''Um Rattata apareceu e pode causar problemas!''
                         (gs1\<lparr>pokemons := pokemons gs1 @ [fst pn], drawn := snd pn\<rparr>)))
         else gs\<lparr>drawn := drawn gs + 1\<rparr>)
      else gs)"

text \<open>The Ekans and Spearow blocks: a creature at the corner of the first coop.\<close>

definition coop_visitor :: "Constants \<Rightarrow> Env \<Rightarrow> string \<Rightarrow> Building \<Rightarrow> GameState \<Rightarrow> GameState" where
  "coop_visitor C env k coop gs =
     (let shiny = draw env (drawn gs) < calculateShinyChance (player gs);
          pn = new_Pokemon C env (drawn gs + 1) k (b_x coop) (b_y coop) shiny
      in gs\<lparr>pokemons := pokemons gs @ [(fst pn)\<lparr>homeBuildingId := Some (b_id coop)\<rparr>], drawn := snd pn\<rparr>)"

definition ekans_spawn :: "Constants \<Rightarrow> Env \<Rightarrow> GameState \<Rightarrow> GameState" where
  "ekans_spawn C env gs =
     (case filter (\<lambda>s. b_type s = ''coop'') (structs (world gs)) of
        [] \<Rightarrow> gs
      | coop # _ \<Rightarrow>
          if hasEncounteredEkans gs \<noteq> Some True then
            (if draw env (drawn gs) < 10 / 100 then
               push_event env ''pest_attack'' ''Um Ekans apareceu perto da granja!''
                 (coop_visitor C env ''Ekans'' coop
                    (gs\<lparr>hasEncounteredEkans := Some True, drawn := drawn gs + 1\<rparr>))
             else gs\<lparr>drawn := drawn gs + 1\<rparr>)
          else gs)"

definition spearow_spawn :: "Constants \<Rightarrow> Env \<Rightarrow> GameState \<Rightarrow> GameState" where
  "spearow_spawn C env gs =
     (case filter (\<lambda>s. b_type s = ''coop'') (structs (world gs)) of
        [] \<Rightarrow> gs
      | coop # _ \<Rightarrow>
          if hasEncounteredEkans gs = Some True \<and> hasEncounteredSpearow gs \<noteq> Some True then
            (if draw env (drawn gs) < 15 / 100 then
               push_event env ''new_pokemon'' ''Um Spearow apareceu para proteger a granja!''
                 (coop_visitor C env ''Spearow'' coop
                    (gs\<lparr>hasEncounteredSpearow := Some True, drawn := drawn gs + 1\<rparr>))
             else gs\<lparr>drawn := drawn gs + 1\<rparr>)
          else gs)"

definition processSpecialSpawns :: "Constants \<Rightarrow> Env \<Rightarrow> GameState \<Rightarrow> GameState" where
  "processSpecialSpawns C env gs = spearow_spawn C env (ekans_spawn C env (rattata_spawn C env gs))"

section \<open>Day and night (updatePokemonDayNightCycle)\<close>

text \<open>Night, for the creature at index \<open>i\<close>: a day creature past its sleep hour falls asleep and
  the first sleeping creature of its night counterpart wakes up.\<close>

definition night_one :: "Constants \<Rightarrow> real \<Rightarrow> nat \<Rightarrow> Pokemon list \<Rightarrow> Pokemon list" where
  "night_one C hour i ps =
     (case map_of (NIGHT_COUNTERPARTS C) (kind (ps ! i)) of
        None \<Rightarrow> ps
      | Some (night, sleepHour) \<Rightarrow>
          if hour \<ge> sleepHour \<and> \<not> isSleeping (ps ! i) then
            (let ps1 = ps[i := (ps ! i)\<lparr>isSleeping := True\<rparr>]
             in case findIndex (\<lambda>nightP. kind nightP = night \<and> isSleeping nightP) ps1 of
                  None \<Rightarrow> ps1
                | Some j \<Rightarrow> ps1[j := (ps1 ! j)\<lparr>isSleeping := False\<rparr>])
          else ps)"

definition day_one :: "Constants \<Rightarrow> Pokemon \<Rightarrow> Pokemon" where
  "day_one C p =
     (let p1 = (if map_of (NIGHT_COUNTERPARTS C) (kind p) \<noteq> None \<and> isSleeping p
                then p\<lparr>isSleeping := False\<rparr> else p)
      in if kind p1 \<in> set (DAY_COUNTERPARTS C) \<and> \<not> isSleeping p1 then p1\<lparr>isSleeping := True\<rparr> else p1)"

definition updatePokemonDayNightCycle :: "Constants \<Rightarrow> GameState \<Rightarrow> GameState" where
  "updatePokemonDayNightCycle C gs =
     (let hour = hourOf (gameTime gs)
      in if hour \<ge> 20 \<or> hour < 6
         then gs\<lparr>pokemons := fold (night_one C hour) [0..<length (pokemons gs)] (pokemons gs)\<rparr>
         else gs\<lparr>pokemons := map (day_one C) (pokemons gs)\<rparr>)"

section \<open>The per-frame entry point (updateGame)\<close>

text \<open>
  \<open>updateGame(gs, dt)\<close> returns the state and the Boolean of the source, or the error that
  escapes from the daily pass. The date string is the one of the wall clock moved back by
  \<open>dayChangeHour\<close> hours.
\<close>

definition continuous_update :: "Constants \<Rightarrow> Env \<Rightarrow> GameState \<Rightarrow> real \<Rightarrow> GameState" where
  "continuous_update C env gs dt =
     (let gs0 = gs\<lparr>gameTime := clockHours env * 3600 + clockMinutes env * 60 + clockSeconds env\<rparr>;
          gs1 = gs0\<lparr>player := updatePlayer C (player gs0) dt\<rparr>;
          gs2 = updatePassiveIncome C gs1 dt;
          gs3 = updatePokemons C env gs2 dt
      in updateWorld C env gs3 dt)"

definition updateGame :: "Constants \<Rightarrow> Env \<Rightarrow> GameState \<Rightarrow> real \<Rightarrow> error + GameState \<times> bool" where
  "updateGame C env gs dt =
     (let gs4 = continuous_update C env gs dt;
          dateString = dateStringBack env (dayChangeHour gs4)
      in if lastProductionDate gs4 \<noteq> dateString then
           (case processDailyProduction C env
                   (gs4\<lparr>day := day gs4 + 1, lastProductionDate := dateString\<rparr>) of
              Inl e \<Rightarrow> Inl e
            | Inr gs5 \<Rightarrow>
                Inr (updatePokemonDayNightCycle C
                       (processSpecialSpawns C env (processDailySpawns C env gs5)), True))
         else Inr (gs4, False))"


section \<open>Save and load (saveGame, rehydrateGameState)\<close>

text \<open>
  The persistence format is an opaque boundary: \<open>JSON.parse(JSON.stringify(state))\<close> is
  taken to return plain objects with the same data, in which a property whose value is
  \<open>undefined\<close> is absent (\<open>None\<close> for an optional property \<open>f?\<close>) and a \<open>null\<close> is kept.
  So the saved snapshot of a state is a value of the same record type. \<open>saveGame\<close> stamps
  the time of the save on the state before it writes the snapshot.
\<close>

definition saveGame :: "Env \<Rightarrow> GameState \<Rightarrow> GameState" where
  "saveGame env gs = gs\<lparr>lastUpdateTimestamp := nowMs env\<rparr>"

text \<open>
  \<open>Object.assign(target, source)\<close> copies the properties present in the source. For a
  parsed snapshot these are all the required properties and the optional ones that were
  defined; an absent optional property keeps the value the constructor gave the target.
\<close>

definition keep_default :: "'a option \<Rightarrow> 'a option \<Rightarrow> 'a option" where
  "keep_default parsed constructed = (case parsed of None \<Rightarrow> constructed | Some v \<Rightarrow> Some v)"

definition assign_Pokemon :: "Pokemon \<Rightarrow> Pokemon \<Rightarrow> Pokemon" where
  "assign_Pokemon tgt src =
     src\<lparr>Poder := keep_default (Poder src) (Poder tgt),
         teleportState := keep_default (teleportState src) (teleportState tgt),
         teleportTimer := keep_default (teleportTimer src) (teleportTimer tgt),
         actionTimer := keep_default (actionTimer src) (actionTimer tgt),
         torchicsCured := keep_default (torchicsCured src) (torchicsCured tgt),
         applesHarvested := keep_default (applesHarvested src) (applesHarvested tgt)\<rparr>"

definition assign_Resource :: "Resource \<Rightarrow> Resource \<Rightarrow> Resource" where
  "assign_Resource tgt src =
     src\<lparr>spawnDay := keep_default (spawnDay src) (spawnDay tgt),
         r_state := keep_default (r_state src) (r_state tgt)\<rparr>"

text \<open>The four \<open>map\<close> callbacks of the rehydration, threading the position in the random stream.\<close>

definition rehydrate_Building :: "Env \<Rightarrow> Building \<Rightarrow> Building list \<times> nat \<Rightarrow> Building list \<times> nat" where
  "rehydrate_Building env s st =
     (case st of (acc, n) \<Rightarrow>
        (case new_Building env n (b_type s) (b_x s) (b_y s) (b_w s) (b_h s) of
           (fresh, n') \<Rightarrow> (acc @ [s], n')))"

definition rehydrate_Resource :: "Env \<Rightarrow> Resource \<Rightarrow> Resource list \<times> nat \<Rightarrow> Resource list \<times> nat" where
  "rehydrate_Resource env r st =
     (case st of (acc, n) \<Rightarrow>
        (case new_Resource env n (r_type r) (r_x r) (r_y r) None of
           (fresh, n') \<Rightarrow> (acc @ [assign_Resource fresh r], n')))"

definition rehydrate_Pokemon :: "Constants \<Rightarrow> Env \<Rightarrow> Pokemon \<Rightarrow> Pokemon list \<times> nat \<Rightarrow> Pokemon list \<times> nat" where
  "rehydrate_Pokemon C env p st =
     (case st of (acc, n) \<Rightarrow>
        (case new_Pokemon C env n (kind p) (pk_x p) (pk_y p) (isShiny p) of
           (fresh, n') \<Rightarrow> (acc @ [(assign_Pokemon fresh p)\<lparr>isNew := False\<rparr>], n')))"

definition rehydrate_CropPlot :: "Env \<Rightarrow> CropPlot \<Rightarrow> CropPlot list \<times> nat \<Rightarrow> CropPlot list \<times> nat" where
  "rehydrate_CropPlot env pl st =
     (case st of (acc, n) \<Rightarrow>
        (case new_CropPlot env n (cp_x pl) (cp_y pl) of
           (fresh, n') \<Rightarrow> (acc @ [pl], n')))"

text \<open>Offline progress, applied to the parsed data when more than 5 seconds have passed.\<close>

definition offline_progress :: "Constants \<Rightarrow> Env \<Rightarrow> GameState \<Rightarrow> GameState" where
  "offline_progress C env parsedData =
     (let now = nowMs env;
          lastUpdate = (if lastUpdateTimestamp parsedData = 0 then now else lastUpdateTimestamp parsedData);
          offlineSeconds = max 0 ((now - lastUpdate) / 1000)
      in if offlineSeconds > 5 then
           (let pl = player parsedData;
                energyGained = offlineSeconds * regenPerSec C;
                newEnergy = energy pl + energyGained
            in parsedData\<lparr>player := pl\<lparr>energy := min (if maxEnergy pl = 0 then 100 else maxEnergy pl) newEnergy\<rparr>,
                          respawnQueue := map (\<lambda>t. t\<lparr>timer := timer t - offlineSeconds\<rparr>)
                                            (respawnQueue parsedData)\<rparr>)
         else parsedData)"

text \<open>
  \<open>rehydrateGameState(parsedData)\<close>. \<open>base\<close> is the state \<open>initializeNewGame()\<close> returns:
  \<open>Object.assign(gs, parsedData)\<close> overwrites all of its fields modelled here, except an
  optional flag that is absent from the snapshot and the state of the random generator.
\<close>

definition rehydrateGameState :: "Constants \<Rightarrow> Env \<Rightarrow> GameState \<Rightarrow> GameState \<Rightarrow> GameState" where
  "rehydrateGameState C env base parsedData0 =
     (let parsedData = offline_progress C env parsedData0;
          gs = parsedData\<lparr>hasEncounteredEkans :=
                            keep_default (hasEncounteredEkans parsedData) (hasEncounteredEkans base),
                          hasEncounteredSpearow :=
                            keep_default (hasEncounteredSpearow parsedData) (hasEncounteredSpearow base),
                          drawn := drawn base\<rparr>;
          bs = fold (rehydrate_Building env) (structs (world parsedData)) ([], drawn gs);
          rs = fold (rehydrate_Resource env) (resources (world parsedData)) ([], snd bs);
          ps = fold (rehydrate_Pokemon C env) (pokemons parsedData) ([], snd rs);
          cs = fold (rehydrate_CropPlot env) (cropPlots parsedData) ([], snd ps)
      in gs\<lparr>world := (world parsedData)\<lparr>structs := fst bs, resources := fst rs\<rparr>,
            pokemons := fst ps, cropPlots := fst cs,
            lastUpdateTimestamp := nowMs env, drawn := snd cs\<rparr>)"

section \<open>Evolution command (handleEvolvePokemon)\<close>

text \<open>
  The handler of the user interface, without its notifications and the sprite cache. It
  returns the state unchanged when the creature, the evolution or the stone is missing.
\<close>

definition evolve_fields :: "Constants \<Rightarrow> string \<Rightarrow> Pokemon \<Rightarrow> Pokemon" where
  "evolve_fields C evolutionTarget pokemon =
     pokemon\<lparr>pk_name := (if pk_name pokemon = kind pokemon then evolutionTarget else pk_name pokemon),
             kind := evolutionTarget, age := 0,
             maxAge := or_default (POKEMON_LIFESPANS C evolutionTarget) 100\<rparr>"

definition handleEvolvePokemon :: "Constants \<Rightarrow> GameState \<Rightarrow> string \<Rightarrow> GameState" where
  "handleEvolvePokemon C gs pokemonId =
     (case findIndex (\<lambda>p. pk_id p = pokemonId) (pokemons gs) of
        None \<Rightarrow> gs
      | Some i \<Rightarrow>
          (case POKEMON_EVOLUTIONS C (kind (pokemons gs ! i)) of
             None \<Rightarrow> gs
           | Some evolutionTarget \<Rightarrow>
               if evolutionTarget = [] then gs
               else (case removeItem (player gs) ''evolution_stone'' 1 of
                       (pl', ok) \<Rightarrow>
                         if ok
                         then gs\<lparr>player := pl',
                                 pokemons := (pokemons gs)[i := evolve_fields C evolutionTarget (pokemons gs ! i)]\<rparr>
                         else gs)))"

section \<open>Auxiliary notions of the proofs\<close>

text \<open>What the behaviour of one creature leaves unchanged in the rest of the state.\<close>

definition crop_static :: "GameState \<Rightarrow> (string \<times> PlotState \<times> string option \<times> real \<times> real) list" where
  "crop_static gs =
     map (\<lambda>pl. (cp_id pl, cp_state pl, cp_type pl, growthDays pl, matureTimeInDays pl)) (cropPlots gs)"

definition behave_frame :: "GameState \<Rightarrow> GameState \<Rightarrow> bool" where
  "behave_frame gs gs' \<longleftrightarrow>
     pokemons gs' = pokemons gs \<and> gameTime gs' = gameTime gs \<and> day gs' = day gs
     \<and> lastProductionDate gs' = lastProductionDate gs
     \<and> lastUpdateTimestamp gs' = lastUpdateTimestamp gs \<and> dailyIncome gs' = dailyIncome gs
     \<and> dailySpawns gs' = dailySpawns gs \<and> dailyResourceSpawns gs' = dailyResourceSpawns gs
     \<and> dailyPidgeyBonusCount gs' = dailyPidgeyBonusCount gs \<and> weatherToday gs' = weatherToday gs
     \<and> hasEncounteredEkans gs' = hasEncounteredEkans gs
     \<and> hasEncounteredSpearow gs' = hasEncounteredSpearow gs
     \<and> dayChangeHour gs' = dayChangeHour gs \<and> eventQueue gs' = eventQueue gs
     \<and> world_w (world gs') = world_w (world gs) \<and> world_h (world gs') = world_h (world gs)
     \<and> structs (world gs') = structs (world gs) \<and> specials (world gs') = specials (world gs)
     \<and> fertileZones (world gs') = fertileZones (world gs)
     \<and> cosmeticElements (world gs') = cosmeticElements (world gs)
     \<and> crop_static gs' = crop_static gs"

text \<open>Two creatures that differ at most in their happiness modifiers.\<close>

definition mods_only :: "Pokemon \<Rightarrow> Pokemon \<Rightarrow> bool" where
  "mods_only p q \<longleftrightarrow> q = p\<lparr>happinessModifiers := happinessModifiers q\<rparr>"


text \<open>The loop invariant of \<open>updatePokemons\<close> after the first \<open>m\<close> creatures.\<close>

definition tick_inv :: "GameState \<Rightarrow> real \<Rightarrow> nat \<Rightarrow> GameState \<times> nat list \<times> Pokemon list \<Rightarrow> bool" where
  "tick_inv gs h m st \<longleftrightarrow>
     (case st of (g, keep, gh) \<Rightarrow>
        length (pokemons g) = length (pokemons gs)
        \<and> (\<forall>j < length (pokemons gs).
              (m \<le> j \<or> isSleeping (pokemons gs ! j) \<or> death_due (pokemons gs ! j) h) \<longrightarrow>
              mods_only (pokemons gs ! j) (pokemons g ! j))
        \<and> keep = filter (\<lambda>i. \<not> death_due (pokemons gs ! i) h) [0..<m])"

text \<open>A creature with its home reference cleared.\<close>

definition unhomed :: "Pokemon \<Rightarrow> Pokemon" where
  "unhomed p = p\<lparr>homeBuildingId := None\<rparr>"

text \<open>
  What the death of the creature \<open>d\<close>, processed at the hour \<open>h\<close>, does to a creature \<open>q\<close> of
  the list: the inner \<open>forEach\<close> of the death branch.
\<close>

definition grief_step :: "real \<Rightarrow> Pokemon \<Rightarrow> Pokemon \<Rightarrow> Pokemon" where
  "grief_step h d q = (if death_due d h \<and> truthy_str (homeBuildingId d) then grieve d q else q)"

text \<open>The creatures that the loop has not behaved, after the first \<open>m\<close> callbacks.\<close>

definition grief_inv :: "GameState \<Rightarrow> real \<Rightarrow> nat \<Rightarrow> GameState \<times> nat list \<times> Pokemon list \<Rightarrow> bool" where
  "grief_inv gs h m st \<longleftrightarrow>
     (\<forall>j < length (pokemons gs).
         (m \<le> j \<or> isSleeping (pokemons gs ! j) \<or> death_due (pokemons gs ! j) h) \<longrightarrow>
         pokemons (fst st) ! j = fold (grief_step h) (take m (pokemons gs)) (pokemons gs ! j))"

text \<open>What the behaviour step never changes in a creature.\<close>

definition same_creature :: "Pokemon \<Rightarrow> Pokemon \<Rightarrow> bool" where
  "same_creature p q \<longleftrightarrow>
     pk_id q = pk_id p \<and> kind q = kind p \<and> scheduledDeathHour q = scheduledDeathHour p"

text \<open>The species a ghost is constructed with.\<close>

definition ghostKinds :: "string list" where
  "ghostKinds = [''Gastly'', ''Litwick'', ''Annihilape'']"


text \<open>The part of the state that no step of the simulation changes, but for the day rollover.\<close>

definition stable :: "GameState \<Rightarrow> real \<times> string \<times> real \<times> (string \<times> PlotState \<times> string option \<times> real \<times> real) list" where
  "stable gs = (day gs, lastProductionDate gs, dayChangeHour gs, crop_static gs)"

text \<open>
  A sequence of calls of the entry point, each with the environment it runs in and its
  \<open>dt\<close>, returning the final state and the Booleans returned.
\<close>

fun advance_seq :: "Constants \<Rightarrow> (Env \<times> real) list \<Rightarrow> GameState \<Rightarrow> error + GameState \<times> bool list" where
  "advance_seq C [] gs = Inr (gs, [])"
| "advance_seq C ((env, dt) # rest) gs =
     (case updateGame C env gs dt of
        Inl e \<Rightarrow> Inl e
      | Inr (g, b) \<Rightarrow>
          (case advance_seq C rest g of
             Inl e \<Rightarrow> Inl e
           | Inr (g', bs) \<Rightarrow> Inr (g', b # bs)))"

text \<open>What the constructors of Pokemon and Resource supply for an optional field that the
  saved object lacks; every other field is taken from the saved object.\<close>

definition pokemon_defaults :: "Pokemon \<Rightarrow> Pokemon" where
  "pokemon_defaults p =
     p\<lparr>torchicsCured := keep_default (torchicsCured p)
                           (if kind p \<in> set [''Happiny'', ''Chansey'', ''Blissey''] then Some 0 else None),
       applesHarvested := keep_default (applesHarvested p)
                           (if kind p \<in> set [''Mankey'', ''Primeape'', ''Aipom'', ''Ambipom''] then Some 0 else None)\<rparr>"

definition resource_defaults :: "Resource \<Rightarrow> Resource" where
  "resource_defaults r =
     r\<lparr>r_state := keep_default (r_state r) (if r_type r = ''wild_plant'' then Some Bush else None)\<rparr>"

section \<open>Concrete states used to run the model\<close>

definition plot0 :: CropPlot where
  "plot0 = \<lparr>cp_id = ''plot_1'', cp_x = 100, cp_y = 100, cp_state = Mature,
     cp_type = Some ''seedGraoBaga'', growthDays = 0, matureTimeInDays = 1 / 2,
     fertilized = False, isWatered = False, cp_rotation = 0\<rparr>"

definition player0 :: Player where
  "player0 = \<lparr>pl_name = ''Fazendeiro'', profilePictureUrl = None, energy = 100, maxEnergy = 100,
     money = 200, inventory = [(''wood'', 10), (''stone'', 5), (''seedGraoBaga'', 5), (''seedCafeBaga'', 3)],
     level = 1, experience = 0, experienceToNextLevel = 250,
     skills = \<lparr>gerente = 0, sortudo = 0, tratador = 0, treinador = 0\<rparr>,
     skillPoints = 0, team = []\<rparr>"

definition river_square :: "point list" where
  "river_square = [(110, 110), (120, 110), (120, 120), (110, 120)]"

definition world1 :: FarmWorld where
  "world1 = \<lparr>world_w = 1000, world_h = 1000, structs = [], resources = [],
     specials = [\<lparr>sp_type = ''river'', sp_points = river_square\<rparr>],
     fertileZones = [], cosmeticElements = []\<rparr>"

definition ability0 :: Ability where
  "ability0 = \<lparr>a_type = None, rate = None, passive_income_rate = None, bonus = 0, item = [],
     a_cooldown = 0, amount = 0, chance = None, a_from = [], a_to = [], items = [],
     huntChance = None, biteChance = None\<rparr>"

definition consts0 :: Constants where
  "consts0 = \<lparr>regenPerSec = 1, maxTrees = 1, maxRocks = 1, maxWildPlants = 1,
     respawn_apple_tree = Some 240, respawn_wild_plant = Some 150,
     POKEMON_ABILITIES = (\<lambda>k. if k = ''Ekans'' then Some (ability0\<lparr>biteChance := Some (3 / 10)\<rparr>) else None),
     capacity_coop = 4, capacity_stable = 2, capacity_farm_area = Some 3,
     capacity_laboratory = Some 4,
     POKEMON_LIFESPANS = (\<lambda>k. if k = ''Raichu'' then Some 60 else None),
     POKEMON_EVOLUTIONS = (\<lambda>k. if k = ''Pikachu'' then Some ''Raichu'' else None),
     NIGHT_COUNTERPARTS = [(''Pidgey'', ''Hoothoot'', 20)], DAY_COUNTERPARTS = [''Hoothoot''],
     ITEM_DISPLAY_NAMES = (\<lambda>k. None)\<rparr>"

definition env0 :: Env where
  "env0 = \<lparr>random = (\<lambda>n. 1 / 2), nowMs = 1000, clockHours = 12, clockMinutes = 0,
     clockSeconds = 0, dateStringBack = (\<lambda>h. ''2024-1-2''), numString = (\<lambda>r. ''0'')\<rparr>"

definition world0 :: FarmWorld where
  "world0 = \<lparr>world_w = 1000, world_h = 1000, structs = [], resources = [],
     specials = [], fertileZones = [], cosmeticElements = []\<rparr>"

definition gs0 :: GameState where
  "gs0 = \<lparr>player = player0, world = world0, pokemons = [], cropPlots = [], gameTime = 0,
     day = 1, lastProductionDate = ''2024-1-1'', lastUpdateTimestamp = 1000, dailyIncome = [],
     dailySpawns = [], dailyResourceSpawns = [], respawnQueue = [], dailyPidgeyBonusCount = 0,
     weatherToday = Clear, hasEncounteredEkans = None, hasEncounteredSpearow = None,
     dayChangeHour = 0, eventQueue = [], drawn = 0\<rparr>"

definition oak1 :: Resource where
  "oak1 = \<lparr>r_id = ''res_1'', r_type = ''oak_tree'', r_x = 200, r_y = 200, r_size = 1,
     r_shapeVariant = 0, r_sizeVariant = 0, spawnDay = None, r_state = None\<rparr>"

definition gs_cap :: GameState where
  "gs_cap = gs0\<lparr>world := world0\<lparr>resources := [oak1]\<rparr>,
     respawnQueue := [\<lparr>tk_type = ''pine_tree'', timer = 5\<rparr>, \<lparr>tk_type = ''rock'', timer = 1\<rparr>,
                      \<lparr>tk_type = ''oak_tree'', timer = 1\<rparr>]\<rparr>"

definition p_sleep :: Pokemon where
  "p_sleep = \<lparr>pk_id = ''poke_1'', pk_name = ''Pikachu'', kind = ''Pikachu'', pk_x = 100, pk_y = 100,
     isShiny = False, gender = Male, age = 3, maxAge = 50, homeBuildingId = None, cooldown = 5,
     target = None, aiState = Idle, moveSpeed = 30, isSleeping = True, Poder = None,
     teleportState = None, teleportTimer = None, actionTimer = Some 2, isImmortal = False,
     scheduledDeathHour = None, torchicsCured = None, applesHarvested = None, happiness = 50,
     happinessModifiers = [], isNew = False\<rparr>"

definition gs_sleep :: GameState where
  "gs_sleep = gs0\<lparr>pokemons := [p_sleep]\<rparr>"

definition p_karp :: Pokemon where
  "p_karp = p_sleep\<lparr>pk_name := ''Magikarp'', kind := ''Magikarp'', pk_x := 10, pk_y := 10,
     isSleeping := False, homeBuildingId := Some ''bld_gone''\<rparr>"

definition p_stray :: Pokemon where
  "p_stray = p_sleep\<lparr>pk_x := 10, pk_y := 2000, isSleeping := False,
     homeBuildingId := Some ''bld_gone''\<rparr>"

definition p_old :: Pokemon where
  "p_old = p_sleep\<lparr>isSleeping := False, age := 51, scheduledDeathHour := Some 9\<rparr>"

definition p_nap :: Pokemon where
  "p_nap = p_sleep\<lparr>pk_id := ''poke_2''\<rparr>"

definition gs_evo :: GameState where
  "gs_evo = gs0\<lparr>pokemons := [p_old, p_nap],
     player := player0\<lparr>inventory := [(''evolution_stone'', 1)]\<rparr>\<rparr>"


definition coop1 :: Building where
  "coop1 = \<lparr>b_id = ''bld_coop'', b_type = ''coop'', b_x = 300, b_y = 300, b_w = 100, b_h = 100,
     storage = \<lparr>pokemonKind = Some ''Torchic'', revivingFossil = None, revivalProgress = None\<rparr>,
     b_rotation = 0\<rparr>"

definition p_ekans :: Pokemon where
  "p_ekans = p_sleep\<lparr>pk_id := ''poke_2'', pk_name := ''Ekans'', kind := ''Ekans'', pk_x := 300,
     pk_y := 300, isSleeping := False, homeBuildingId := Some ''bld_coop''\<rparr>"

definition p_torchic :: Pokemon where
  "p_torchic = p_sleep\<lparr>pk_id := ''poke_3'', pk_name := ''Torchic'', kind := ''Torchic'', pk_x := 350,
     pk_y := 350, isSleeping := False, homeBuildingId := Some ''bld_coop''\<rparr>"

definition gs_bite :: GameState where
  "gs_bite = gs0\<lparr>world := world0\<lparr>structs := [coop1]\<rparr>, pokemons := [p_ekans, p_torchic],
     hasEncounteredEkans := Some True\<rparr>"

definition env_low :: Env where
  "env_low = env0\<lparr>random := (\<lambda>n. 1 / 10)\<rparr>"

definition gs_bitten :: GameState where
  "gs_bitten = gs_bite\<lparr>pokemons :=
     [p_ekans\<lparr>happinessModifiers := [], happiness := 50\<rparr>,
      p_torchic\<lparr>happinessModifiers := [(key_praga, Flat (- 5)), (key_picada, Decaying (- 20) 1)],
                happiness := 45\<rparr>],
     drawn := 1\<rparr>"

definition consts1 :: Constants where
  "consts1 = consts0\<lparr>POKEMON_ABILITIES :=
     (\<lambda>k. if k = ''Ekans'' \<or> k = ''Arbok'' then Some (ability0\<lparr>biteChance := Some (3 / 10)\<rparr>) else None)\<rparr>"

definition env1 :: Env where
  "env1 = env0\<lparr>dateStringBack := (\<lambda>h. ''2024-1-1'')\<rparr>"

definition plot_empty :: CropPlot where
  "plot_empty = plot0\<lparr>cp_state := Empty, cp_type := None\<rparr>"

definition gs_crop :: GameState where
  "gs_crop = gs0\<lparr>cropPlots := [plant plot_empty ''seedGraoBaga'']\<rparr>"

text \<open>A creature that arrived today, still flagged as new.\<close>

definition p_new :: Pokemon where
  "p_new = p_sleep\<lparr>isNew := True\<rparr>"

definition gs_new :: GameState where
  "gs_new = gs0\<lparr>pokemons := [p_new]\<rparr>"

text \<open>A creature that dies at hour 0 and a sleeping housemate of the same species.\<close>

definition p_late :: Pokemon where
  "p_late = p_sleep\<lparr>pk_id := ''poke_9'', isSleeping := False, age := 51,
     scheduledDeathHour := Some 0, homeBuildingId := Some ''bld_coop''\<rparr>"

definition p_mate :: Pokemon where
  "p_mate = p_sleep\<lparr>homeBuildingId := Some ''bld_coop''\<rparr>"

definition gs_mourn :: GameState where
  "gs_mourn = gs0\<lparr>pokemons := [p_late, p_mate]\<rparr>"

text \<open>A creature whose home building is gone, in the list of creatures.\<close>

definition gs_stray :: GameState where
  "gs_stray = gs0\<lparr>pokemons := [p_stray]\<rparr>"

section \<open>Theorems\<close>

subsection \<open>Harvesting a crop plot\<close>

lemma cropType_plot0: "toLowerCase (replace_first ''seed'' [] ''seedGraoBaga'') = ''graobaga''"
  by code_simp

text \<open>
  C3 (as stated, refuted). The claim gives an unfertilized harvest two crops with
  probability 0.15, that is whenever the uniform draw lies below 0.15. At the draw 0.1 the
  source's threshold for an unfertilized plot is 0.05, and the harvest yields one crop.
\<close>

theorem C3_unfertilized_double_counterexample:
  "fertilized plot0 = False \<and> cp_state plot0 = Mature \<and> (1 / 10 :: real) < 15 / 100
   \<and> snd (snd (harvest (1 / 10) plot0 player0)) = Some (''graobaga'', 1)"
  by code_simp

text \<open>
  C3 (amended). Harvesting a mature, planted, unfertilized plot yields two crops exactly
  when the draw of \<open>Math.random()\<close> is below 0.05 and one crop otherwise (probabilities
  0.05 and 0.95 under the uniform draw on [0, 1)); a fertilized plot has the threshold
  0.15. The yield is credited to the player's inventory under the crop's name (the seed
  name without its first \<open>seed\<close>, in lower case), and the plot is reset to empty with its
  type, growth and flags cleared.
\<close>

theorem C3_harvest_yield:
  assumes "cp_state plot = Mature" and "cp_type plot = Some t" and "t \<noteq> []"
  shows "\<exists>n. harvest r plot pl =
            (reset plot, addItem pl (toLowerCase (replace_first ''seed'' [] t)) n,
             Some (toLowerCase (replace_first ''seed'' [] t), n))
          \<and> (n = 1 \<or> n = 2)
          \<and> (n = 2 \<longleftrightarrow> r < (if fertilized plot then 15 / 100 else 5 / 100))
          \<and> cp_state (reset plot) = Empty
          \<and> inv_get (inventory (addItem pl (toLowerCase (replace_first ''seed'' [] t)) n))
                (toLowerCase (replace_first ''seed'' [] t))
              = inv_get (inventory pl) (toLowerCase (replace_first ''seed'' [] t)) + n"
  using assms
  by (simp add: harvest_def Let_def reset_def addItem_def inv_get_def update_conv')

theorem C3_harvest_yield_witness:
  "harvest (1 / 50) plot0 player0 =
     (reset plot0, addItem player0 ''graobaga'' 2, Some (''graobaga'', 2))
   \<and> inv_get (inventory (addItem player0 ''graobaga'' 2)) ''graobaga'' = 2"
proof -
  have m: "cp_state plot0 = Mature" and t: "cp_type plot0 = Some ''seedGraoBaga''"
    and ne: "''seedGraoBaga'' \<noteq> []" and f: "\<not> fertilized plot0"
    by (simp_all add: plot0_def)
  note th = C3_harvest_yield [OF m t ne, of "1 / 50" player0, unfolded cropType_plot0]
  then obtain n where h: "harvest (1 / 50) plot0 player0 =
        (reset plot0, addItem player0 ''graobaga'' n, Some (''graobaga'', n))"
      and n: "n = 2 \<longleftrightarrow> (1 / 50 :: real) < (if fertilized plot0 then 15 / 100 else 5 / 100)"
      and i: "inv_get (inventory (addItem player0 ''graobaga'' n)) ''graobaga''
              = inv_get (inventory player0) ''graobaga'' + n"
    by blast
  from n f have "n = 2" by simp
  with h i show ?thesis by (simp add: player0_def inv_get_def)
qed

lemma check_specials_None:
  "check_specials ty pt sps = None \<longleftrightarrow>
     (\<forall>sp \<in> set sps. isPointInPolygon pt (sp_points sp) \<longrightarrow> sp_type sp = ''quarry'' \<and> ty = Some ''mine'')"
  by (induction sps) auto

lemma check_fertile_None:
  "check_fertile pt fzs = None \<longleftrightarrow>
     (\<forall>fz \<in> set fzs. case fz of Circle cx cy r \<Rightarrow> True
                               | Poly pts c r \<Rightarrow> \<not> isPointInPolygon pt pts)"
  by (induction pt fzs rule: check_fertile.induct) auto

lemma check_points_None:
  "check_points ty wd pts = None \<longleftrightarrow>
     (\<forall>pt \<in> set pts. check_specials ty pt (specials wd) = None
                      \<and> check_fertile pt (fertileZones wd) = None)"
  by (induction pts) (auto split: option.splits)

lemma check_structs_None:
  "check_structs x1 y1 x2 y2 ss = None \<longleftrightarrow>
     (\<forall>s \<in> set ss. b_type s \<noteq> ''river_area'' \<longrightarrow>
        \<not> (x1 < b_x s + b_w s \<and> x2 > b_x s \<and> y1 < b_y s + b_h s \<and> y2 > b_y s))"
  by (induction ss) auto

lemma mine_check_None:
  "mine_check x y w h wd ty = None \<longleftrightarrow>
     (ty = Some ''mine'' \<longrightarrow>
        (\<exists>q. find (\<lambda>s. sp_type s = ''quarry'') (specials wd) = Some q
             \<and> isPointInPolygon (x + w / 2, y + h / 2) (sp_points q)))"
  by (auto simp: mine_check_def split: option.splits)

text \<open>
  C8 (amended). The query is a function of its arguments that returns only the pair
  \<open>(clear, message)\<close>, so it cannot change the world. It returns \<open>clear = true\<close> exactly
  when: a mine has the centre of its rectangle inside the (first) quarry polygon; the
  rectangle keeps the padding of 20 from the world's borders; none of the five check points
  (the four corners and the centre) lies inside a special polygon, a mine being allowed in
  the quarry; none of the five check points lies inside a polygonal fertile zone; and the
  rectangle overlaps no existing structure other than a \<open>river_area\<close>.
\<close>

theorem C8_placement_clear_iff:
  "fst (isPlacementAreaClear x y w h wd ty) \<longleftrightarrow>
     (ty = Some ''mine'' \<longrightarrow>
        (\<exists>q. find (\<lambda>s. sp_type s = ''quarry'') (specials wd) = Some q
             \<and> isPointInPolygon (x + w / 2, y + h / 2) (sp_points q)))
     \<and> 20 \<le> x \<and> x + w \<le> world_w wd - 20 \<and> 20 \<le> y \<and> y + h \<le> world_h wd - 20
     \<and> (\<forall>pt \<in> set (checkPoints x y w h).
          (\<forall>sp \<in> set (specials wd).
             isPointInPolygon pt (sp_points sp) \<longrightarrow> sp_type sp = ''quarry'' \<and> ty = Some ''mine'')
          \<and> (\<forall>fz \<in> set (fertileZones wd).
                case fz of Circle cx cy r \<Rightarrow> True | Poly pts c r \<Rightarrow> \<not> isPointInPolygon pt pts))
     \<and> (\<forall>s \<in> set (structs wd). b_type s \<noteq> ''river_area'' \<longrightarrow>
          \<not> (x < b_x s + b_w s \<and> x + w > b_x s \<and> y < b_y s + b_h s \<and> y + h > b_y s))"
proof -
  have "fst (isPlacementAreaClear x y w h wd ty) \<longleftrightarrow>
      mine_check x y w h wd ty = None
      \<and> \<not> (x < 20 \<or> x + w > world_w wd - 20 \<or> y < 20 \<or> y + h > world_h wd - 20)
      \<and> check_points ty wd (checkPoints x y w h) = None
      \<and> check_structs x y (x + w) (y + h) (structs wd) = None"
    by (simp add: isPlacementAreaClear_def Let_def split: option.splits)
  then show ?thesis
    unfolding mine_check_None check_points_None check_specials_None check_fertile_None
      check_structs_None
    by (simp add: not_less)
qed

text \<open>
  C8 (as stated, refuted). The river polygon \<open>river_square\<close> lies inside the candidate
  rectangle (100, 100)-(200, 200), between a corner and the centre: the point (115, 115)
  is in both, so the rectangle overlaps the river, and the placement is reported clear.
\<close>

theorem C8_river_overlap_counterexample:
  "fst (isPlacementAreaClear 100 100 100 100 world1 None)
   \<and> isPointInPolygon (115, 115) (sp_points (hd (specials world1)))
   \<and> sp_type (hd (specials world1)) = ''river''
   \<and> (100::real) \<le> 115 \<and> (115::real) \<le> 100 + 100"
  by (simp add: isPlacementAreaClear_def mine_check_def world1_def checkPoints_def
      isPointInPolygon_def river_square_def intersect_def)

theorem C8_placement_clear_iff_witness:
  "fst (isPlacementAreaClear 300 300 100 100 world1 None)
   \<and> \<not> fst (isPlacementAreaClear 100 100 20 20 world1 None)"
  using C8_placement_clear_iff [of 300 300 100 100 world1 None]
    C8_placement_clear_iff [of 100 100 20 20 world1 None]
  by (simp add: world1_def checkPoints_def isPointInPolygon_def river_square_def intersect_def)

subsection \<open>Respawn under the tree cap\<close>

lemma fertile_spawn_frame:
  "snd (fertile_spawn env gs b) = gs\<lparr>drawn := drawn (snd (fertile_spawn env gs b))\<rparr>"
  by (simp add: fertile_spawn_def Let_def split: option.splits FertileZone.splits list.splits)

lemma combee_spawn_resources: "resources (world (combee_spawn C env r gs)) = resources (world gs)"
  by (simp add: combee_spawn_def Let_def)

lemma combee_spawn_queue: "respawnQueue (combee_spawn C env r gs) = respawnQueue gs"
  by (simp add: combee_spawn_def Let_def)

lemma place_resource_queue: "respawnQueue (place_resource C env t x y gs) = respawnQueue gs"
  by (simp add: place_resource_def Let_def combee_spawn_queue)

lemma not_tree_types:
  "\<not> endsWith t ''_tree'' \<Longrightarrow> t \<noteq> ''oak_tree'' \<and> t \<noteq> ''pine_tree''"
  by (auto simp: endsWith_def)

lemma place_resource_trees:
  "\<not> endsWith (tk_type t) ''_tree'' \<Longrightarrow>
   treeCountOf (place_resource C env t x y gs) = treeCountOf gs"
  by (frule not_tree_types)
     (simp add: place_resource_def Let_def treeCountOf_def new_Resource_def)

lemma spawn_item_queue: "respawnQueue (spawn_item C env t b gs) = respawnQueue gs"
proof -
  obtain k where k: "snd (fertile_spawn env gs b) = gs\<lparr>drawn := k\<rparr>"
    using fertile_spawn_frame by metis
  show ?thesis
    using k by (cases "fertile_spawn env gs b")
      (auto simp: spawn_item_def place_resource_queue split: option.splits prod.splits)
qed

lemma spawn_item_trees:
  assumes "\<not> endsWith (tk_type t) ''_tree''"
  shows "treeCountOf (spawn_item C env t b gs) = treeCountOf gs"
proof -
  obtain k where k: "snd (fertile_spawn env gs b) = gs\<lparr>drawn := k\<rparr>"
    using fertile_spawn_frame by metis
  have d: "\<And>g n. treeCountOf (g\<lparr>drawn := n\<rparr>) = treeCountOf g"
    by (simp add: treeCountOf_def)
  show ?thesis
    using k by (cases "fertile_spawn env gs b")
      (auto simp: spawn_item_def place_resource_trees [OF assms] d split: option.splits prod.splits)
qed

lemma isTreeTicket_timer [simp]: "isTreeTicket (t\<lparr>timer := x\<rparr>) = isTreeTicket t"
  by (simp add: isTreeTicket_def)

lemma tree_remaining:
  "filter isTreeTicket (filter (\<lambda>t. timer t > 0) (map (\<lambda>t. t\<lparr>timer := timer t - dt\<rparr>) q)) =
   map (\<lambda>t. t\<lparr>timer := timer t - dt\<rparr>) (filter (\<lambda>t. isTreeTicket t \<and> timer t - dt > 0) q)"
  by (induction q) simp_all

lemma tree_expired:
  "map (\<lambda>t. t\<lparr>timer := 10\<rparr>)
     (filter isTreeTicket (filter (\<lambda>t. \<not> timer t > 0) (map (\<lambda>t. t\<lparr>timer := timer t - dt\<rparr>) q))) =
   map (\<lambda>t. t\<lparr>timer := 10\<rparr>) (filter (\<lambda>t. isTreeTicket t \<and> \<not> timer t - dt > 0) q)"
  by (induction q) simp_all

lemma respawn_item_capped:
  assumes "maxTrees C \<le> tc"
  shows "\<exists>g' rc' pc'. respawn_item C env t (g, tc, rc, pc) = (g', tc, rc', pc')
      \<and> treeCountOf g' = treeCountOf g
      \<and> filter isTreeTicket (respawnQueue g') =
          filter isTreeTicket (respawnQueue g) @ (if isTreeTicket t then [t\<lparr>timer := 10\<rparr>] else [])"
proof -
  have r: "\<not> endsWith ''rock'' ''_tree''" and p: "\<not> endsWith ''wild_plant'' ''_tree''"
    by (simp_all add: endsWith_def)
  have q: "\<And>g x. treeCountOf (g\<lparr>respawnQueue := x\<rparr>) = treeCountOf g"
    by (simp add: treeCountOf_def)
  show ?thesis
    using assms r p
    by (auto simp: respawn_item_def Let_def spawn_item_queue spawn_item_trees isTreeTicket_def q)
qed

lemma fold_respawn_capped:
  assumes "maxTrees C \<le> tc"
  shows "treeCountOf (fst (fold (respawn_item C env) ts (g, tc, rc, pc))) = treeCountOf g
      \<and> filter isTreeTicket (respawnQueue (fst (fold (respawn_item C env) ts (g, tc, rc, pc)))) =
          filter isTreeTicket (respawnQueue g) @ map (\<lambda>t. t\<lparr>timer := 10\<rparr>) (filter isTreeTicket ts)"
proof (induction ts arbitrary: g rc pc)
  case Nil
  show ?case by simp
next
  case (Cons t ts)
  from respawn_item_capped [OF assms, of env t g rc pc]
  obtain g' rc' pc' where s: "respawn_item C env t (g, tc, rc, pc) = (g', tc, rc', pc')"
    and c: "treeCountOf g' = treeCountOf g"
    and f: "filter isTreeTicket (respawnQueue g') =
          filter isTreeTicket (respawnQueue g) @ (if isTreeTicket t then [t\<lparr>timer := 10\<rparr>] else [])"
    by blast
  from Cons.IH [of g' rc' pc'] s c f show ?case
    by simp
qed

text \<open>
  C4. When the number of tree resources equals \<open>maxTrees\<close>, a respawn pass leaves the
  number of trees unchanged, and no tree ticket is lost: the tree tickets of the queue
  after the pass are the unexpired ones with their timers decremented, followed by every
  expired one re-armed with the retry delay 10.
\<close>

theorem C4_respawn_cap:
  assumes "real (treeCountOf gs) = maxTrees C"
  shows "treeCountOf (updateWorld C env gs dt) = treeCountOf gs
    \<and> filter isTreeTicket (respawnQueue (updateWorld C env gs dt)) =
        map (\<lambda>t. t\<lparr>timer := timer t - dt\<rparr>)
          (filter (\<lambda>t. isTreeTicket t \<and> timer t - dt > 0) (respawnQueue gs))
        @ map (\<lambda>t. t\<lparr>timer := 10\<rparr>)
          (filter (\<lambda>t. isTreeTicket t \<and> \<not> timer t - dt > 0) (respawnQueue gs))"
proof -
  let ?dec = "\<lambda>t. t\<lparr>timer := timer t - dt\<rparr>"
  let ?rem = "filter (\<lambda>t. timer t > 0) (map ?dec (respawnQueue gs))"
  let ?exp = "filter (\<lambda>t. \<not> timer t > 0) (map ?dec (respawnQueue gs))"
  let ?g1 = "gs\<lparr>respawnQueue := ?rem\<rparr>"
  have tq: "tick_queue dt (respawnQueue gs) = (?rem, ?exp)"
    by (simp add: tick_queue_def Let_def)
  have c1: "treeCountOf ?g1 = treeCountOf gs" by (simp add: treeCountOf_def)
  have cap: "maxTrees C \<le> real (treeCountOf ?g1)" using assms c1 by simp
  have rem: "filter isTreeTicket ?rem =
      map ?dec (filter (\<lambda>t. isTreeTicket t \<and> timer t - dt > 0) (respawnQueue gs))"
    by (rule tree_remaining)
  have exp: "map (\<lambda>t. t\<lparr>timer := 10\<rparr>) (filter isTreeTicket ?exp) =
      map (\<lambda>t. t\<lparr>timer := 10\<rparr>) (filter (\<lambda>t. isTreeTicket t \<and> \<not> timer t - dt > 0) (respawnQueue gs))"
    by (rule tree_expired)
  show ?thesis
  proof (cases "?exp = []")
    case True
    then have u: "updateWorld C env gs dt = ?g1"
      by (simp add: updateWorld_def tq)
    from True exp have "map (\<lambda>t. t\<lparr>timer := 10\<rparr>)
        (filter (\<lambda>t. isTreeTicket t \<and> \<not> timer t - dt > 0) (respawnQueue gs)) = []"
      by simp
    with u c1 rem show ?thesis by simp
  next
    case False
    then have u: "updateWorld C env gs dt =
        fst (fold (respawn_item C env) ?exp (?g1, real (treeCountOf ?g1),
          real (length (filter (\<lambda>r. r_type r = ''rock'') (resources (world ?g1)))),
          real (length (filter (\<lambda>r. r_type r = ''wild_plant'') (resources (world ?g1))))))"
      by (simp add: updateWorld_def tq Let_def)
    from fold_respawn_capped [OF cap, of env ?exp ?g1] u c1 rem exp
    show ?thesis by simp
  qed
qed

theorem C4_respawn_cap_witness:
  "real (treeCountOf gs_cap) = maxTrees consts0
   \<and> treeCountOf (updateWorld consts0 env0 gs_cap 2) = 1
   \<and> filter isTreeTicket (respawnQueue (updateWorld consts0 env0 gs_cap 2)) =
       [\<lparr>tk_type = ''pine_tree'', timer = 3\<rparr>, \<lparr>tk_type = ''oak_tree'', timer = 10\<rparr>]"
proof -
  have h: "real (treeCountOf gs_cap) = maxTrees consts0"
    by (simp add: gs_cap_def gs0_def world0_def oak1_def consts0_def treeCountOf_def endsWith_def)
  from C4_respawn_cap [OF h, of env0 2] h show ?thesis
    by (simp add: gs_cap_def gs0_def world0_def oak1_def treeCountOf_def isTreeTicket_def endsWith_def)
qed

subsection \<open>What the behaviour of a creature leaves unchanged\<close>

lemma behave_frame_refl [simp]: "behave_frame gs gs"
  by (simp add: behave_frame_def)

lemma behave_frame_trans: "behave_frame a b \<Longrightarrow> behave_frame b c \<Longrightarrow> behave_frame a c"
  by (simp add: behave_frame_def)

lemma behave_frame_drawn [simp]: "behave_frame gs (gs\<lparr>drawn := n\<rparr>)"
  by (simp add: behave_frame_def crop_static_def)

lemma teleport_away_frame: "behave_frame gs (snd (teleport_away env p gs))"
  by (simp add: teleport_away_def Let_def split: prod.splits)

lemma teleport_home_frame: "behave_frame gs (snd (teleport_home env p gs))"
  by (simp add: crop_static_def teleport_home_def Let_def behave_frame_def split: option.splits)

lemma teleport_step_frame: "behave_frame gs (snd (teleport_step env dt p gs))"
  by (auto simp: teleport_step_def Let_def intro: behave_frame_trans [OF _ teleport_away_frame]
        behave_frame_trans [OF _ teleport_home_frame])

lemma apple_eater_frame: "behave_frame gs (snd (apple_eater_action a p gs))"
  by (simp add: crop_static_def apple_eater_action_def behave_frame_def set_resources_def split: option.splits)

lemma map_upd_same: "g y = g (xs ! i) \<Longrightarrow> map g (xs[i := y]) = map g xs"
  by (induction xs arbitrary: i) (auto split: nat.splits)

lemma crop_static_upd:
  assumes "cp_id y = cp_id (cropPlots gs ! i)" "cp_state y = cp_state (cropPlots gs ! i)"
    "cp_type y = cp_type (cropPlots gs ! i)" "growthDays y = growthDays (cropPlots gs ! i)"
    "matureTimeInDays y = matureTimeInDays (cropPlots gs ! i)"
  shows "crop_static (gs\<lparr>cropPlots := (cropPlots gs)[i := y]\<rparr>) = crop_static gs"
  using assms by (simp add: crop_static_def map_upd_same)

lemma water_static: "cp_id (water pl) = cp_id pl \<and> cp_state (water pl) = cp_state pl
    \<and> cp_type (water pl) = cp_type pl \<and> growthDays (water pl) = growthDays pl
    \<and> matureTimeInDays (water pl) = matureTimeInDays pl"
  by (simp add: water_def)

lemma water_crop_frame: "behave_frame gs (snd (water_crop_action a p gs))"
  by (simp add: water_crop_action_def behave_frame_def crop_static_upd water_static
      split: option.splits)

lemma fertilize_crop_frame: "behave_frame gs (snd (fertilize_crop_action a p gs))"
  by (simp add: fertilize_crop_action_def behave_frame_def crop_static_upd split: option.splits)

lemma harvest_apple_tree_frame: "behave_frame gs (snd (harvest_apple_tree_action C env a p gs))"
  by (simp add: crop_static_def harvest_apple_tree_action_def Let_def behave_frame_def set_resources_def
      split: option.splits)

lemma harvest_plant_frame: "behave_frame gs (snd (harvest_plant_action C a p gs))"
  by (simp add: crop_static_def harvest_plant_action_def Let_def behave_frame_def set_resources_def
      split: option.splits)

lemma cooldown_item_frame: "behave_frame gs (snd (cooldown_item_action a p gs))"
  by (simp add: crop_static_def cooldown_item_action_def behave_frame_def split: option.splits)

lemma ability_action_frame: "behave_frame gs (snd (ability_action C env a p gs))"
  by (simp add: ability_action_def apple_eater_frame water_crop_frame fertilize_crop_frame
      harvest_apple_tree_frame harvest_plant_frame cooldown_item_frame)

lemma ability_step_frame: "behave_frame gs (snd (ability_step C env p gs))"
  by (simp add: ability_step_def ability_action_frame split: option.splits)

lemma river_resnap_frame: "behave_frame gs (snd (river_resnap env p gs))"
  by (simp add: river_resnap_def split: option.splits prod.splits)

lemma homeless_clamp_frame: "behave_frame gs (snd (homeless_clamp env p gs))"
  by (simp add: homeless_clamp_def Let_def river_resnap_frame)

lemma clamp_step_frame: "behave_frame gs (snd (clamp_step env p gs))"
  by (simp add: clamp_step_def Let_def river_resnap_frame homeless_clamp_frame split: option.splits)

lemma wander_step_frame: "behave_frame gs (snd (wander_step env p gs))"
  by (simp add: wander_step_def split: option.splits prod.splits)

lemma behave_frame_behave: "behave_frame gs (snd (behave C env dt p gs))"
proof -
  note behave_frame_trans [trans]
  let ?p1 = "action_timer_step dt p"
  let ?s2 = "teleport_step env dt ?p1 gs"
  let ?p3 = "(fst ?s2)\<lparr>cooldown := max 0 (cooldown (fst ?s2) - dt)\<rparr>"
  let ?s4 = "ability_step C env ?p3 (snd ?s2)"
  let ?p5 = "movement_step dt (fst ?s4)"
  let ?s6 = "clamp_step env ?p5 (snd ?s4)"
  have e: "behave C env dt p gs = wander_step env (fst ?s6) (snd ?s6)"
    by (simp add: behave_def Let_def)
  have "behave_frame gs (snd ?s2)" by (rule teleport_step_frame)
  also have "behave_frame (snd ?s2) (snd ?s4)" by (rule ability_step_frame)
  also have "behave_frame (snd ?s4) (snd ?s6)" by (rule clamp_step_frame)
  also have "behave_frame (snd ?s6) (snd (wander_step env (fst ?s6) (snd ?s6)))"
    by (rule wander_step_frame)
  finally show ?thesis by (simp only: e)
qed

subsection \<open>The loop of updatePokemons\<close>

lemma mods_only_refl [simp]: "mods_only p p"
  by (simp add: mods_only_def)

lemma mods_only_trans: "mods_only p q \<Longrightarrow> mods_only q r \<Longrightarrow> mods_only p r"
  by (cases p; cases q; cases r) (simp add: mods_only_def)

lemma mods_only_fields:
  assumes "mods_only p q"
  shows "scheduledDeathHour q = scheduledDeathHour p" and "isSleeping q = isSleeping p"
    and "pk_id q = pk_id p" and "cooldown q = cooldown p" and "actionTimer q = actionTimer p"
    and "pk_x q = pk_x p" and "pk_y q = pk_y p" and "aiState q = aiState p"
    and "target q = target p" and "kind q = kind p" and "homeBuildingId q = homeBuildingId p"
  using assms by (cases p; cases q; simp add: mods_only_def)+

lemma death_due_mods: "mods_only p q \<Longrightarrow> death_due q h = death_due p h"
  by (simp add: death_due_def mods_only_fields)

lemma grieve_mods [simp]: "mods_only p (grieve d p)"
  by (simp add: grieve_def mods_only_def)

lemma behave_pokemons: "pokemons (snd (behave C env dt p gs)) = pokemons gs"
  using behave_frame_behave [of gs C env dt p] by (simp add: behave_frame_def)

lemma tick_death:
  assumes "death_due (pokemons gs ! i) h"
  shows "\<exists>gs' gh. pokemon_tick C env dt h i (gs, keep, ghosts) = (gs', keep, gh)
           \<and> length (pokemons gs') = length (pokemons gs)
           \<and> (\<forall>j < length (pokemons gs). mods_only (pokemons gs ! j) (pokemons gs' ! j))"
  using assms by (simp add: pokemon_tick_def Let_def)

lemma tick_sleep:
  assumes "\<not> death_due (pokemons gs ! i) h" and "isSleeping (pokemons gs ! i)"
  shows "pokemon_tick C env dt h i (gs, keep, ghosts) = (gs, keep @ [i], ghosts)"
  using assms by (simp add: pokemon_tick_def Let_def)

lemma tick_behave:
  assumes "\<not> death_due (pokemons gs ! i) h" and "\<not> isSleeping (pokemons gs ! i)"
  shows "\<exists>gs'. pokemon_tick C env dt h i (gs, keep, ghosts) = (gs', keep @ [i], ghosts)
           \<and> length (pokemons gs') = length (pokemons gs)
           \<and> (\<forall>j < length (pokemons gs). j \<noteq> i \<longrightarrow> pokemons gs' ! j = pokemons gs ! j)"
proof -
  obtain p' g' where b: "behave C env dt (pokemons gs ! i) gs = (p', g')"
    by (cases "behave C env dt (pokemons gs ! i) gs") auto
  with behave_pokemons [of C env dt "pokemons gs ! i" gs] have "pokemons g' = pokemons gs"
    by simp
  with assms b show ?thesis by (simp add: pokemon_tick_def Let_def)
qed

lemma tick_general:
  "\<exists>gs' keep' gh. pokemon_tick C env dt h i (gs, keep, ghosts) = (gs', keep', gh)
     \<and> keep' = (if death_due (pokemons gs ! i) h then keep else keep @ [i])
     \<and> length (pokemons gs') = length (pokemons gs)
     \<and> (\<forall>j < length (pokemons gs). j \<noteq> i \<longrightarrow> mods_only (pokemons gs ! j) (pokemons gs' ! j))
     \<and> (isSleeping (pokemons gs ! i) \<or> death_due (pokemons gs ! i) h \<longrightarrow>
          (\<forall>j < length (pokemons gs). mods_only (pokemons gs ! j) (pokemons gs' ! j)))"
proof (cases "death_due (pokemons gs ! i) h")
  case True
  from tick_death [OF True, of C env dt keep ghosts] show ?thesis using True by auto
next
  case nd: False
  show ?thesis
  proof (cases "isSleeping (pokemons gs ! i)")
    case True
    from tick_sleep [OF nd True, of C env dt keep ghosts] show ?thesis using nd by simp
  next
    case False
    from tick_behave [OF nd False, of C env dt keep ghosts] show ?thesis using nd False by auto
  qed
qed

lemma tick_inv_step:
  assumes inv: "tick_inv gs h m st" and m: "m < length (pokemons gs)"
  shows "tick_inv gs h (Suc m) (pokemon_tick C env dt h m st)"
proof -
  obtain g keep gh where st: "st = (g, keep, gh)" by (cases st) auto
  from inv st have len: "length (pokemons g) = length (pokemons gs)"
    and mo: "\<And>j. j < length (pokemons gs) \<Longrightarrow>
              m \<le> j \<or> isSleeping (pokemons gs ! j) \<or> death_due (pokemons gs ! j) h \<Longrightarrow>
              mods_only (pokemons gs ! j) (pokemons g ! j)"
    and k: "keep = filter (\<lambda>i. \<not> death_due (pokemons gs ! i) h) [0..<m]"
    by (auto simp: tick_inv_def)
  have cur: "mods_only (pokemons gs ! m) (pokemons g ! m)" using mo [of m] m by simp
  have due: "death_due (pokemons g ! m) h = death_due (pokemons gs ! m) h"
    by (rule death_due_mods [OF cur])
  have slp: "isSleeping (pokemons g ! m) = isSleeping (pokemons gs ! m)"
    by (rule mods_only_fields [OF cur])
  from tick_general [of C env dt h m g keep gh]
  obtain g' keep' gh' where t: "pokemon_tick C env dt h m (g, keep, gh) = (g', keep', gh')"
    and k': "keep' = (if death_due (pokemons g ! m) h then keep else keep @ [m])"
    and len': "length (pokemons g') = length (pokemons g)"
    and oth: "\<forall>j < length (pokemons g). j \<noteq> m \<longrightarrow> mods_only (pokemons g ! j) (pokemons g' ! j)"
    and same: "isSleeping (pokemons g ! m) \<or> death_due (pokemons g ! m) h \<longrightarrow>
               (\<forall>j < length (pokemons g). mods_only (pokemons g ! j) (pokemons g' ! j))"
    by blast
  have a: "length (pokemons g') = length (pokemons gs)" using len len' by simp
  have b: "mods_only (pokemons gs ! j) (pokemons g' ! j)"
    if j: "j < length (pokemons gs)"
      and c: "Suc m \<le> j \<or> isSleeping (pokemons gs ! j) \<or> death_due (pokemons gs ! j) h" for j
  proof (cases "j = m")
    case True
    with c have "isSleeping (pokemons gs ! m) \<or> death_due (pokemons gs ! m) h" by auto
    then have "isSleeping (pokemons g ! m) \<or> death_due (pokemons g ! m) h"
      using due slp by simp
    with same m len have "mods_only (pokemons g ! m) (pokemons g' ! m)" by simp
    with cur True show ?thesis by (blast intro: mods_only_trans)
  next
    case False
    from c False have "m \<le> j \<or> isSleeping (pokemons gs ! j) \<or> death_due (pokemons gs ! j) h"
      by auto
    from mo [OF j this] oth j len False show ?thesis
      by (auto intro: mods_only_trans)
  qed
  have c: "keep' = filter (\<lambda>i. \<not> death_due (pokemons gs ! i) h) [0..<Suc m]"
    using k k' due by simp
  from a b c show ?thesis unfolding st t tick_inv_def by simp
qed

lemma tick_inv_run:
  "m \<le> length (pokemons gs) \<Longrightarrow>
   tick_inv gs h m (fold (pokemon_tick C env dt h) [0..<m] (gs, [], []))"
proof (induction m)
  case 0
  show ?case by (simp add: tick_inv_def)
next
  case (Suc m)
  then have "tick_inv gs h m (fold (pokemon_tick C env dt h) [0..<m] (gs, [], []))" by simp
  from tick_inv_step [OF this, of C env dt] Suc.prems show ?case by simp
qed

lemma updatePokemons_loop_inv:
  "tick_inv gs (hourOf (gameTime gs)) (length (pokemons gs)) (updatePokemons_loop C env gs dt)"
  unfolding updatePokemons_loop_def by (rule tick_inv_run) simp

text \<open>Grief: what the deaths of a pass do to the creatures that are not behaved.\<close>

lemma grieve_cong: "mods_only d d' \<Longrightarrow> grieve d' q = grieve d q"
  by (simp add: grieve_def mods_only_fields)

lemma grief_step_cong: "mods_only d d' \<Longrightarrow> grief_step h d' q = grief_step h d q"
  by (simp add: grief_step_def grieve_cong death_due_mods mods_only_fields)

lemma grief_step_mods [simp]: "mods_only q (grief_step h d q)"
  by (simp add: grief_step_def)

lemma fold_grief_mods: "mods_only q (fold (grief_step h) ds q)"
proof (induction ds arbitrary: q)
  case Nil
  show ?case by simp
next
  case (Cons d ds)
  from mods_only_trans [OF grief_step_mods Cons.IH] show ?case by simp
qed

lemma grief_step_none:
  "\<not> (death_due d h \<and> truthy_str (homeBuildingId d) \<and> homeBuildingId d = homeBuildingId q
       \<and> pk_id d \<noteq> pk_id q) \<Longrightarrow> grief_step h d q = q"
  by (auto simp: grief_step_def grieve_def)

lemma fold_grief_none:
  "\<forall>d \<in> set ds. \<not> (death_due d h \<and> truthy_str (homeBuildingId d)
       \<and> homeBuildingId d = homeBuildingId q \<and> pk_id d \<noteq> pk_id q) \<Longrightarrow>
   fold (grief_step h) ds q = q"
  by (induction ds) (simp_all add: grief_step_none)

lemma fold_grief_entries:
  assumes "mods_only p q"
  shows "fold (grief_step h) ds q =
    p\<lparr>happinessModifiers :=
        fold (\<lambda>d m. if death_due d h \<and> truthy_str (homeBuildingId d)
                        \<and> homeBuildingId d = homeBuildingId p \<and> pk_id d \<noteq> pk_id p
                     then (if kind p = kind d
                           then AList.update key_luto_especie (Decaying (- 20) 3) m
                           else AList.update key_luto_companheiro (Decaying (- 10) 3) m)
                     else m) ds (happinessModifiers q)\<rparr>"
  using assms
proof (induction ds arbitrary: q)
  case Nil
  then show ?case by (simp add: mods_only_def)
next
  case (Cons d ds)
  let ?G = "\<lambda>d m. if death_due d h \<and> truthy_str (homeBuildingId d)
                        \<and> homeBuildingId d = homeBuildingId p \<and> pk_id d \<noteq> pk_id p
                     then (if kind p = kind d
                           then AList.update key_luto_especie (Decaying (- 20) 3) m
                           else AList.update key_luto_companheiro (Decaying (- 10) 3) m)
                     else m"
  from Cons.prems have f: "homeBuildingId q = homeBuildingId p" "pk_id q = pk_id p" "kind q = kind p"
    by (simp_all add: mods_only_fields)
  have m: "mods_only p (grief_step h d q)"
    by (rule mods_only_trans [OF Cons.prems grief_step_mods])
  have e: "happinessModifiers (grief_step h d q) = ?G d (happinessModifiers q)"
    using f by (auto simp: grief_step_def grieve_def)
  from Cons.IH [OF m] show ?case by (simp only: fold_simps e) 
qed

lemma tick_result:
  assumes "j < length (pokemons g)"
    and "j \<noteq> m \<or> isSleeping (pokemons g ! m) \<or> death_due (pokemons g ! m) h"
  shows "pokemons (fst (pokemon_tick C env dt h m (g, keep, gh))) ! j
           = grief_step h (pokemons g ! m) (pokemons g ! j)"
proof (cases "death_due (pokemons g ! m) h")
  case True
  with assms(1) show ?thesis by (simp add: pokemon_tick_def Let_def grief_step_def)
next
  case nd: False
  show ?thesis
  proof (cases "isSleeping (pokemons g ! m)")
    case True
    with nd show ?thesis by (simp add: pokemon_tick_def Let_def grief_step_def)
  next
    case False
    with nd assms(2) have ne: "j \<noteq> m" by blast
    obtain p' g' where b: "behave C env dt (pokemons g ! m) g = (p', g')"
      by (cases "behave C env dt (pokemons g ! m) g") auto
    with behave_pokemons [of C env dt "pokemons g ! m" g] have "pokemons g' = pokemons g" by simp
    with nd False b ne show ?thesis by (simp add: pokemon_tick_def Let_def grief_step_def)
  qed
qed

lemma grief_inv_step:
  assumes iv: "tick_inv gs h m st" and gi: "grief_inv gs h m st" and m: "m < length (pokemons gs)"
  shows "grief_inv gs h (Suc m) (pokemon_tick C env dt h m st)"
proof -
  obtain g keep gh where st: "st = (g, keep, gh)" by (cases st) auto
  from iv st have len: "length (pokemons g) = length (pokemons gs)"
    and cur: "mods_only (pokemons gs ! m) (pokemons g ! m)"
    using m by (auto simp: tick_inv_def)
  have tk: "take (Suc m) (pokemons gs) = take m (pokemons gs) @ [pokemons gs ! m]"
    using m by (rule take_Suc_conv_app_nth)
  have "pokemons (fst (pokemon_tick C env dt h m (g, keep, gh))) ! j
          = fold (grief_step h) (take (Suc m) (pokemons gs)) (pokemons gs ! j)"
    if j: "j < length (pokemons gs)"
      and c: "Suc m \<le> j \<or> isSleeping (pokemons gs ! j) \<or> death_due (pokemons gs ! j) h" for j
  proof -
    from c have c': "m \<le> j \<or> isSleeping (pokemons gs ! j) \<or> death_due (pokemons gs ! j) h" by auto
    with gi st j have o: "pokemons g ! j = fold (grief_step h) (take m (pokemons gs)) (pokemons gs ! j)"
      by (auto simp: grief_inv_def)
    have "j \<noteq> m \<or> isSleeping (pokemons g ! m) \<or> death_due (pokemons g ! m) h"
      using c death_due_mods [OF cur, of h] mods_only_fields(2) [OF cur] by auto
    from tick_result [OF _ this, of C env dt keep gh] j len
    have "pokemons (fst (pokemon_tick C env dt h m (g, keep, gh))) ! j
            = grief_step h (pokemons g ! m) (pokemons g ! j)" by simp
    also have "\<dots> = grief_step h (pokemons gs ! m) (pokemons g ! j)"
      by (rule grief_step_cong [OF cur])
    finally show ?thesis by (simp add: o tk)
  qed
  then show ?thesis unfolding st grief_inv_def by blast
qed

lemma grief_inv_run:
  "m \<le> length (pokemons gs) \<Longrightarrow>
   grief_inv gs h m (fold (pokemon_tick C env dt h) [0..<m] (gs, [], []))"
proof (induction m)
  case 0
  show ?case by (simp add: grief_inv_def)
next
  case (Suc m)
  then have g: "grief_inv gs h m (fold (pokemon_tick C env dt h) [0..<m] (gs, [], []))"
    and m: "m < length (pokemons gs)" by simp_all
  from m have "tick_inv gs h m (fold (pokemon_tick C env dt h) [0..<m] (gs, [], []))"
    by (intro tick_inv_run) simp
  from grief_inv_step [OF this g m, of C env dt] show ?case by simp
qed

lemma filter_upt_nth:
  assumes "i < n" and "P i"
  shows "length (filter P [0..<i]) < length (filter P [0..<n])
    \<and> filter P [0..<n] ! length (filter P [0..<i]) = i"
proof -
  from assms(1) have "[0..<n] = [0..<i] @ [i..<n]"
    using upt_add_eq_append [of 0 i "n - i"] by simp
  with assms(1) have "[0..<n] = [0..<i] @ i # [Suc i..<n]"
    by (simp add: upt_conv_Cons)
  then have "filter P [0..<n] = filter P [0..<i] @ i # filter P [Suc i..<n]"
    using assms(2) by simp
  then show ?thesis by (simp add: nth_append)
qed

text \<open>Identity, species and scheduled death survive the behaviour step.\<close>

lemma same_creature_refl [simp]: "same_creature p p"
  by (simp add: same_creature_def)

lemma same_creature_trans: "same_creature p q \<Longrightarrow> same_creature q r \<Longrightarrow> same_creature p r"
  by (simp add: same_creature_def)

lemma same_creature_mods: "mods_only p q \<Longrightarrow> same_creature p q"
  by (simp add: same_creature_def mods_only_fields)

lemma action_timer_same: "same_creature p (action_timer_step dt p)"
  by (simp add: action_timer_step_def same_creature_def split: option.splits)

lemma teleport_away_same: "same_creature p (fst (teleport_away env p gs))"
  by (simp add: teleport_away_def Let_def same_creature_def split: prod.splits)

lemma teleport_home_same: "same_creature p (fst (teleport_home env p gs))"
  by (simp add: teleport_home_def Let_def same_creature_def split: option.splits)

lemma teleport_step_same: "same_creature p (fst (teleport_step env dt p gs))"
proof -
  have a: "same_creature p (fst (teleport_away env q g))" if "same_creature p q" for q g
    using that teleport_away_same [of q env g] by (rule same_creature_trans)
  have b: "same_creature p (fst (teleport_home env q g))" if "same_creature p q" for q g
    using that teleport_home_same [of q env g] by (rule same_creature_trans)
  have u: "same_creature p (p\<lparr>teleportTimer := v\<rparr>)"
    "same_creature p (p\<lparr>teleportState := w, teleportTimer := v\<rparr>)"
    "same_creature p (p\<lparr>teleportState := w\<rparr>)" for v w
    by (simp_all add: same_creature_def)
  show ?thesis
    by (simp add: teleport_step_def Let_def a b u)
qed

lemma complete_task_same [simp]: "same_creature p (complete_task a p)"
  by (simp add: complete_task_def same_creature_def)

lemma apple_eater_same: "same_creature p (fst (apple_eater_action a p gs))"
  by (simp add: apple_eater_action_def split: option.splits)

lemma water_crop_same: "same_creature p (fst (water_crop_action a p gs))"
  by (simp add: water_crop_action_def split: option.splits)

lemma fertilize_crop_same: "same_creature p (fst (fertilize_crop_action a p gs))"
  by (simp add: fertilize_crop_action_def split: option.splits)

lemma harvest_apple_tree_same: "same_creature p (fst (harvest_apple_tree_action C env a p gs))"
  by (simp add: harvest_apple_tree_action_def Let_def complete_task_def same_creature_def
      split: option.splits)

lemma harvest_plant_same: "same_creature p (fst (harvest_plant_action C a p gs))"
  by (simp add: harvest_plant_action_def Let_def split: option.splits)

lemma cooldown_item_same: "same_creature p (fst (cooldown_item_action a p gs))"
  by (simp add: cooldown_item_action_def split: option.splits)

lemma ability_action_same: "same_creature p (fst (ability_action C env a p gs))"
  by (simp add: ability_action_def apple_eater_same water_crop_same fertilize_crop_same
      harvest_apple_tree_same harvest_plant_same cooldown_item_same)

lemma ability_step_same: "same_creature p (fst (ability_step C env p gs))"
  by (simp add: ability_step_def ability_action_same split: option.splits)

lemma movement_same: "same_creature p (movement_step dt p)"
  by (simp add: movement_step_def Let_def same_creature_def split: option.splits)

lemma river_resnap_same: "same_creature p (fst (river_resnap env p gs))"
  by (simp add: river_resnap_def same_creature_def split: option.splits prod.splits)

lemma homeless_clamp_same: "same_creature p (fst (homeless_clamp env p gs))"
  by (simp add: homeless_clamp_def Let_def river_resnap_same) (simp add: same_creature_def)?

lemma clamp_step_same: "same_creature p (fst (clamp_step env p gs))"
  by (simp add: clamp_step_def homeless_clamp_same river_resnap_same radial_clamp_def Let_def
      split: option.splits) (simp add: same_creature_def)?

lemma wander_step_same: "same_creature p (fst (wander_step env p gs))"
  by (simp add: wander_step_def same_creature_def split: option.splits prod.splits)

lemma behave_same: "same_creature p (fst (behave C env dt p gs))"
proof -
  note same_creature_trans [trans]
  let ?p1 = "action_timer_step dt p"
  let ?s2 = "teleport_step env dt ?p1 gs"
  let ?p3 = "(fst ?s2)\<lparr>cooldown := max 0 (cooldown (fst ?s2) - dt)\<rparr>"
  let ?s4 = "ability_step C env ?p3 (snd ?s2)"
  let ?p5 = "movement_step dt (fst ?s4)"
  let ?s6 = "clamp_step env ?p5 (snd ?s4)"
  have e: "behave C env dt p gs = wander_step env (fst ?s6) (snd ?s6)"
    by (simp add: behave_def Let_def)
  have "same_creature p ?p1" by (rule action_timer_same)
  also have "same_creature ?p1 (fst ?s2)" by (rule teleport_step_same)
  also have "same_creature (fst ?s2) ?p3" by (simp add: same_creature_def)
  also have "same_creature ?p3 (fst ?s4)" by (rule ability_step_same)
  also have "same_creature (fst ?s4) ?p5" by (rule movement_same)
  also have "same_creature ?p5 (fst ?s6)" by (rule clamp_step_same)
  also have "same_creature (fst ?s6) (fst (wander_step env (fst ?s6) (snd ?s6)))"
    by (rule wander_step_same)
  finally show ?thesis by (simp only: e)
qed

lemma ghost_of_fresh:
  "fst (ghost_of C env pl d n) = Some q \<Longrightarrow> scheduledDeathHour q = None \<and> kind q \<in> set ghostKinds"
  by (auto simp: ghost_of_def Let_def new_Pokemon_def ghostKinds_def split: if_splits)

lemma tick_same:
  assumes "pokemon_tick C env dt h m (g, keep, gh) = (g', keep', gh')"
  shows "length (pokemons g') = length (pokemons g)
    \<and> (\<forall>j < length (pokemons g). same_creature (pokemons g ! j) (pokemons g' ! j))
    \<and> (\<forall>q \<in> set gh'. q \<in> set gh \<or> (scheduledDeathHour q = None \<and> kind q \<in> set ghostKinds))"
proof (cases "death_due (pokemons g ! m) h")
  case True
  have gm: "same_creature q (grieve d q)" for d q
    by (rule same_creature_mods) simp
  from True assms ghost_of_fresh show ?thesis
    by (auto simp: pokemon_tick_def Let_def gm split: option.splits if_splits)
next
  case nd: False
  show ?thesis
  proof (cases "isSleeping (pokemons g ! m)")
    case True
    with nd assms show ?thesis by (auto simp: pokemon_tick_def Let_def)
  next
    case False
    obtain p' g1 where b: "behave C env dt (pokemons g ! m) g = (p', g1)"
      by (cases "behave C env dt (pokemons g ! m) g") auto
    with behave_pokemons [of C env dt "pokemons g ! m" g] have ps: "pokemons g1 = pokemons g"
      by simp
    from behave_same [of "pokemons g ! m" C env dt g] b have sc: "same_creature (pokemons g ! m) p'"
      by simp
    from nd False b assms have r: "pokemons g' = (pokemons g)[m := p']" "gh' = gh"
      by (auto simp: pokemon_tick_def Let_def ps)
    have "same_creature (pokemons g ! j) ((pokemons g)[m := p'] ! j)" if "j < length (pokemons g)" for j
      using that sc by (cases "j = m") simp_all
    with r show ?thesis by simp
  qed
qed

lemma fold_tick_same:
  assumes "fold (pokemon_tick C env dt h) ms (g, keep, gh) = (g', keep', gh')"
  shows "length (pokemons g') = length (pokemons g)
    \<and> (\<forall>j < length (pokemons g). same_creature (pokemons g ! j) (pokemons g' ! j))
    \<and> (\<forall>q \<in> set gh'. q \<in> set gh \<or> (scheduledDeathHour q = None \<and> kind q \<in> set ghostKinds))"
  using assms
proof (induction ms arbitrary: g keep gh)
  case Nil
  then show ?case by simp
next
  case (Cons m ms)
  obtain g1 k1 gh1 where t: "pokemon_tick C env dt h m (g, keep, gh) = (g1, k1, gh1)"
    by (cases "pokemon_tick C env dt h m (g, keep, gh)") auto
  from tick_same [OF t]
  have l1: "length (pokemons g1) = length (pokemons g)"
    and s1: "\<forall>j < length (pokemons g). same_creature (pokemons g ! j) (pokemons g1 ! j)"
    and q1: "\<forall>q \<in> set gh1. q \<in> set gh \<or> (scheduledDeathHour q = None \<and> kind q \<in> set ghostKinds)"
    by blast+
  from Cons.prems t have "fold (pokemon_tick C env dt h) ms (g1, k1, gh1) = (g', keep', gh')"
    by simp
  from Cons.IH [OF this]
  have l2: "length (pokemons g') = length (pokemons g1)"
    and s2: "\<forall>j < length (pokemons g1). same_creature (pokemons g1 ! j) (pokemons g' ! j)"
    and q2: "\<forall>q \<in> set gh'. q \<in> set gh1 \<or> (scheduledDeathHour q = None \<and> kind q \<in> set ghostKinds)"
    by blast+
  from l1 l2 have a: "length (pokemons g') = length (pokemons g)" by simp
  from s1 s2 l1 have b: "\<forall>j < length (pokemons g). same_creature (pokemons g ! j) (pokemons g' ! j)"
    by (auto intro: same_creature_trans)
  from q1 q2 have c: "\<forall>q \<in> set gh'. q \<in> set gh \<or> (scheduledDeathHour q = None \<and> kind q \<in> set ghostKinds)"
    by blast
  from a b c show ?case by blast
qed

text \<open>The creatures after the pass: the survivors, in order, then the new ghosts.\<close>

lemma updatePokemons_survivors:
  fixes gs :: GameState and C :: Constants and env :: Env and dt :: real
  defines "h \<equiv> hourOf (gameTime gs)"
  defines "K \<equiv> filter (\<lambda>j. \<not> death_due (pokemons gs ! j) h) [0..<length (pokemons gs)]"
  defines "R \<equiv> pokemons (updatePokemons C env gs dt)"
  shows "length K \<le> length R"
    and "map pk_id (take (length K) R) = map (\<lambda>j. pk_id (pokemons gs ! j)) K"
    and "map kind (take (length K) R) = map (\<lambda>j. kind (pokemons gs ! j)) K"
    and "\<forall>q \<in> set (drop (length K) R). scheduledDeathHour q = None \<and> kind q \<in> set ghostKinds"
    and "\<forall>q \<in> set R. \<not> death_due q h"
proof -
  obtain g kp gh where l: "updatePokemons_loop C env gs dt = (g, kp, gh)"
    by (cases "updatePokemons_loop C env gs dt") auto
  from updatePokemons_loop_inv [of gs C env dt] l
  have kp: "kp = K" by (simp add: tick_inv_def K_def h_def)
  from l have "fold (pokemon_tick C env dt h) [0..<length (pokemons gs)] (gs, [], []) = (g, kp, gh)"
    by (simp add: updatePokemons_loop_def h_def)
  from fold_tick_same [OF this]
  have sc: "\<And>j. j < length (pokemons gs) \<Longrightarrow> same_creature (pokemons gs ! j) (pokemons g ! j)"
    and gq: "\<And>q. q \<in> set gh \<Longrightarrow> scheduledDeathHour q = None \<and> kind q \<in> set ghostKinds"
    by auto
  have R: "R = map (\<lambda>j. pokemons g ! j) K @ gh"
    by (simp add: R_def updatePokemons_def l kp)
  have inK: "j < length (pokemons gs) \<and> \<not> death_due (pokemons gs ! j) h" if "j \<in> set K" for j
    using that by (auto simp: K_def)
  show "length K \<le> length R" by (simp add: R)
  have tk: "take (length K) R = map (\<lambda>j. pokemons g ! j) K" by (simp add: R)
  show "map pk_id (take (length K) R) = map (\<lambda>j. pk_id (pokemons gs ! j)) K"
    unfolding tk using sc inK by (simp add: same_creature_def)
  show "map kind (take (length K) R) = map (\<lambda>j. kind (pokemons gs ! j)) K"
    unfolding tk using sc inK by (simp add: same_creature_def)
  have dr: "drop (length K) R = gh" by (simp add: R)
  show "\<forall>q \<in> set (drop (length K) R). scheduledDeathHour q = None \<and> kind q \<in> set ghostKinds"
    unfolding dr using gq by blast
  have "\<not> death_due (pokemons g ! j) h" if "j \<in> set K" for j
    using sc [of j] inK [OF that] by (simp add: death_due_def same_creature_def)
  moreover have "\<not> death_due q h" if "q \<in> set gh" for q
    using gq [OF that] by (simp add: death_due_def)
  ultimately show "\<forall>q \<in> set R. \<not> death_due q h" by (auto simp: R)
qed

subsection \<open>Sleeping creatures and evolution\<close>

lemma hourOf_0: "hourOf 0 = 0"
  by (simp add: hourOf_def js_mod_def)

text \<open>
  C5 (as stated, refuted). The claim lets the cooldown and the action timer of a sleeping
  creature count down. A sleeping creature with cooldown 5 and action timer 2 comes out of
  a tick of one second unchanged: the callback returns at \<open>if (p.isSleeping) return\<close>,
  before the timers.
\<close>

theorem C5_sleeping_timers_counterexample:
  "isSleeping p_sleep \<and> cooldown p_sleep = 5 \<and> actionTimer p_sleep = Some 2
   \<and> pokemons (updatePokemons consts0 env0 gs_sleep 1) = [p_sleep]"
  by (simp add: updatePokemons_def updatePokemons_loop_def pokemon_tick_def death_due_def
      gs_sleep_def gs0_def p_sleep_def hourOf_0)

text \<open>
  C5 (amended). For a sleeping creature whose scheduled death is not due, the callback of
  the tick changes nothing at all: the state is returned as it was and the creature is
  kept; its cooldown and action timer do not count down. After the whole pass the creature
  stands in the list at the position of the survivors before it, and it is the creature of
  before with the grief entries of the pass: for every creature whose death is processed
  in the pass and that has the same (non-empty) home id and another id, the entry
  \<open>Luto (Mesma Especie)\<close> (-20, 3 days) or \<open>Luto (Companheiro)\<close> (-10, 3 days) is
  written into its happiness modifiers, and nothing else is changed. When no such death is
  due, the creature after the pass is equal to the creature before.
\<close>

theorem C5_sleeping_untouched:
  assumes i: "i < length (pokemons gs)"
    and s: "isSleeping (pokemons gs ! i)"
    and d: "\<not> death_due (pokemons gs ! i) (hourOf (gameTime gs))"
  shows "pokemon_tick C env dt (hourOf (gameTime gs)) i (gs, keep, ghosts) = (gs, keep @ [i], ghosts)
    \<and> (let h = hourOf (gameTime gs);
           p = pokemons gs ! i;
           k = length (filter (\<lambda>j. \<not> death_due (pokemons gs ! j) h) [0..<i]);
           q = pokemons (updatePokemons C env gs dt) ! k
       in k < length (pokemons (updatePokemons C env gs dt))
          \<and> q = p\<lparr>happinessModifiers :=
                   fold (\<lambda>d m. if death_due d h \<and> truthy_str (homeBuildingId d)
                                   \<and> homeBuildingId d = homeBuildingId p \<and> pk_id d \<noteq> pk_id p
                                then (if kind p = kind d
                                      then AList.update key_luto_especie (Decaying (- 20) 3) m
                                      else AList.update key_luto_companheiro (Decaying (- 10) 3) m)
                                else m)
                        (pokemons gs) (happinessModifiers p)\<rparr>
          \<and> cooldown q = cooldown p \<and> actionTimer q = actionTimer p
          \<and> pk_x q = pk_x p \<and> pk_y q = pk_y p
          \<and> aiState q = aiState p \<and> target q = target p
          \<and> ((\<forall>d \<in> set (pokemons gs).
                 \<not> (death_due d h \<and> truthy_str (homeBuildingId d)
                    \<and> homeBuildingId d = homeBuildingId p \<and> pk_id d \<noteq> pk_id p)) \<longrightarrow>
               q = p))"
proof -
  let ?h = "hourOf (gameTime gs)"
  let ?p = "pokemons gs ! i"
  let ?P = "\<lambda>j. \<not> death_due (pokemons gs ! j) ?h"
  let ?k = "length (filter ?P [0..<i])"
  let ?R = "pokemons (updatePokemons C env gs dt)"
  let ?f = "fold (grief_step ?h) (pokemons gs) ?p"
  let ?G = "\<lambda>d m. if death_due d ?h \<and> truthy_str (homeBuildingId d)
                        \<and> homeBuildingId d = homeBuildingId ?p \<and> pk_id d \<noteq> pk_id ?p
                     then (if kind ?p = kind d
                           then AList.update key_luto_especie (Decaying (- 20) 3) m
                           else AList.update key_luto_companheiro (Decaying (- 10) 3) m)
                     else m"
  obtain g kp gh where l: "updatePokemons_loop C env gs dt = (g, kp, gh)"
    by (cases "updatePokemons_loop C env gs dt") auto
  from updatePokemons_loop_inv [of gs C env dt] l
  have kp: "kp = filter ?P [0..<length (pokemons gs)]"
    by (simp add: tick_inv_def)
  from grief_inv_run [of "length (pokemons gs)" gs ?h C env dt] l i s
  have gi: "pokemons g ! i = ?f"
    by (simp add: grief_inv_def updatePokemons_loop_def)
  from filter_upt_nth [of i "length (pokemons gs)" ?P] i d kp
  have k1: "?k < length kp" and k2: "kp ! ?k = i" by simp_all
  have R: "?R = map (\<lambda>j. pokemons g ! j) kp @ gh" by (simp add: updatePokemons_def l)
  from k1 have a: "?k < length ?R" by (simp add: R)
  from k1 k2 gi have b: "?R ! ?k = ?f" by (simp add: R nth_append)
  have mo: "mods_only ?p ?f" by (rule fold_grief_mods)
  have c: "?f = ?p\<lparr>happinessModifiers := fold ?G (pokemons gs) (happinessModifiers ?p)\<rparr>"
    by (rule fold_grief_entries) simp
  have e: "?f = ?p"
    if "\<forall>d \<in> set (pokemons gs).
                 \<not> (death_due d ?h \<and> truthy_str (homeBuildingId d)
                    \<and> homeBuildingId d = homeBuildingId ?p \<and> pk_id d \<noteq> pk_id ?p)"
    using that by (rule fold_grief_none)
  have t: "pokemon_tick C env dt ?h i (gs, keep, ghosts) = (gs, keep @ [i], ghosts)"
    by (rule tick_sleep [OF d s])
  have fl: "cooldown ?f = cooldown ?p" "actionTimer ?f = actionTimer ?p" "pk_x ?f = pk_x ?p"
    "pk_y ?f = pk_y ?p" "aiState ?f = aiState ?p" "target ?f = target ?p"
    by (rule mods_only_fields [OF mo])+
  have "?k < length ?R
          \<and> ?R ! ?k = ?p\<lparr>happinessModifiers := fold ?G (pokemons gs) (happinessModifiers ?p)\<rparr>
          \<and> cooldown (?R ! ?k) = cooldown ?p \<and> actionTimer (?R ! ?k) = actionTimer ?p
          \<and> pk_x (?R ! ?k) = pk_x ?p \<and> pk_y (?R ! ?k) = pk_y ?p
          \<and> aiState (?R ! ?k) = aiState ?p \<and> target (?R ! ?k) = target ?p
          \<and> ((\<forall>d \<in> set (pokemons gs).
                 \<not> (death_due d ?h \<and> truthy_str (homeBuildingId d)
                    \<and> homeBuildingId d = homeBuildingId ?p \<and> pk_id d \<noteq> pk_id ?p)) \<longrightarrow>
               ?R ! ?k = ?p)"
    unfolding b using a c e fl by blast
  with t show ?thesis unfolding Let_def by blast
qed

theorem C5_sleeping_untouched_witness:
  "0 < length (pokemons gs_sleep) \<and> isSleeping (pokemons gs_sleep ! 0)
   \<and> \<not> death_due (pokemons gs_sleep ! 0) (hourOf (gameTime gs_sleep))
   \<and> pokemons gs_sleep = [p_sleep]
   \<and> pokemons (updatePokemons consts0 env0 gs_sleep 1) ! 0 = p_sleep
   \<and> cooldown (pokemons (updatePokemons consts0 env0 gs_sleep 1) ! 0) = 5
   \<and> actionTimer (pokemons (updatePokemons consts0 env0 gs_sleep 1) ! 0) = Some 2
   \<and> 1 < length (pokemons gs_mourn) \<and> isSleeping (pokemons gs_mourn ! 1)
   \<and> \<not> death_due (pokemons gs_mourn ! 1) (hourOf (gameTime gs_mourn))
   \<and> death_due (pokemons gs_mourn ! 0) (hourOf (gameTime gs_mourn))
   \<and> pokemons (updatePokemons consts0 env0 gs_mourn 1) ! 0
       = p_mate\<lparr>happinessModifiers := [(key_luto_especie, Decaying (- 20) 3)]\<rparr>"
proof -
  have i: "0 < length (pokemons gs_sleep)" and s: "isSleeping (pokemons gs_sleep ! 0)"
    and d: "\<not> death_due (pokemons gs_sleep ! 0) (hourOf (gameTime gs_sleep))"
    and c: "pokemons gs_sleep = [p_sleep]" "cooldown p_sleep = 5" "actionTimer p_sleep = Some 2"
    by (simp_all add: gs_sleep_def gs0_def p_sleep_def death_due_def)
  have i2: "1 < length (pokemons gs_mourn)" and s2: "isSleeping (pokemons gs_mourn ! 1)"
    and d2: "\<not> death_due (pokemons gs_mourn ! 1) (hourOf (gameTime gs_mourn))"
    and d3: "death_due (pokemons gs_mourn ! 0) (hourOf (gameTime gs_mourn))"
    and c2: "pokemons gs_mourn = [p_late, p_mate]" "gameTime gs_mourn = 0"
    by (simp_all add: gs_mourn_def gs0_def p_mate_def p_late_def p_sleep_def death_due_def hourOf_0)
  have k: "length (filter (\<lambda>j. \<not> death_due (pokemons gs_mourn ! j) (hourOf (gameTime gs_mourn))) [0..<1]) = 0"
    using d3 by simp
  have k0: "length (filter (\<lambda>j. \<not> death_due (pokemons gs_sleep ! j) (hourOf (gameTime gs_sleep))) [0..<0]) = 0"
    by simp
  have n: "\<forall>d \<in> set (pokemons gs_sleep).
             \<not> (death_due d (hourOf (gameTime gs_sleep)) \<and> truthy_str (homeBuildingId d)
                \<and> homeBuildingId d = homeBuildingId (pokemons gs_sleep ! 0)
                \<and> pk_id d \<noteq> pk_id (pokemons gs_sleep ! 0))"
    by (simp add: c)
  note t1 = C5_sleeping_untouched [OF i s d, of consts0 env0 1 "[]" "[]", unfolded Let_def k0]
  from t1 n have "pokemons (updatePokemons consts0 env0 gs_sleep 1) ! 0 = pokemons gs_sleep ! 0"
    by blast
  then have r1: "pokemons (updatePokemons consts0 env0 gs_sleep 1) ! 0 = p_sleep"
    by (simp add: c)
  note t2 = C5_sleeping_untouched [OF i2 s2 d2, of consts0 env0 1 "[]" "[]", unfolded Let_def k]
  have v: "death_due p_late 0" "\<not> death_due p_mate 0" "truthy_str (homeBuildingId p_late)"
    "homeBuildingId p_late = homeBuildingId p_mate" "pk_id p_late \<noteq> pk_id p_mate"
    "kind p_mate = kind p_late" "happinessModifiers p_mate = []"
    "truthy_str (homeBuildingId p_mate)"
    by (simp_all add: death_due_def truthy_str_def p_late_def p_mate_def p_sleep_def)
  from t2 have "pokemons (updatePokemons consts0 env0 gs_mourn 1) ! 0
      = (pokemons gs_mourn ! 1)\<lparr>happinessModifiers :=
           fold (\<lambda>d m. if death_due d (hourOf (gameTime gs_mourn)) \<and> truthy_str (homeBuildingId d)
                           \<and> homeBuildingId d = homeBuildingId (pokemons gs_mourn ! 1)
                           \<and> pk_id d \<noteq> pk_id (pokemons gs_mourn ! 1)
                        then (if kind (pokemons gs_mourn ! 1) = kind d
                              then AList.update key_luto_especie (Decaying (- 20) 3) m
                              else AList.update key_luto_companheiro (Decaying (- 10) 3) m)
                        else m)
                (pokemons gs_mourn) (happinessModifiers (pokemons gs_mourn ! 1))\<rparr>"
    by blast
  then have r2: "pokemons (updatePokemons consts0 env0 gs_mourn 1) ! 0
       = p_mate\<lparr>happinessModifiers := [(key_luto_especie, Decaying (- 20) 3)]\<rparr>"
    by (simp add: c2 hourOf_0 v)
  from i s d c r1 i2 s2 d2 d3 r2 show ?thesis by simp
qed

lemma findIndex_Some: "findIndex P xs = Some i \<Longrightarrow> i < length xs \<and> P (xs ! i)"
  by (induction xs arbitrary: i) (auto split: if_splits)

text \<open>
  C10. When the evolution takes place (the creature exists, its species has an evolution
  and the player owns a stone), the list of creatures changes only at the creature evolved,
  and there only in the name (when it was the species name), the kind, the age (0) and
  \<open>maxAge\<close> (the lifespan table, default 100). In particular \<open>scheduledDeathHour\<close>, the
  position, the happiness, the modifiers and the home reference are those of before. The
  death check reads \<open>scheduledDeathHour\<close> only. After a pass of \<open>updatePokemons\<close> at the time
  \<open>t\<close> over the state with the evolved creature, the list of creatures is: the creatures
  whose death was not due at the hour of \<open>t\<close> before the evolution, in their order and with
  their ids, followed by the ghosts made in the pass (which have no scheduled death). So
  the evolved creature is among the survivors exactly when its death was not due; when it
  was due, no creature left in the list has a death due, and with ids that are distinct no
  survivor carries the id of the evolved creature: it has died at that hour, although its
  age is 0.
\<close>

theorem C10_evolve_frame:
  assumes f: "findIndex (\<lambda>p. pk_id p = pid) (pokemons gs) = Some i"
    and e: "POKEMON_EVOLUTIONS C (kind (pokemons gs ! i)) = Some tgt" and ne: "tgt \<noteq> []"
    and st: "inv_get (inventory (player gs)) ''evolution_stone'' \<ge> 1"
  shows "pokemons (handleEvolvePokemon C gs pid) =
           (pokemons gs)[i := (pokemons gs ! i)
              \<lparr>pk_name := (if pk_name (pokemons gs ! i) = kind (pokemons gs ! i) then tgt
                           else pk_name (pokemons gs ! i)),
               kind := tgt, age := 0, maxAge := or_default (POKEMON_LIFESPANS C tgt) 100\<rparr>]
    \<and> scheduledDeathHour (pokemons (handleEvolvePokemon C gs pid) ! i) = scheduledDeathHour (pokemons gs ! i)
    \<and> pk_x (pokemons (handleEvolvePokemon C gs pid) ! i) = pk_x (pokemons gs ! i)
    \<and> pk_y (pokemons (handleEvolvePokemon C gs pid) ! i) = pk_y (pokemons gs ! i)
    \<and> happiness (pokemons (handleEvolvePokemon C gs pid) ! i) = happiness (pokemons gs ! i)
    \<and> happinessModifiers (pokemons (handleEvolvePokemon C gs pid) ! i) = happinessModifiers (pokemons gs ! i)
    \<and> homeBuildingId (pokemons (handleEvolvePokemon C gs pid) ! i) = homeBuildingId (pokemons gs ! i)
    \<and> (let R = pokemons (updatePokemons C env ((handleEvolvePokemon C gs pid)\<lparr>gameTime := t\<rparr>) dt);
           K = filter (\<lambda>j. \<not> death_due (pokemons gs ! j) (hourOf t)) [0..<length (pokemons gs)]
       in (i \<in> set K \<longleftrightarrow> \<not> death_due (pokemons gs ! i) (hourOf t))
          \<and> length K \<le> length R
          \<and> map pk_id (take (length K) R) = map (\<lambda>j. pk_id (pokemons gs ! j)) K
          \<and> (\<forall>q \<in> set (drop (length K) R). scheduledDeathHour q = None \<and> kind q \<in> set ghostKinds)
          \<and> (\<forall>q \<in> set R. \<not> death_due q (hourOf t))
          \<and> (death_due (pokemons gs ! i) (hourOf t) \<and> distinct (map pk_id (pokemons gs)) \<longrightarrow>
                pid \<notin> set (map pk_id (take (length K) R))))
    \<and> (death_due (pokemons gs ! i) (hourOf t) \<longrightarrow>
         i \<notin> set (fst (snd (updatePokemons_loop C env ((handleEvolvePokemon C gs pid)\<lparr>gameTime := t\<rparr>) dt))))"
proof -
  let ?p = "pokemons gs ! i"
  let ?p' = "evolve_fields C tgt ?p"
  let ?g = "handleEvolvePokemon C gs pid"
  let ?g' = "?g\<lparr>gameTime := t\<rparr>"
  let ?R = "pokemons (updatePokemons C env ?g' dt)"
  let ?K = "filter (\<lambda>j. \<not> death_due (pokemons gs ! j) (hourOf t)) [0..<length (pokemons gs)]"
  from findIndex_Some [OF f] have i: "i < length (pokemons gs)" and pid: "pk_id ?p = pid" by simp_all
  from st obtain pl' where r: "removeItem (player gs) ''evolution_stone'' 1 = (pl', True)"
    by (simp add: removeItem_def Let_def)
  have ps: "pokemons ?g = (pokemons gs)[i := ?p']"
    using f e ne r by (simp add: handleEvolvePokemon_def)
  then have nth: "pokemons ?g ! i = ?p'" using i by simp
  have due: "death_due ?p' h = death_due ?p h" for h
    by (simp add: death_due_def evolve_fields_def)
  have dj: "death_due ((pokemons gs)[i := ?p'] ! j) h = death_due (pokemons gs ! j) h" for j h
    using i by (cases "j = i") (simp_all add: due)
  have ij: "pk_id ((pokemons gs)[i := ?p'] ! j) = pk_id (pokemons gs ! j)" for j
    using i by (cases "j = i") (simp_all add: evolve_fields_def)
  have K: "filter (\<lambda>j. \<not> death_due (pokemons ?g' ! j) (hourOf (gameTime ?g'))) [0..<length (pokemons ?g')] = ?K"
    by (simp add: ps dj)
  note sv = updatePokemons_survivors [where gs = ?g' and C = C and env = env and dt = dt, unfolded K]
  have s1: "length ?K \<le> length ?R" by (rule sv(1))
  have s2: "map pk_id (take (length ?K) ?R) = map (\<lambda>j. pk_id (pokemons gs ! j)) ?K"
    using sv(2) by (simp add: ps ij)
  have s3: "\<forall>q \<in> set (drop (length ?K) ?R). scheduledDeathHour q = None \<and> kind q \<in> set ghostKinds"
    by (rule sv(4))
  have s4: "\<forall>q \<in> set ?R. \<not> death_due q (hourOf t)"
    using sv(5) by simp
  have s0: "i \<in> set ?K \<longleftrightarrow> \<not> death_due ?p (hourOf t)" using i by simp
  have s5: "pid \<notin> set (map pk_id (take (length ?K) ?R))"
    if d: "death_due ?p (hourOf t)" and ds: "distinct (map pk_id (pokemons gs))"
  proof
    assume "pid \<in> set (map pk_id (take (length ?K) ?R))"
    then obtain j where j: "j \<in> set ?K" and e: "pk_id (pokemons gs ! j) = pid"
      unfolding s2 by auto
    from j d have "j \<noteq> i" and "j < length (pokemons gs)" by auto
    with i nth_eq_iff_index_eq [OF ds, of j i]
    have "map pk_id (pokemons gs) ! j \<noteq> map pk_id (pokemons gs) ! i"
      by simp
    with e pid i \<open>j < length (pokemons gs)\<close> show False by simp
  qed
  have dead: "i \<notin> set (fst (snd (updatePokemons_loop C env ?g' dt)))"
    if "death_due ?p (hourOf t)"
  proof -
    obtain g kp gh where l: "updatePokemons_loop C env ?g' dt = (g, kp, gh)"
      by (cases "updatePokemons_loop C env ?g' dt") auto
    from updatePokemons_loop_inv [of ?g' C env dt] l
    have "kp = filter (\<lambda>j. \<not> death_due (pokemons ?g' ! j) (hourOf t)) [0..<length (pokemons ?g')]"
      by (simp add: tick_inv_def)
    moreover have "death_due (pokemons ?g' ! i) (hourOf t)" using that nth due by simp
    ultimately show ?thesis using l by simp
  qed
  have fr: "pokemons ?g = (pokemons gs)[i := ?p
              \<lparr>pk_name := (if pk_name ?p = kind ?p then tgt else pk_name ?p),
               kind := tgt, age := 0, maxAge := or_default (POKEMON_LIFESPANS C tgt) 100\<rparr>]"
    using ps by (simp add: evolve_fields_def)
  have fl: "scheduledDeathHour (pokemons ?g ! i) = scheduledDeathHour ?p"
    "pk_x (pokemons ?g ! i) = pk_x ?p" "pk_y (pokemons ?g ! i) = pk_y ?p"
    "happiness (pokemons ?g ! i) = happiness ?p"
    "happinessModifiers (pokemons ?g ! i) = happinessModifiers ?p"
    "homeBuildingId (pokemons ?g ! i) = homeBuildingId ?p"
    by (simp_all add: nth evolve_fields_def)
  from s0 s1 s2 s3 s4 s5
  have obs: "(let R = ?R; K = ?K
       in (i \<in> set K \<longleftrightarrow> \<not> death_due ?p (hourOf t))
          \<and> length K \<le> length R
          \<and> map pk_id (take (length K) R) = map (\<lambda>j. pk_id (pokemons gs ! j)) K
          \<and> (\<forall>q \<in> set (drop (length K) R). scheduledDeathHour q = None \<and> kind q \<in> set ghostKinds)
          \<and> (\<forall>q \<in> set R. \<not> death_due q (hourOf t))
          \<and> (death_due ?p (hourOf t) \<and> distinct (map pk_id (pokemons gs)) \<longrightarrow>
                pid \<notin> set (map pk_id (take (length K) R))))"
    unfolding Let_def by blast
  from fr fl obs dead show ?thesis by blast
qed

theorem C10_evolve_frame_witness:
  "findIndex (\<lambda>p. pk_id p = ''poke_1'') (pokemons gs_evo) = Some 0
   \<and> POKEMON_EVOLUTIONS consts0 (kind (pokemons gs_evo ! 0)) = Some ''Raichu''
   \<and> inv_get (inventory (player gs_evo)) ''evolution_stone'' \<ge> 1
   \<and> death_due (pokemons gs_evo ! 0) (hourOf 36000)
   \<and> distinct (map pk_id (pokemons gs_evo))
   \<and> pokemons (handleEvolvePokemon consts0 gs_evo ''poke_1'') =
       [p_old\<lparr>pk_name := ''Raichu'', kind := ''Raichu'', age := 0, maxAge := 60\<rparr>, p_nap]
   \<and> scheduledDeathHour (pokemons (handleEvolvePokemon consts0 gs_evo ''poke_1'') ! 0) = Some 9
   \<and> map pk_id (take 1 (pokemons (updatePokemons consts0 env0
          ((handleEvolvePokemon consts0 gs_evo ''poke_1'')\<lparr>gameTime := 36000\<rparr>) 1))) = [''poke_2'']
   \<and> ''poke_1'' \<notin> set (map pk_id (take 1 (pokemons (updatePokemons consts0 env0
          ((handleEvolvePokemon consts0 gs_evo ''poke_1'')\<lparr>gameTime := 36000\<rparr>) 1))))
   \<and> 0 \<notin> set (fst (snd (updatePokemons_loop consts0 env0
                  ((handleEvolvePokemon consts0 gs_evo ''poke_1'')\<lparr>gameTime := 36000\<rparr>) 1)))
   \<and> pokemons (updatePokemons consts0 env0
          ((handleEvolvePokemon consts0 gs_evo ''poke_1'')\<lparr>gameTime := 36000\<rparr>) 1) = [p_nap]"
proof -
  have f: "findIndex (\<lambda>p. pk_id p = ''poke_1'') (pokemons gs_evo) = Some 0"
    by (simp add: gs_evo_def p_old_def p_sleep_def)
  have e: "POKEMON_EVOLUTIONS consts0 (kind (pokemons gs_evo ! 0)) = Some ''Raichu''"
    by (simp add: gs_evo_def p_old_def p_sleep_def consts0_def)
  have ne: "''Raichu'' \<noteq> []" by simp
  have st: "inv_get (inventory (player gs_evo)) ''evolution_stone'' \<ge> 1"
    by (simp add: gs_evo_def inv_get_def)
  have h: "hourOf 36000 = 10" by (simp add: hourOf_def js_mod_def)
  have d: "death_due (pokemons gs_evo ! 0) (hourOf 36000)"
    by (simp add: h death_due_def gs_evo_def p_old_def)
  have ds: "distinct (map pk_id (pokemons gs_evo))"
    by (simp add: gs_evo_def p_old_def p_nap_def p_sleep_def)
  have v: "pokemons gs_evo = [p_old, p_nap]" "pk_name p_old = kind p_old" "scheduledDeathHour p_old = Some 9"
    "or_default (POKEMON_LIFESPANS consts0 ''Raichu'') 100 = 60" "pk_id p_nap = ''poke_2''"
    by (simp_all add: gs_evo_def p_old_def p_nap_def p_sleep_def or_default_def consts0_def)
  have K: "filter (\<lambda>j. \<not> death_due (pokemons gs_evo ! j) (hourOf 36000)) [0..<length (pokemons gs_evo)] = [1]"
    by (simp add: v h upt_conv_Cons death_due_def p_old_def p_nap_def p_sleep_def)
  note t = C10_evolve_frame [OF f e ne st, where t = 36000 and env = env0 and dt = 1, unfolded Let_def K]
  from t have ev: "pokemons (handleEvolvePokemon consts0 gs_evo ''poke_1'') =
       [p_old\<lparr>pk_name := ''Raichu'', kind := ''Raichu'', age := 0, maxAge := 60\<rparr>, p_nap]"
    by (simp add: v)
  have run: "pokemons (updatePokemons consts0 env0
          ((handleEvolvePokemon consts0 gs_evo ''poke_1'')\<lparr>gameTime := 36000\<rparr>) 1) = [p_nap]"
    by (simp add: updatePokemons_def updatePokemons_loop_def pokemon_tick_def ev h death_due_def
        truthy_str_def ghost_of_def draw_def env0_def Let_def p_old_def p_nap_def p_sleep_def)
  from t d ds f e st run show ?thesis
    by (simp add: v)
qed

subsection \<open>Dangling home references\<close>

lemma find_building_None [simp]: "find_building wd None = None"
  by (simp add: find_building_def find_None_iff)

lemma home_of_dangling:
  "find_building (world gs) (homeBuildingId p) = None \<Longrightarrow> home_of p gs = None"
  by (simp add: home_of_def)

lemma home_of_unhomed [simp]: "home_of (unhomed p) gs = None"
  by (simp add: home_of_def unhomed_def truthy_str_def)

lemma action_timer_unhomed: "action_timer_step dt (unhomed p) = unhomed (action_timer_step dt p)"
  by (simp add: action_timer_step_def unhomed_def split: option.splits)

lemma action_timer_home: "homeBuildingId (action_timer_step dt p) = homeBuildingId p"
  by (simp add: action_timer_step_def split: option.splits)

lemma movement_unhomed: "movement_step dt (unhomed p) = unhomed (movement_step dt p)"
  by (simp add: movement_step_def unhomed_def Let_def split: option.splits)

lemma movement_home: "homeBuildingId (movement_step dt p) = homeBuildingId p"
  by (simp add: movement_step_def Let_def split: option.splits)

lemma teleport_away_unhomed:
  "teleport_away env (unhomed p) gs = (unhomed (fst (teleport_away env p gs)), snd (teleport_away env p gs))"
  by (simp add: teleport_away_def unhomed_def Let_def split: prod.splits)

lemma teleport_away_home: "homeBuildingId (fst (teleport_away env p gs)) = homeBuildingId p"
  by (simp add: teleport_away_def Let_def split: prod.splits)

lemma teleport_home_unhomed:
  "find_building (world gs) (homeBuildingId p) = None \<Longrightarrow>
   teleport_home env (unhomed p) gs = (unhomed (fst (teleport_home env p gs)), snd (teleport_home env p gs))"
  by (simp add: teleport_home_def unhomed_def Let_def)

lemma teleport_home_home: "homeBuildingId (fst (teleport_home env p gs)) = homeBuildingId p"
  by (simp add: teleport_home_def Let_def split: option.splits)

lemma teleport_step_unhomed:
  assumes "find_building (world gs) (homeBuildingId p) = None"
  shows "teleport_step env dt (unhomed p) gs =
           (unhomed (fst (teleport_step env dt p gs)), snd (teleport_step env dt p gs))"
proof -
  have h: "find_building (world (gs\<lparr>drawn := n\<rparr>)) (homeBuildingId p) = None" for n
    using assms by simp
  have u: "unhomed (q\<lparr>teleportState := a, teleportTimer := b\<rparr>) = (unhomed q)\<lparr>teleportState := a, teleportTimer := b\<rparr>"
    "unhomed (q\<lparr>teleportTimer := b\<rparr>) = (unhomed q)\<lparr>teleportTimer := b\<rparr>" for q a b
    by (simp_all add: unhomed_def)
  have f: "teleportState (unhomed q) = teleportState q" "teleportTimer (unhomed q) = teleportTimer q"
    "kind (unhomed q) = kind q" "homeBuildingId (q\<lparr>teleportState := a, teleportTimer := b\<rparr>) = homeBuildingId q"
    "homeBuildingId (q\<lparr>teleportTimer := b\<rparr>) = homeBuildingId q" for q a b
    by (simp_all add: unhomed_def)
  show ?thesis
    unfolding teleport_step_def Let_def f
    by (simp add: u [symmetric] teleport_away_unhomed teleport_home_unhomed assms h f)
qed

lemma teleport_step_home: "homeBuildingId (fst (teleport_step env dt p gs)) = homeBuildingId p"
  by (simp add: teleport_step_def Let_def teleport_away_home teleport_home_home)

lemma unhomed_fields [simp]:
  "kind (unhomed p) = kind p" "cooldown (unhomed p) = cooldown p" "aiState (unhomed p) = aiState p"
  "pk_x (unhomed p) = pk_x p" "pk_y (unhomed p) = pk_y p" "target (unhomed p) = target p"
  "teleportState (unhomed p) = teleportState p" "homeBuildingId (unhomed p) = None"
  by (simp_all add: unhomed_def)

lemma complete_task_unhomed: "complete_task a (unhomed p) = unhomed (complete_task a p)"
  by (simp add: complete_task_def unhomed_def)

lemma findClosest_unhomed: "findClosest (unhomed p) ts = findClosest p ts"
  by (simp add: findClosest_def unhomed_def)

lemma apple_eater_unhomed:
  "apple_eater_action a (unhomed p) gs =
     (unhomed (fst (apple_eater_action a p gs)), snd (apple_eater_action a p gs))"
  by (simp add: apple_eater_action_def complete_task_unhomed split: option.splits)

lemma water_crop_unhomed:
  "water_crop_action a (unhomed p) gs =
     (unhomed (fst (water_crop_action a p gs)), snd (water_crop_action a p gs))"
  by (simp add: water_crop_action_def complete_task_unhomed findClosest_unhomed split: option.splits)

lemma fertilize_crop_unhomed:
  "fertilize_crop_action a (unhomed p) gs =
     (unhomed (fst (fertilize_crop_action a p gs)), snd (fertilize_crop_action a p gs))"
  by (simp add: fertilize_crop_action_def complete_task_unhomed findClosest_unhomed
      split: option.splits)

lemma harvest_apple_tree_unhomed:
  "harvest_apple_tree_action C env a (unhomed p) gs =
     (unhomed (fst (harvest_apple_tree_action C env a p gs)),
      snd (harvest_apple_tree_action C env a p gs))"
  by (simp add: harvest_apple_tree_action_def Let_def complete_task_def unhomed_def
      split: option.splits)

lemma harvest_plant_unhomed:
  "harvest_plant_action C a (unhomed p) gs =
     (unhomed (fst (harvest_plant_action C a p gs)), snd (harvest_plant_action C a p gs))"
  by (simp add: harvest_plant_action_def Let_def complete_task_unhomed split: option.splits)

lemma cooldown_item_unhomed:
  "find_building (world gs) (homeBuildingId p) = None \<Longrightarrow>
   cooldown_item_action a (unhomed p) gs =
     (unhomed (fst (cooldown_item_action a p gs)), snd (cooldown_item_action a p gs))"
  by (simp add: cooldown_item_action_def complete_task_def unhomed_def truthy_str_def)

lemma ability_action_unhomed:
  "find_building (world gs) (homeBuildingId p) = None \<Longrightarrow>
   ability_action C env a (unhomed p) gs =
     (unhomed (fst (ability_action C env a p gs)), snd (ability_action C env a p gs))"
  by (simp add: ability_action_def apple_eater_unhomed water_crop_unhomed fertilize_crop_unhomed
      harvest_apple_tree_unhomed harvest_plant_unhomed cooldown_item_unhomed)

lemma ability_step_unhomed:
  "find_building (world gs) (homeBuildingId p) = None \<Longrightarrow>
   ability_step C env (unhomed p) gs =
     (unhomed (fst (ability_step C env p gs)), snd (ability_step C env p gs))"
  by (auto simp: ability_step_def ability_action_unhomed split: option.splits)

lemma complete_task_home [simp]: "homeBuildingId (complete_task a p) = homeBuildingId p"
  by (simp add: complete_task_def)

lemma apple_eater_home: "homeBuildingId (fst (apple_eater_action a p gs)) = homeBuildingId p"
  by (simp add: apple_eater_action_def split: option.splits)

lemma water_crop_home: "homeBuildingId (fst (water_crop_action a p gs)) = homeBuildingId p"
  by (simp add: water_crop_action_def split: option.splits)

lemma fertilize_crop_home: "homeBuildingId (fst (fertilize_crop_action a p gs)) = homeBuildingId p"
  by (simp add: fertilize_crop_action_def split: option.splits)

lemma harvest_apple_tree_home:
  "homeBuildingId (fst (harvest_apple_tree_action C env a p gs)) = homeBuildingId p"
  by (simp add: harvest_apple_tree_action_def Let_def split: option.splits)

lemma harvest_plant_home: "homeBuildingId (fst (harvest_plant_action C a p gs)) = homeBuildingId p"
  by (simp add: harvest_plant_action_def Let_def split: option.splits)

lemma cooldown_item_home: "homeBuildingId (fst (cooldown_item_action a p gs)) = homeBuildingId p"
  by (simp add: cooldown_item_action_def split: option.splits)

lemma ability_action_home: "homeBuildingId (fst (ability_action C env a p gs)) = homeBuildingId p"
  by (simp add: ability_action_def apple_eater_home water_crop_home fertilize_crop_home
      harvest_apple_tree_home harvest_plant_home cooldown_item_home)

lemma ability_step_home: "homeBuildingId (fst (ability_step C env p gs)) = homeBuildingId p"
  by (simp add: ability_step_def ability_action_home split: option.splits)

lemma river_resnap_unhomed:
  "river_resnap env (unhomed p) gs = (unhomed (fst (river_resnap env p gs)), snd (river_resnap env p gs))"
  by (simp add: river_resnap_def unhomed_def split: option.splits prod.splits)

lemma river_resnap_home: "homeBuildingId (fst (river_resnap env p gs)) = homeBuildingId p"
  by (simp add: river_resnap_def split: option.splits prod.splits)

lemma homeless_clamp_unhomed:
  "homeless_clamp env (unhomed p) gs =
     (unhomed (fst (homeless_clamp env p gs)), snd (homeless_clamp env p gs))"
  by (simp add: homeless_clamp_def Let_def river_resnap_unhomed) (simp add: unhomed_def)?

lemma homeless_clamp_home: "homeBuildingId (fst (homeless_clamp env p gs)) = homeBuildingId p"
  by (simp add: homeless_clamp_def Let_def river_resnap_home)

lemma clamp_step_dangling:
  "find_building (world gs) (homeBuildingId p) = None \<Longrightarrow> clamp_step env p gs = homeless_clamp env p gs"
  by (simp add: clamp_step_def home_of_dangling)

lemma clamp_step_unhomed:
  "find_building (world gs) (homeBuildingId p) = None \<Longrightarrow>
   clamp_step env (unhomed p) gs = (unhomed (fst (clamp_step env p gs)), snd (clamp_step env p gs))"
  by (simp add: clamp_step_dangling) (simp add: clamp_step_def homeless_clamp_unhomed)

lemma wander_target_dangling:
  "find_building (world gs) (homeBuildingId p) = None \<Longrightarrow>
   wander_target env (unhomed p) gs n = wander_target env p gs n"
  by (simp add: wander_target_def home_of_dangling homeless_wander_def) (simp add: unhomed_def)?

lemma wander_step_unhomed:
  "find_building (world gs) (homeBuildingId p) = None \<Longrightarrow>
   wander_step env (unhomed p) gs = (unhomed (fst (wander_step env p gs)), snd (wander_step env p gs))"
  by (simp add: wander_step_def wander_target_dangling split: option.splits prod.splits)
     (simp add: unhomed_def)?

lemma wander_step_home: "homeBuildingId (fst (wander_step env p gs)) = homeBuildingId p"
  by (simp add: wander_step_def split: option.splits prod.splits)

lemma find_building_structs:
  "structs (world g') = structs (world g) \<Longrightarrow> find_building (world g') h = find_building (world g) h"
  by (simp add: find_building_def)

lemma behave_unhomed:
  assumes D: "find_building (world gs) (homeBuildingId p) = None"
  shows "behave C env dt (unhomed p) gs =
           (unhomed (fst (behave C env dt p gs)), snd (behave C env dt p gs))"
proof -
  let ?p1 = "action_timer_step dt p"
  let ?s2 = "teleport_step env dt ?p1 gs"
  let ?p3 = "(fst ?s2)\<lparr>cooldown := max 0 (cooldown (fst ?s2) - dt)\<rparr>"
  let ?s4 = "ability_step C env ?p3 (snd ?s2)"
  let ?p5 = "movement_step dt (fst ?s4)"
  let ?s6 = "clamp_step env ?p5 (snd ?s4)"
  have h1: "homeBuildingId ?p1 = homeBuildingId p" by (rule action_timer_home)
  have h3: "homeBuildingId ?p3 = homeBuildingId p" by (simp add: teleport_step_home h1)
  have h5: "homeBuildingId ?p5 = homeBuildingId p" by (simp add: movement_home ability_step_home h3)
  have h6: "homeBuildingId (fst ?s6) = homeBuildingId p"
  proof (cases "find_building (world (snd ?s4)) (homeBuildingId ?p5)")
    case None
    then show ?thesis by (simp add: clamp_step_dangling homeless_clamp_home h5)
  next
    case (Some b)
    then show ?thesis
      by (simp add: clamp_step_def homeless_clamp_home river_resnap_home radial_clamp_def Let_def h5
          split: option.splits)
  qed
  have w2: "structs (world (snd ?s2)) = structs (world gs)"
    using teleport_step_frame [of gs env dt ?p1] by (simp add: behave_frame_def)
  have w4: "structs (world (snd ?s4)) = structs (world (snd ?s2))"
    using ability_step_frame [of "snd ?s2" C env ?p3] by (simp add: behave_frame_def)
  have w6: "structs (world (snd ?s6)) = structs (world (snd ?s4))"
    using clamp_step_frame [of "snd ?s4" env ?p5] by (simp add: behave_frame_def)
  have D1: "find_building (world gs) (homeBuildingId ?p1) = None" using D h1 by simp
  have D3: "find_building (world (snd ?s2)) (homeBuildingId ?p3) = None"
    using D h3 find_building_structs [OF w2] by simp
  have D5: "find_building (world (snd ?s4)) (homeBuildingId ?p5) = None"
    using D h5 find_building_structs [OF w4] find_building_structs [OF w2] by simp
  have D6: "find_building (world (snd ?s6)) (homeBuildingId (fst ?s6)) = None"
    using D h6 find_building_structs [OF w6] find_building_structs [OF w4]
      find_building_structs [OF w2] by simp
  have e1: "action_timer_step dt (unhomed p) = unhomed ?p1" by (rule action_timer_unhomed)
  have e2: "teleport_step env dt (unhomed ?p1) gs = (unhomed (fst ?s2), snd ?s2)"
    by (rule teleport_step_unhomed [OF D1])
  have e3: "(unhomed (fst ?s2))\<lparr>cooldown := max 0 (cooldown (unhomed (fst ?s2)) - dt)\<rparr> = unhomed ?p3"
    by (simp add: unhomed_def)
  have e4: "ability_step C env (unhomed ?p3) (snd ?s2) = (unhomed (fst ?s4), snd ?s4)"
    by (rule ability_step_unhomed [OF D3])
  have e5: "movement_step dt (unhomed (fst ?s4)) = unhomed ?p5" by (rule movement_unhomed)
  have e6: "clamp_step env (unhomed ?p5) (snd ?s4) = (unhomed (fst ?s6), snd ?s6)"
    by (rule clamp_step_unhomed [OF D5])
  have e7: "wander_step env (unhomed (fst ?s6)) (snd ?s6) =
      (unhomed (fst (wander_step env (fst ?s6) (snd ?s6))), snd (wander_step env (fst ?s6) (snd ?s6)))"
    by (rule wander_step_unhomed [OF D6])
  have b: "behave C env dt p gs = wander_step env (fst ?s6) (snd ?s6)"
    by (simp add: behave_def Let_def)
  have "behave C env dt (unhomed p) gs = wander_step env (unhomed (fst ?s6)) (snd ?s6)"
    unfolding behave_def Let_def e1 e2 fst_conv snd_conv e3 e4 e5 e6 by (rule refl)
  with e7 b show ?thesis by simp
qed

lemma behave_home: "homeBuildingId (fst (behave C env dt p gs)) = homeBuildingId p"
proof -
  let ?p1 = "action_timer_step dt p"
  let ?s2 = "teleport_step env dt ?p1 gs"
  let ?p3 = "(fst ?s2)\<lparr>cooldown := max 0 (cooldown (fst ?s2) - dt)\<rparr>"
  let ?s4 = "ability_step C env ?p3 (snd ?s2)"
  let ?p5 = "movement_step dt (fst ?s4)"
  let ?s6 = "clamp_step env ?p5 (snd ?s4)"
  have h5: "homeBuildingId ?p5 = homeBuildingId p"
    by (simp add: movement_home ability_step_home teleport_step_home action_timer_home)
  have h6: "homeBuildingId (fst ?s6) = homeBuildingId p"
    by (simp add: clamp_step_def homeless_clamp_home river_resnap_home radial_clamp_def Let_def h5
        split: option.splits)
  have b: "behave C env dt p gs = wander_step env (fst ?s6) (snd ?s6)"
    by (simp add: behave_def Let_def)
  show ?thesis unfolding b by (simp add: wander_step_home h6)
qed

text \<open>
  C9 (as stated, refuted). A Magikarp whose home building no longer exists stands at
  (10, 10), outside the fence of the world (50 to 950). The tick leaves it there: without
  a home building the river-bound species take the river branch, not the world-bounds
  clamp.
\<close>

theorem C9_river_species_counterexample:
  "structs (world gs0) = [] \<and> homeBuildingId p_karp = Some ''bld_gone''
   \<and> world_w (world gs0) = 1000
   \<and> pk_x (fst (behave consts0 env0 1 p_karp gs0)) = 10
   \<and> pk_y (fst (behave consts0 env0 1 p_karp gs0)) = 10 \<and> \<not> (50 :: real) \<le> 10"
  by (simp add: behave_def action_timer_step_def teleport_step_def abraFamily_def ability_step_def
      movement_step_def clamp_step_def home_of_def truthy_str_def find_building_def
      homeless_clamp_def riverPokemonKinds_def river_resnap_def wander_step_def draw_def
      p_karp_def p_sleep_def gs0_def world0_def consts0_def env0_def)

text \<open>
  C9 (amended). For a creature whose \<open>homeBuildingId\<close> is the id of no building and whose
  scheduled death is not due, the callback of the tick does what it does for the same
  creature with \<open>homeBuildingId = null\<close> (the reference itself is kept): a sleeping creature
  is kept untouched; for a creature awake the behaviour step computes what it computes for
  the homeless creature, the clamping stage takes the branch without home, and the wander
  target is the one of a homeless creature. For every species that is not river-bound this
  branch clamps the position to the world's fence. The callback is a total function: every
  result of a building search is tested before it is used, so there is no error to
  return.
\<close>

theorem C9_dangling_home_is_homeless:
  assumes "\<forall>s \<in> set (structs (world gs)). Some (b_id s) \<noteq> homeBuildingId p"
  shows "behave C env dt p gs =
           (case behave C env dt (p\<lparr>homeBuildingId := None\<rparr>) gs of
              (p', gs') \<Rightarrow> (p'\<lparr>homeBuildingId := homeBuildingId p\<rparr>, gs'))
    \<and> (pokemons gs ! i = p \<and> \<not> death_due p h \<longrightarrow>
          pokemon_tick C env dt h i (gs, keep, ghosts) =
            (if isSleeping p then (gs, keep @ [i], ghosts)
             else (case behave C env dt (p\<lparr>homeBuildingId := None\<rparr>) gs of
                     (p', gs') \<Rightarrow>
                       (gs'\<lparr>pokemons := (pokemons gs')[i := p'\<lparr>homeBuildingId := homeBuildingId p\<rparr>]\<rparr>,
                        keep @ [i], ghosts))))
    \<and> clamp_step env p gs = homeless_clamp env p gs
    \<and> wander_target env p gs n = wander_target env (p\<lparr>homeBuildingId := None\<rparr>) gs n
    \<and> (kind p \<notin> set housePatrolKinds \<longrightarrow> wander_target env p gs n = homeless_wander env p gs n)
    \<and> (kind p \<notin> set riverPokemonKinds \<longrightarrow>
          pk_x (fst (clamp_step env p gs)) = clamp (pk_x p) 50 (world_w (world gs) - 50)
          \<and> pk_y (fst (clamp_step env p gs)) = clamp (pk_y p) 50 (world_h (world gs) - 50))"
proof -
  from assms have D: "find_building (world gs) (homeBuildingId p) = None"
    by (auto simp: find_building_def find_None_iff)
  have u: "p\<lparr>homeBuildingId := None\<rparr> = unhomed p" by (simp add: unhomed_def)
  have r: "(unhomed q)\<lparr>homeBuildingId := homeBuildingId q\<rparr> = q" for q
    by (simp add: unhomed_def)
  have a: "behave C env dt p gs =
           (case behave C env dt (p\<lparr>homeBuildingId := None\<rparr>) gs of
              (p', gs') \<Rightarrow> (p'\<lparr>homeBuildingId := homeBuildingId p\<rparr>, gs'))"
    unfolding u behave_unhomed [OF D]
    using r [of "fst (behave C env dt p gs)"] by (simp add: behave_home)
  have t: "pokemon_tick C env dt h i (gs, keep, ghosts) =
            (if isSleeping p then (gs, keep @ [i], ghosts)
             else (case behave C env dt (p\<lparr>homeBuildingId := None\<rparr>) gs of
                     (p', gs') \<Rightarrow>
                       (gs'\<lparr>pokemons := (pokemons gs')[i := p'\<lparr>homeBuildingId := homeBuildingId p\<rparr>]\<rparr>,
                        keep @ [i], ghosts)))"
    if "pokemons gs ! i = p" and "\<not> death_due p h"
  proof -
    from that have "pokemon_tick C env dt h i (gs, keep, ghosts) =
            (if isSleeping p then (gs, keep @ [i], ghosts)
             else (case behave C env dt p gs of
                     (p', gs') \<Rightarrow> (gs'\<lparr>pokemons := (pokemons gs')[i := p']\<rparr>, keep @ [i], ghosts)))"
      by (simp add: pokemon_tick_def Let_def)
    also have "\<dots> = (if isSleeping p then (gs, keep @ [i], ghosts)
             else (case behave C env dt (p\<lparr>homeBuildingId := None\<rparr>) gs of
                     (p', gs') \<Rightarrow>
                       (gs'\<lparr>pokemons := (pokemons gs')[i := p'\<lparr>homeBuildingId := homeBuildingId p\<rparr>]\<rparr>,
                        keep @ [i], ghosts)))"
      by (subst a) (simp split: prod.splits)
    finally show ?thesis .
  qed
  have b: "clamp_step env p gs = homeless_clamp env p gs" by (rule clamp_step_dangling [OF D])
  have c: "wander_target env p gs n = wander_target env (p\<lparr>homeBuildingId := None\<rparr>) gs n"
    unfolding u by (rule wander_target_dangling [OF D, symmetric])
  have d: "kind p \<notin> set housePatrolKinds \<Longrightarrow> wander_target env p gs n = homeless_wander env p gs n"
    by (simp add: wander_target_def home_of_dangling [OF D])
  have e: "kind p \<notin> set riverPokemonKinds \<Longrightarrow>
          pk_x (fst (homeless_clamp env p gs)) = clamp (pk_x p) 50 (world_w (world gs) - 50)
          \<and> pk_y (fst (homeless_clamp env p gs)) = clamp (pk_y p) 50 (world_h (world gs) - 50)"
    by (simp add: homeless_clamp_def Let_def)
  from a t b c d e show ?thesis by simp
qed

text \<open>The stray creature of the concrete state, run as a homeless one.\<close>

lemma stray_homeless:
  "behave consts0 env0 1 (p_stray\<lparr>homeBuildingId := None\<rparr>) gs_stray
     = (p_stray\<lparr>homeBuildingId := None, actionTimer := Some 1, cooldown := 4, pk_x := 50, pk_y := 950\<rparr>,
        gs_stray\<lparr>drawn := 1\<rparr>)"
  by (simp add: behave_def action_timer_step_def teleport_step_def abraFamily_def ability_step_def
      movement_step_def clamp_step_def home_of_def truthy_str_def find_building_def
      homeless_clamp_def riverPokemonKinds_def flyingPokemonKinds_def isPositionInvalid_def
      clamp_def wander_step_def draw_def Let_def
      p_stray_def p_sleep_def gs_stray_def gs0_def world0_def consts0_def env0_def)

theorem C9_dangling_home_is_homeless_witness:
  "structs (world gs_stray) = [] \<and> homeBuildingId p_stray = Some ''bld_gone''
   \<and> kind p_stray \<notin> set riverPokemonKinds
   \<and> pokemons gs_stray ! 0 = p_stray \<and> \<not> death_due p_stray 0 \<and> \<not> isSleeping p_stray
   \<and> clamp_step env0 p_stray gs_stray = homeless_clamp env0 p_stray gs_stray
   \<and> pk_x (fst (clamp_step env0 p_stray gs_stray)) = 50
   \<and> pk_y (fst (clamp_step env0 p_stray gs_stray)) = 950
   \<and> pokemon_tick consts0 env0 1 0 0 (gs_stray, [], [])
       = (gs_stray\<lparr>drawn := 1,
            pokemons := [p_stray\<lparr>actionTimer := Some 1, cooldown := 4, pk_x := 50, pk_y := 950\<rparr>]\<rparr>,
          [0], [])"
proof -
  have h: "\<forall>s \<in> set (structs (world gs_stray)). Some (b_id s) \<noteq> homeBuildingId p_stray"
    by (simp add: gs_stray_def gs0_def world0_def)
  have k: "kind p_stray \<notin> set riverPokemonKinds"
    by (simp add: p_stray_def p_sleep_def riverPokemonKinds_def)
  have v: "pk_x p_stray = 10" "pk_y p_stray = 2000" "world_w (world gs_stray) = 1000"
    "world_h (world gs_stray) = 1000"
    by (simp_all add: p_stray_def gs_stray_def gs0_def world0_def)
  have g: "structs (world gs_stray) = []" "homeBuildingId p_stray = Some ''bld_gone''"
    "pokemons gs_stray ! 0 = p_stray" "\<not> death_due p_stray 0" "\<not> isSleeping p_stray"
    by (simp_all add: gs_stray_def gs0_def world0_def p_stray_def p_sleep_def death_due_def)
  note t = C9_dangling_home_is_homeless [OF h, of consts0 env0 1 0 0 "[]" "[]" 0]
  from t have c1: "clamp_step env0 p_stray gs_stray = homeless_clamp env0 p_stray gs_stray" by blast
  from t k have "pk_x (fst (clamp_step env0 p_stray gs_stray)) = clamp (pk_x p_stray) 50 (world_w (world gs_stray) - 50)"
    and "pk_y (fst (clamp_step env0 p_stray gs_stray)) = clamp (pk_y p_stray) 50 (world_h (world gs_stray) - 50)"
    by blast+
  then have c2: "pk_x (fst (clamp_step env0 p_stray gs_stray)) = 50"
    and c3: "pk_y (fst (clamp_step env0 p_stray gs_stray)) = 950"
    by (simp_all add: v clamp_def)
  from t g have "pokemon_tick consts0 env0 1 0 0 (gs_stray, [], []) =
      (case behave consts0 env0 1 (p_stray\<lparr>homeBuildingId := None\<rparr>) gs_stray of
         (p', gs') \<Rightarrow>
           (gs'\<lparr>pokemons := (pokemons gs')[0 := p'\<lparr>homeBuildingId := homeBuildingId p_stray\<rparr>]\<rparr>,
            [] @ [0], []))"
    by simp
  then have c4: "pokemon_tick consts0 env0 1 0 0 (gs_stray, [], [])
       = (gs_stray\<lparr>drawn := 1,
            pokemons := [p_stray\<lparr>actionTimer := Some 1, cooldown := 4, pk_x := 50, pk_y := 950\<rparr>]\<rparr>,
          [0], [])"
    by (simp add: stray_homeless) (simp add: gs_stray_def p_stray_def)
  from g k c1 c2 c3 c4 show ?thesis by blast
qed

subsection \<open>Happiness after the daily pass\<close>

lemma bite_one_Inl [simp]: "bite_one C env tf i (Inl e) = Inl e"
  by (simp add: bite_one_def)

lemma fold_bite_Inl [simp]: "fold (bite_one C env tf) is (Inl e) = Inl e"
  by (induction "is") simp_all

lemma bite_one_kinds:
  assumes "POKEMON_ABILITIES C (kind (pokemons gs ! i)) \<noteq> None"
  shows "\<exists>g. bite_one C env tf i (Inr gs) = Inr g \<and> (\<forall>j. kind (pokemons g ! j) = kind (pokemons gs ! j))"
proof -
  have k: "kind ((xs[t := (xs ! t)\<lparr>happinessModifiers := m\<rparr>]) ! j) = kind (xs ! j)" for xs :: "Pokemon list" and t m j
    by (cases "t < length xs"; cases "j = t") (simp_all add: list_update_beyond not_less)
  from assms show ?thesis
    by (auto simp: bite_one_def Let_def k split: option.splits)
qed

lemma fold_bite_returns:
  "\<forall>i \<in> set is. POKEMON_ABILITIES C (kind (pokemons gs ! i)) \<noteq> None \<Longrightarrow>
   \<exists>g. fold (bite_one C env tf) is (Inr gs) = Inr g"
proof (induction "is" arbitrary: gs)
  case Nil
  show ?case by simp
next
  case (Cons i "is")
  from Cons.prems have "POKEMON_ABILITIES C (kind (pokemons gs ! i)) \<noteq> None" by simp
  from bite_one_kinds [OF this, of env tf]
  obtain g where b: "bite_one C env tf i (Inr gs) = Inr g"
    and k: "\<forall>j. kind (pokemons g ! j) = kind (pokemons gs ! j)" by blast
  from Cons.prems k have "\<forall>i \<in> set is. POKEMON_ABILITIES C (kind (pokemons g ! i)) \<noteq> None" by simp
  from Cons.IH [OF this] b show ?case by simp
qed

lemma updatePokemonHappiness_returns:
  assumes "POKEMON_ABILITIES C ''Ekans'' \<noteq> None" and "POKEMON_ABILITIES C ''Arbok'' \<noteq> None"
  shows "\<exists>gs'. updatePokemonHappiness C env gs = Inr gs'"
  unfolding updatePokemonHappiness_def ekans_bites_def Let_def
  by (rule fold_bite_returns) (use assms in auto)

text \<open>
  C6 (the code at a failing input). The bite of an Ekans is entered into the modifiers of
  the Torchic after the happiness has been computed, with one day left, and the next pass
  drops an entry with one day left before it sums: the entry never counts. An awake Ekans
  and an awake Torchic live in the same coop and the bite roll succeeds. After
  the pass the Torchic carries the pest stress of -5 and the bite of -20, and its happiness
  is 45, while 50 plus the sum of its modifiers, clamped, is 25. After the pass of the next
  day (no bite this time) the bite entry is gone and the happiness is 45 again.
\<close>

theorem C6_bite_never_counted:
  "updatePokemonHappiness consts0 env_low gs_bite = Inr gs_bitten
   \<and> happinessModifiers (pokemons gs_bitten ! 1)
       = [(key_praga, Flat (- 5)), (key_picada, Decaying (- 20) 1)]
   \<and> happiness (pokemons gs_bitten ! 1) = 45
   \<and> clamp (50 + sum_list (map (\<lambda>e. mod_value (snd e)) (happinessModifiers (pokemons gs_bitten ! 1)))) 0 100 = 25
   \<and> \<not> isl (updatePokemonHappiness consts0 env0 gs_bitten)
   \<and> map happinessModifiers (pokemons (projr (updatePokemonHappiness consts0 env0 gs_bitten)))
       = [[], [(key_praga, Flat (- 5))]]
   \<and> map happiness (pokemons (projr (updatePokemonHappiness consts0 env0 gs_bitten))) = [50, 45]"
  by code_simp

subsection \<open>What a step of the simulation leaves unchanged\<close>

lemma stable_updates [simp]:
  "stable (gs\<lparr>player := a\<rparr>) = stable gs" "stable (gs\<lparr>world := b\<rparr>) = stable gs"
  "stable (gs\<lparr>pokemons := c\<rparr>) = stable gs" "stable (gs\<lparr>gameTime := d\<rparr>) = stable gs"
  "stable (gs\<lparr>lastUpdateTimestamp := e\<rparr>) = stable gs" "stable (gs\<lparr>dailyIncome := f\<rparr>) = stable gs"
  "stable (gs\<lparr>dailySpawns := g\<rparr>) = stable gs" "stable (gs\<lparr>dailyResourceSpawns := h\<rparr>) = stable gs"
  "stable (gs\<lparr>respawnQueue := i\<rparr>) = stable gs" "stable (gs\<lparr>dailyPidgeyBonusCount := j\<rparr>) = stable gs"
  "stable (gs\<lparr>hasEncounteredEkans := k\<rparr>) = stable gs"
  "stable (gs\<lparr>hasEncounteredSpearow := l\<rparr>) = stable gs"
  "stable (gs\<lparr>eventQueue := m\<rparr>) = stable gs" "stable (gs\<lparr>drawn := n\<rparr>) = stable gs"
  by (simp_all add: stable_def crop_static_def)

lemma stable_fold:
  assumes "\<And>x g. stable (f x g) = stable g"
  shows "stable (fold f xs gs) = stable gs"
  by (induction xs arbitrary: gs) (simp_all add: assms)

lemma behave_stable: "behave_frame gs gs' \<Longrightarrow> stable gs' = stable gs"
  by (simp add: behave_frame_def stable_def)

lemma passive_income_one_stable [simp]: "stable (passive_income_one C dt mb p gs) = stable gs"
  by (simp add: passive_income_one_def Let_def split: option.splits)

lemma updatePassiveIncome_stable [simp]: "stable (updatePassiveIncome C gs dt) = stable gs"
  unfolding updatePassiveIncome_def Let_def
  by (rule stable_fold) simp

lemma pokemon_tick_stable:
  "stable (fst (pokemon_tick C env dt h i st)) = stable (fst st)"
proof -
  obtain g kp gh where st: "st = (g, kp, gh)" by (cases st) auto
  obtain p' g' where b: "behave C env dt (pokemons g ! i) g = (p', g')"
    by (cases "behave C env dt (pokemons g ! i) g") auto
  from behave_frame_behave [of g C env dt "pokemons g ! i"] b have "stable g' = stable g"
    by (simp add: behave_stable)
  then show ?thesis
    unfolding st by (simp add: pokemon_tick_def Let_def b)
qed

lemma fold_tick_stable:
  "stable (fst (fold (pokemon_tick C env dt h) is st)) = stable (fst st)"
  by (induction "is" arbitrary: st) (simp_all add: pokemon_tick_stable)

lemma updatePokemons_stable [simp]: "stable (updatePokemons C env gs dt) = stable gs"
proof -
  obtain g kp gh where l: "updatePokemons_loop C env gs dt = (g, kp, gh)"
    by (cases "updatePokemons_loop C env gs dt") auto
  from fold_tick_stable [of C env dt "hourOf (gameTime gs)" "[0..<length (pokemons gs)]" "(gs, [], [])"] l
  have "stable g = stable gs" by (simp add: updatePokemons_loop_def)
  then show ?thesis by (simp add: updatePokemons_def l)
qed

lemma fertile_spawn_stable [simp]: "stable (snd (fertile_spawn env gs b)) = stable gs"
  by (subst fertile_spawn_frame) simp

lemma combee_spawn_stable [simp]: "stable (combee_spawn C env r gs) = stable gs"
  by (simp add: combee_spawn_def Let_def)

lemma place_resource_stable [simp]: "stable (place_resource C env t x y gs) = stable gs"
  by (simp add: place_resource_def Let_def)

lemma spawn_item_stable [simp]: "stable (spawn_item C env t b gs) = stable gs"
proof -
  have "stable (snd (fertile_spawn env gs b)) = stable gs" by simp
  then show ?thesis
    by (cases "fertile_spawn env gs b") (auto simp: spawn_item_def split: option.splits prod.splits)
qed

lemma respawn_item_stable: "stable (fst (respawn_item C env t st)) = stable (fst st)"
  by (cases st) (simp add: respawn_item_def Let_def)

lemma fold_respawn_stable:
  "stable (fst (fold (respawn_item C env) ts st)) = stable (fst st)"
  by (induction ts arbitrary: st) (simp_all add: respawn_item_stable)

lemma updateWorld_stable [simp]: "stable (updateWorld C env gs dt) = stable gs"
  by (simp add: updateWorld_def Let_def fold_respawn_stable split: prod.splits)

lemma continuous_update_stable [simp]: "stable (continuous_update C env gs dt) = stable gs"
  by (simp add: continuous_update_def Let_def)

lemma reset_watering_static:
  "map (\<lambda>pl. (cp_id pl, cp_state pl, cp_type pl, growthDays pl, matureTimeInDays pl)) (reset_watering wt plots)
   = map (\<lambda>pl. (cp_id pl, cp_state pl, cp_type pl, growthDays pl, matureTimeInDays pl)) plots"
  by (simp add: reset_watering_def Let_def o_def)

lemma hunt_loop_stable:
  "stable (snd (hunt_loop C env tb prots avail removed gs)) = stable gs"
  by (induction C env tb prots avail removed gs rule: hunt_loop.induct)
     (simp_all split: list.splits option.splits)

lemma pest_control_stable [simp]: "stable (pest_control C env gs) = stable gs"
proof -
  let ?prots = "filter (\<lambda>p. kind p \<in> set PROTECTOR_TYPES \<and> \<not> isSleeping p) (pokemons gs)"
  let ?pests = "filter (\<lambda>p. kind p \<in> set PEST_TYPES \<and> \<not> isSleeping p) (pokemons gs)"
  let ?tb = "or_default (js_nth [0, 10 / 100, 15 / 100, 20 / 100] (real (treinador (skills (player gs))))) 0"
  obtain removed g1 where h: "hunt_loop C env ?tb ?prots ?pests [] gs = (removed, g1)"
    by (cases "hunt_loop C env ?tb ?prots ?pests [] gs") auto
  from hunt_loop_stable [of C env ?tb ?prots ?pests "[]" gs] h have "stable g1 = stable gs"
    by simp
  with h show ?thesis by (simp add: pest_control_def Let_def)
qed

lemma happiness_main_stable [simp]: "stable (happiness_main gs) = stable gs"
  by (simp add: happiness_main_def Let_def)

lemma bite_one_stable: "bite_one C env tf i (Inr gs) = Inr g \<Longrightarrow> stable g = stable gs"
  by (auto simp: bite_one_def Let_def split: option.splits if_splits)

lemma fold_bite_stable:
  "fold (bite_one C env tf) is (Inr gs) = Inr g \<Longrightarrow> stable g = stable gs"
proof (induction "is" arbitrary: gs)
  case Nil
  then show ?case by simp
next
  case (Cons i "is")
  show ?case
  proof (cases "bite_one C env tf i (Inr gs)")
    case (Inl e)
    with Cons.prems show ?thesis by simp
  next
    case (Inr g1)
    from Cons.IH [of g1] Cons.prems Inr bite_one_stable [OF Inr] show ?thesis by simp
  qed
qed

lemma updatePokemonHappiness_stable:
  "updatePokemonHappiness C env gs = Inr g \<Longrightarrow> stable g = stable gs"
  using fold_bite_stable [of C env _ _ "happiness_main gs" g]
  by (simp add: updatePokemonHappiness_def ekans_bites_def Let_def)

lemma daily_ability_one_stable [simp]: "stable (daily_ability_one C env p gs) = stable gs"
  by (simp add: daily_ability_one_def Let_def split: option.splits prod.splits)

lemma set_building_stable [simp]: "stable (set_building i b gs) = stable gs"
  by (simp add: set_building_def)

lemma set_resources_stable [simp]: "stable (set_resources rs gs) = stable gs"
  by (simp add: set_resources_def)

lemma revive_one_stable [simp]: "stable (revive_one C env i gs) = stable gs"
  by (simp add: revive_one_def Let_def split: option.splits)

lemma age_all_stable [simp]: "stable (age_all env gs) = stable gs"
  by (simp add: age_all_def split: prod.splits)

lemma daily_after_happiness_stable [simp]: "stable (daily_after_happiness C env gs) = stable gs"
  by (simp add: daily_after_happiness_def Let_def stable_fold)

lemma processDailyProduction_stable:
  assumes "processDailyProduction C env gs = Inr g"
  shows "stable g = stable gs"
proof -
  let ?g1 = "gs\<lparr>dailyIncome := [], dailySpawns := [], dailyResourceSpawns := [],
                cropPlots := reset_watering (weatherToday gs) (cropPlots gs)\<rparr>"
  have a: "stable ?g1 = stable gs"
    by (simp add: stable_def crop_static_def reset_watering_static)
  from assms obtain g3 where h: "updatePokemonHappiness C env (pest_control C env ?g1) = Inr g3"
    and g: "g = daily_after_happiness C env g3"
    by (auto simp: processDailyProduction_def Let_def split: sum.splits)
  from updatePokemonHappiness_stable [OF h] a g show ?thesis by simp
qed

lemma spawn_resident_stable [simp]: "stable (spawn_resident C env k b gs) = stable gs"
  by (simp add: spawn_resident_def Let_def)

lemma category_spawn_stable [simp]: "stable (category_spawn C env bs cap cnt k gs) = stable gs"
  by (simp add: category_spawn_def Let_def split: option.splits)

lemma farm_area_spawn_stable [simp]: "stable (farm_area_spawn C env a gs) = stable gs"
  by (simp add: farm_area_spawn_def Let_def)

lemma lake_spawn_stable [simp]: "stable (lake_spawn C env gs) = stable gs"
  by (simp add: lake_spawn_def Let_def split: list.splits)

lemma laboratory_spawn_stable [simp]: "stable (laboratory_spawn C env lab gs) = stable gs"
  by (simp add: laboratory_spawn_def Let_def)

lemma processDailySpawns_stable [simp]: "stable (processDailySpawns C env gs) = stable gs"
  by (simp add: processDailySpawns_def Let_def stable_fold)

lemma push_event_stable [simp]: "stable (push_event env ty msg gs) = stable gs"
  by (simp add: push_event_def)

lemma coop_visitor_stable [simp]: "stable (coop_visitor C env k b gs) = stable gs"
  by (simp add: coop_visitor_def Let_def)

lemma rattata_spawn_stable [simp]: "stable (rattata_spawn C env gs) = stable gs"
  by (simp add: rattata_spawn_def Let_def split: option.splits)

lemma ekans_spawn_stable [simp]: "stable (ekans_spawn C env gs) = stable gs"
  by (simp add: ekans_spawn_def split: list.splits)

lemma spearow_spawn_stable [simp]: "stable (spearow_spawn C env gs) = stable gs"
  by (simp add: spearow_spawn_def split: list.splits)

lemma processSpecialSpawns_stable [simp]: "stable (processSpecialSpawns C env gs) = stable gs"
  by (simp add: processSpecialSpawns_def)

lemma updatePokemonDayNightCycle_stable [simp]: "stable (updatePokemonDayNightCycle C gs) = stable gs"
  by (simp add: updatePokemonDayNightCycle_def Let_def)

subsection \<open>Day rollover\<close>

lemma stable_fields:
  "stable g = stable gs \<Longrightarrow>
   day g = day gs \<and> lastProductionDate g = lastProductionDate gs
   \<and> dayChangeHour g = dayChangeHour gs \<and> crop_static g = crop_static gs"
  by (simp add: stable_def)

lemma updateGame_same_date:
  assumes "lastProductionDate gs = dateStringBack env (dayChangeHour gs)"
  shows "updateGame C env gs dt = Inr (continuous_update C env gs dt, False)"
  using assms stable_fields [OF continuous_update_stable [of C env gs dt]]
  by (simp add: updateGame_def Let_def)

lemma updateGame_new_date:
  assumes "lastProductionDate gs \<noteq> dateStringBack env (dayChangeHour gs)"
    and "updateGame C env gs dt = Inr (g, b)"
  shows "b \<and> day g = day gs + 1 \<and> lastProductionDate g = dateStringBack env (dayChangeHour gs)
         \<and> crop_static g = crop_static gs"
proof -
  let ?g4 = "continuous_update C env gs dt"
  let ?ds = "dateStringBack env (dayChangeHour gs)"
  note s4 = stable_fields [OF continuous_update_stable [of C env gs dt]]
  let ?g4' = "?g4\<lparr>day := day ?g4 + 1, lastProductionDate := ?ds\<rparr>"
  from assms s4 obtain g5 where p: "processDailyProduction C env ?g4' = Inr g5"
    and g: "g = updatePokemonDayNightCycle C (processSpecialSpawns C env (processDailySpawns C env g5))"
    and b: "b"
    by (auto simp: updateGame_def Let_def split: sum.splits)
  from g have "stable g = stable g5" by simp
  also have "\<dots> = stable ?g4'" by (rule processDailyProduction_stable [OF p])
  finally have "stable g = stable ?g4'" .
  from stable_fields [OF this] s4 b show ?thesis by (simp add: crop_static_def)
qed

lemma processDailyProduction_returns:
  assumes "POKEMON_ABILITIES C ''Ekans'' \<noteq> None" and "POKEMON_ABILITIES C ''Arbok'' \<noteq> None"
  shows "\<exists>g. processDailyProduction C env gs = Inr g"
proof -
  let ?g2 = "pest_control C env (gs\<lparr>dailyIncome := [], dailySpawns := [], dailyResourceSpawns := [],
                cropPlots := reset_watering (weatherToday gs) (cropPlots gs)\<rparr>)"
  from updatePokemonHappiness_returns [OF assms, of env ?g2]
  obtain g3 where "updatePokemonHappiness C env ?g2 = Inr g3" by blast
  then show ?thesis by (simp add: processDailyProduction_def Let_def)
qed

lemma updateGame_returns:
  assumes "POKEMON_ABILITIES C ''Ekans'' \<noteq> None" and "POKEMON_ABILITIES C ''Arbok'' \<noteq> None"
  shows "\<exists>g b. updateGame C env gs dt = Inr (g, b)"
proof -
  let ?g4 = "continuous_update C env gs dt"
  let ?g4' = "?g4\<lparr>day := day ?g4 + 1, lastProductionDate := dateStringBack env (dayChangeHour ?g4)\<rparr>"
  from processDailyProduction_returns [OF assms, of env ?g4']
  obtain g5 where "processDailyProduction C env ?g4' = Inr g5" by blast
  then show ?thesis by (auto simp: updateGame_def Let_def)
qed

text \<open>
  C1 (amended). Whether a call of the entry point rolls the day over is decided by the
  wall clock, not by \<open>dt\<close>: the call returns \<open>false\<close> exactly when the date string of the
  environment (the wall clock moved back by \<open>dayChangeHour\<close>) equals \<open>lastProductionDate\<close>,
  and then it leaves \<open>day\<close> and \<open>lastProductionDate\<close> unchanged; a call that returns \<open>true\<close>
  has incremented \<open>day\<close> by one and recorded the date. So every sequence of calls, with
  \<open>dt = 0\<close> or any other, made while the date string equals \<open>lastProductionDate\<close> returns
  \<open>false\<close> at every call and leaves \<open>day\<close> unchanged.
\<close>

theorem C1_rollover_is_by_date:
  "((\<exists>g. updateGame C env gs dt = Inr (g, False))
      \<longleftrightarrow> lastProductionDate gs = dateStringBack env (dayChangeHour gs))
   \<and> (\<forall>g. updateGame C env gs dt = Inr (g, False) \<longrightarrow>
          day g = day gs \<and> lastProductionDate g = lastProductionDate gs)
   \<and> (\<forall>g. updateGame C env gs dt = Inr (g, True) \<longrightarrow>
          day g = day gs + 1 \<and> lastProductionDate g = dateStringBack env (dayChangeHour gs))
   \<and> ((\<forall>f \<in> set frames. dateStringBack (fst f) (dayChangeHour gs) = lastProductionDate gs) \<longrightarrow>
        (\<exists>g. advance_seq C frames gs = Inr (g, replicate (length frames) False)
             \<and> day g = day gs \<and> lastProductionDate g = lastProductionDate gs))"
proof -
  let ?ds = "dateStringBack env (dayChangeHour gs)"
  note s4 = stable_fields [OF continuous_update_stable]
  have a: "(\<exists>g. updateGame C env gs dt = Inr (g, False)) \<longleftrightarrow> lastProductionDate gs = ?ds"
    using updateGame_same_date [of gs env C dt] updateGame_new_date [of gs env C dt] by auto
  have b: "day g = day gs \<and> lastProductionDate g = lastProductionDate gs"
    if "updateGame C env gs dt = Inr (g, False)" for g
  proof -
    from that a have "lastProductionDate gs = ?ds" by blast
    from updateGame_same_date [OF this, of C dt] that s4 [of C env gs dt] show ?thesis by simp
  qed
  have c: "day g = day gs + 1 \<and> lastProductionDate g = ?ds"
    if "updateGame C env gs dt = Inr (g, True)" for g
  proof -
    from that updateGame_same_date [of gs env C dt] have "lastProductionDate gs \<noteq> ?ds" by auto
    from updateGame_new_date [OF this that] show ?thesis by simp
  qed
  have d: "(\<forall>f \<in> set frames. dateStringBack (fst f) (dayChangeHour g0) = lastProductionDate g0) \<longrightarrow>
        (\<exists>g. advance_seq C frames g0 = Inr (g, replicate (length frames) False)
             \<and> day g = day g0 \<and> lastProductionDate g = lastProductionDate g0)" for g0
  proof (induction frames arbitrary: g0)
    case Nil
    show ?case by simp
  next
    case (Cons f frames)
    show ?case
    proof
      assume h: "\<forall>f \<in> set (f # frames). dateStringBack (fst f) (dayChangeHour g0) = lastProductionDate g0"
      obtain e t where f: "f = (e, t)" by (cases f) auto
      let ?g1 = "continuous_update C e g0 t"
      from h f have "lastProductionDate g0 = dateStringBack e (dayChangeHour g0)" by simp
      from updateGame_same_date [OF this, of C t]
      have u: "updateGame C e g0 t = Inr (?g1, False)" .
      note s = s4 [of C e g0 t]
      from h s have "\<forall>f \<in> set frames. dateStringBack (fst f) (dayChangeHour ?g1) = lastProductionDate ?g1"
        by simp
      with Cons.IH [of ?g1] obtain g where
        "advance_seq C frames ?g1 = Inr (g, replicate (length frames) False)"
        "day g = day ?g1" "lastProductionDate g = lastProductionDate ?g1" by blast
      with u s f show "\<exists>g. advance_seq C (f # frames) g0 = Inr (g, replicate (length (f # frames)) False)
             \<and> day g = day g0 \<and> lastProductionDate g = lastProductionDate g0"
        by simp
    qed
  qed
  from a b c d [of gs] show ?thesis by blast
qed

lemma consts1_abilities:
  "POKEMON_ABILITIES consts1 ''Ekans'' \<noteq> None" "POKEMON_ABILITIES consts1 ''Arbok'' \<noteq> None"
  by (simp_all add: consts1_def)

text \<open>
  C1 (as stated, refuted). The state \<open>gs0\<close> last ran its daily pass on \<open>2024-1-1\<close> and the
  wall clock reads \<open>2024-1-2\<close>. A call with \<open>dt = 0\<close> returns \<open>true\<close> and moves \<open>day\<close> from 1
  to 2.
\<close>

theorem C1_rollover_at_dt_zero_counterexample:
  "\<not> isl (updateGame consts1 env0 gs0 0)
   \<and> snd (projr (updateGame consts1 env0 gs0 0))
   \<and> day gs0 = 1 \<and> day (fst (projr (updateGame consts1 env0 gs0 0))) = 2"
proof -
  from updateGame_returns [OF consts1_abilities, of env0 gs0 0]
  obtain g b where u: "updateGame consts1 env0 gs0 0 = Inr (g, b)" by blast
  have d: "lastProductionDate gs0 \<noteq> dateStringBack env0 (dayChangeHour gs0)"
    by (simp add: gs0_def env0_def)
  have "day gs0 = 1" by (simp add: gs0_def)
  with updateGame_new_date [OF d u] u show ?thesis by simp
qed

theorem C1_rollover_is_by_date_witness:
  "\<not> isl (advance_seq consts1 [(env1, 0), (env1, 0)] gs0)
   \<and> snd (projr (advance_seq consts1 [(env1, 0), (env1, 0)] gs0)) = [False, False]
   \<and> day (fst (projr (advance_seq consts1 [(env1, 0), (env1, 0)] gs0))) = 1"
proof -
  have h: "\<forall>f \<in> set [(env1, 0 :: real), (env1, 0)].
             dateStringBack (fst f) (dayChangeHour gs0) = lastProductionDate gs0"
    by (simp add: env1_def env0_def gs0_def)
  have "day gs0 = 1" by (simp add: gs0_def)
  with C1_rollover_is_by_date [of consts1 env1 gs0 0 "[(env1, 0), (env1, 0)]"] h
  obtain g where "advance_seq consts1 [(env1, 0), (env1, 0)] gs0 = Inr (g, [False, False])"
    and "day g = 1"
    by (auto simp: numeral_2_eq_2)
  then show ?thesis by simp
qed

lemma updateGame_crops:
  assumes "updateGame C env gs dt = Inr (g, b)"
  shows "crop_static g = crop_static gs"
proof (cases "lastProductionDate gs = dateStringBack env (dayChangeHour gs)")
  case True
  from updateGame_same_date [OF True, of C dt] assms
    stable_fields [OF continuous_update_stable [of C env gs dt]]
  show ?thesis by simp
next
  case False
  from updateGame_new_date [OF False assms] show ?thesis by simp
qed

lemma advance_seq_crops:
  "advance_seq C frames gs = Inr (g, bs) \<Longrightarrow> crop_static g = crop_static gs"
proof (induction frames arbitrary: gs bs)
  case Nil
  then show ?case by simp
next
  case (Cons f frames)
  obtain e t where f: "f = (e, t)" by (cases f) auto
  from Cons.prems f obtain g1 b bs' where u: "updateGame C e gs t = Inr (g1, b)"
    and r: "advance_seq C frames g1 = Inr (g, bs')"
    by (auto split: sum.splits prod.splits)
  from Cons.IH [OF r] updateGame_crops [OF u] show ?case by simp
qed

lemma advance_seq_returns:
  assumes "POKEMON_ABILITIES C ''Ekans'' \<noteq> None" and "POKEMON_ABILITIES C ''Arbok'' \<noteq> None"
  shows "\<exists>g bs. advance_seq C frames gs = Inr (g, bs)"
proof (induction frames arbitrary: gs)
  case Nil
  show ?case by simp
next
  case (Cons f frames)
  obtain e t where f: "f = (e, t)" by (cases f) auto
  from updateGame_returns [OF assms, of e gs t] obtain g1 b where "updateGame C e gs t = Inr (g1, b)"
    by blast
  with Cons.IH [of g1] f show ?case by auto
qed

text \<open>
  C2 (the code at a failing input). No step of the simulation changes the state, the type,
  \<open>growthDays\<close> or \<open>matureTimeInDays\<close> of a crop plot (lemmas \<open>updateGame_crops\<close> and
  \<open>advance_seq_crops\<close>): nothing in the sources increments \<open>growthDays\<close> or assigns
  \<open>'mature'\<close>. A plot planted with \<open>matureTimeInDays = 0.5\<close> is still growing, with
  \<open>growthDays = 0\<close>, after a frame of 12 hours, a frame of 12 hours with the day rollover
  and a frame of 24 hours.
\<close>

theorem C2_planted_plot_stays_growing:
  "cp_state (plant plot_empty ''seedGraoBaga'') = Growing
   \<and> matureTimeInDays (plant plot_empty ''seedGraoBaga'') = 1 / 2
   \<and> \<not> isl (advance_seq consts1 [(env1, 43200), (env0, 43200), (env0, 86400)] gs_crop)
   \<and> map cp_state (cropPlots (fst (projr
        (advance_seq consts1 [(env1, 43200), (env0, 43200), (env0, 86400)] gs_crop)))) = [Growing]
   \<and> map growthDays (cropPlots (fst (projr
        (advance_seq consts1 [(env1, 43200), (env0, 43200), (env0, 86400)] gs_crop)))) = [0]"
proof -
  let ?fr = "[(env1, 43200), (env0, 43200), (env0, 86400 :: real)]"
  from advance_seq_returns [OF consts1_abilities, of ?fr gs_crop]
  obtain g bs where a: "advance_seq consts1 ?fr gs_crop = Inr (g, bs)" by blast
  from advance_seq_crops [OF a] have "crop_static g = crop_static gs_crop" .
  then have "map (\<lambda>t. fst (snd t)) (crop_static g) = map (\<lambda>t. fst (snd t)) (crop_static gs_crop)"
    and "map (\<lambda>t. fst (snd (snd (snd t)))) (crop_static g) = map (\<lambda>t. fst (snd (snd (snd t)))) (crop_static gs_crop)"
    by simp_all
  then have "map cp_state (cropPlots g) = [Growing]" and "map growthDays (cropPlots g) = [0]"
    by (simp_all add: crop_static_def o_def gs_crop_def plant_def)
  with a show ?thesis by (simp add: plant_def)
qed

subsection \<open>Saving and loading\<close>

text \<open>Object.assign onto a freshly constructed object keeps every saved field; the fresh
  identifier and random draws of the constructor are overwritten.\<close>

lemma keep_default_None [simp]: "keep_default a None = a"
  by (simp add: keep_default_def split: option.splits)

lemma assign_new_Pokemon:
  "assign_Pokemon (fst (new_Pokemon C env n (kind p) (pk_x p) (pk_y p) (isShiny p))) p = pokemon_defaults p"
  by (simp add: assign_Pokemon_def new_Pokemon_def Let_def pokemon_defaults_def)

lemma assign_new_Resource:
  "assign_Resource (fst (new_Resource env n (r_type r) (r_x r) (r_y r) None)) r = resource_defaults r"
  by (simp add: assign_Resource_def new_Resource_def resource_defaults_def)

lemma fold_rehydrate_Pokemon:
  "fst (fold (rehydrate_Pokemon C env) ps (acc, n)) =
     acc @ map (\<lambda>p. (pokemon_defaults p)\<lparr>isNew := False\<rparr>) ps"
proof (induction ps arbitrary: acc n)
  case Nil
  show ?case by simp
next
  case (Cons p ps)
  obtain fresh n' where f: "new_Pokemon C env n (kind p) (pk_x p) (pk_y p) (isShiny p) = (fresh, n')"
    by (cases "new_Pokemon C env n (kind p) (pk_x p) (pk_y p) (isShiny p)") auto
  with assign_new_Pokemon [of C env n p] have "assign_Pokemon fresh p = pokemon_defaults p" by simp
  with f Cons.IH [of "acc @ [(pokemon_defaults p)\<lparr>isNew := False\<rparr>]" n'] show ?case
    by (simp add: rehydrate_Pokemon_def)
qed

lemma fold_rehydrate_Resource:
  "fst (fold (rehydrate_Resource env) rs (acc, n)) = acc @ map resource_defaults rs"
proof (induction rs arbitrary: acc n)
  case Nil
  show ?case by simp
next
  case (Cons r rs)
  obtain fresh n' where f: "new_Resource env n (r_type r) (r_x r) (r_y r) None = (fresh, n')"
    by (cases "new_Resource env n (r_type r) (r_x r) (r_y r) None") auto
  with assign_new_Resource [of env n r] have "assign_Resource fresh r = resource_defaults r" by simp
  with f Cons.IH [of "acc @ [resource_defaults r]" n'] show ?case
    by (simp add: rehydrate_Resource_def)
qed

lemma fold_rehydrate_Building:
  "fst (fold (rehydrate_Building env) bs (acc, n)) = acc @ bs"
  by (induction bs arbitrary: acc n) (simp_all add: rehydrate_Building_def new_Building_def)

lemma fold_rehydrate_CropPlot:
  "fst (fold (rehydrate_CropPlot env) cs (acc, n)) = acc @ cs"
  by (induction cs arbitrary: acc n) (simp_all add: rehydrate_CropPlot_def new_CropPlot_def)

lemma offline_zero:
  "nowMs env = lastUpdateTimestamp parsed \<Longrightarrow> offline_progress C env parsed = parsed"
  by (simp add: offline_progress_def Let_def)

text \<open>C7, as stated, fails on the flag isNew: a creature saved with isNew = true comes back
  from saveGame followed by rehydrateGameState, at the same clock reading, with isNew = false,
  so not every field of every creature has the value it had.\<close>

theorem C7_isNew_counterexample:
  "isNew (hd (pokemons gs_new))
   \<and> \<not> isNew (hd (pokemons (rehydrateGameState consts0 env0 gs0 (saveGame env0 gs_new))))"
  by (simp add: rehydrateGameState_def offline_progress_def saveGame_def Let_def
      rehydrate_Pokemon_def new_Pokemon_def gs_new_def gs0_def p_new_def p_sleep_def env0_def
      world0_def split: prod.splits)

text \<open>C7, amended. Saving a state and rehydrating it at the same clock reading (zero elapsed
  time) gives back the player, the crop plots and the buildings unchanged, and the world
  unchanged apart from its resources; every resource and creature keeps its id and every
  saved field, an optional field absent from the saved object being filled with what the
  constructor supplies (state bush for a wild plant, the counters torchicsCured and
  applesHarvested at 0 for the species that carry them), and every creature comes back with
  isNew = false. When the optional fields that the constructors always set are present,
  the world is equal to the original and the creatures differ from the originals in isNew
  only.\<close>

theorem C7_roundtrip:
  assumes "nowMs env' = nowMs env"
  shows "player (rehydrateGameState C env' base (saveGame env gs)) = player gs
    \<and> cropPlots (rehydrateGameState C env' base (saveGame env gs)) = cropPlots gs
    \<and> structs (world (rehydrateGameState C env' base (saveGame env gs))) = structs (world gs)
    \<and> resources (world (rehydrateGameState C env' base (saveGame env gs)))
        = map resource_defaults (resources (world gs))
    \<and> (world (rehydrateGameState C env' base (saveGame env gs)))\<lparr>resources := resources (world gs)\<rparr>
        = world gs
    \<and> pokemons (rehydrateGameState C env' base (saveGame env gs))
        = map (\<lambda>p. (pokemon_defaults p)\<lparr>isNew := False\<rparr>) (pokemons gs)
    \<and> ((\<forall>r \<in> set (resources (world gs)). r_type r = ''wild_plant'' \<longrightarrow> r_state r \<noteq> None) \<longrightarrow>
         world (rehydrateGameState C env' base (saveGame env gs)) = world gs)
    \<and> ((\<forall>p \<in> set (pokemons gs).
           (kind p \<in> set [''Happiny'', ''Chansey'', ''Blissey''] \<longrightarrow> torchicsCured p \<noteq> None)
           \<and> (kind p \<in> set [''Mankey'', ''Primeape'', ''Aipom'', ''Ambipom''] \<longrightarrow> applesHarvested p \<noteq> None)) \<longrightarrow>
         pokemons (rehydrateGameState C env' base (saveGame env gs))
           = map (\<lambda>p. p\<lparr>isNew := False\<rparr>) (pokemons gs))"
proof -
  let ?s = "saveGame env gs"
  let ?g = "rehydrateGameState C env' base ?s"
  have z: "offline_progress C env' ?s = ?s"
    by (rule offline_zero) (simp add: saveGame_def assms)
  have pl: "player ?g = player gs" and cp: "cropPlots ?g = cropPlots gs"
    and st: "structs (world ?g) = structs (world gs)"
    and rs: "resources (world ?g) = map resource_defaults (resources (world gs))"
    and wd: "(world ?g)\<lparr>resources := resources (world gs)\<rparr> = world gs"
    and ps: "pokemons ?g = map (\<lambda>p. (pokemon_defaults p)\<lparr>isNew := False\<rparr>) (pokemons gs)"
    unfolding rehydrateGameState_def Let_def z
    by (simp_all add: saveGame_def fold_rehydrate_Pokemon fold_rehydrate_Resource
        fold_rehydrate_Building fold_rehydrate_CropPlot)
  have r1: "map resource_defaults (resources (world gs)) = resources (world gs)"
    if "\<forall>r \<in> set (resources (world gs)). r_type r = ''wild_plant'' \<longrightarrow> r_state r \<noteq> None"
    using that by (intro map_idI) (auto simp: resource_defaults_def keep_default_def split: option.splits)
  have w1: "world ?g = world gs"
    if "\<forall>r \<in> set (resources (world gs)). r_type r = ''wild_plant'' \<longrightarrow> r_state r \<noteq> None"
  proof -
    from r1 [OF that] rs have "resources (world ?g) = resources (world gs)" by simp
    then have "(world ?g)\<lparr>resources := resources (world gs)\<rparr> = world ?g" by simp
    with wd show ?thesis by simp
  qed
  have p1: "map (\<lambda>p. (pokemon_defaults p)\<lparr>isNew := False\<rparr>) (pokemons gs)
              = map (\<lambda>p. p\<lparr>isNew := False\<rparr>) (pokemons gs)"
    if "\<forall>p \<in> set (pokemons gs).
           (kind p \<in> set [''Happiny'', ''Chansey'', ''Blissey''] \<longrightarrow> torchicsCured p \<noteq> None)
           \<and> (kind p \<in> set [''Mankey'', ''Primeape'', ''Aipom'', ''Ambipom''] \<longrightarrow> applesHarvested p \<noteq> None)"
  proof (rule map_cong [OF refl])
    fix p assume "p \<in> set (pokemons gs)"
    with that have a: "kind p \<in> set [''Happiny'', ''Chansey'', ''Blissey''] \<longrightarrow> torchicsCured p \<noteq> None"
      and b: "kind p \<in> set [''Mankey'', ''Primeape'', ''Aipom'', ''Ambipom''] \<longrightarrow> applesHarvested p \<noteq> None"
      by blast+
    have "pokemon_defaults p = p"
      using a b by (auto simp: pokemon_defaults_def keep_default_def split: option.splits)
    then show "(pokemon_defaults p)\<lparr>isNew := False\<rparr> = p\<lparr>isNew := False\<rparr>" by simp
  qed
  from pl cp st rs wd ps w1 p1 show ?thesis by simp
qed

text \<open>The round trip run on a state with one new creature.\<close>

theorem C7_roundtrip_witness:
  "nowMs env0 = nowMs env0
   \<and> player (rehydrateGameState consts0 env0 gs0 (saveGame env0 gs_new)) = player0
   \<and> pokemons (rehydrateGameState consts0 env0 gs0 (saveGame env0 gs_new)) = [p_sleep]"
proof -
  have v: "player gs_new = player0" "pokemons gs_new = [p_new]"
    "pokemon_defaults p_new = p_new" "p_new\<lparr>isNew := False\<rparr> = p_sleep"
    by (simp_all add: gs_new_def gs0_def p_new_def p_sleep_def pokemon_defaults_def)
  from C7_roundtrip [of env0 env0 consts0 gs0 gs_new, OF refl] show ?thesis
    by (simp add: v)
qed

end
